theory Spec2Isabelle
  imports Main
begin

section \<open>The VIO pipeline orchestrator (src/pipeline/Pipeline.cpp)\<close>

text \<open>
  A shallow embedding of \<^verbatim>\<open>VIO::Pipeline\<close>: \<^verbatim>\<open>spin\<close>, \<^verbatim>\<open>spinOnce\<close>,
  \<^verbatim>\<open>processKeyframe\<close>, \<^verbatim>\<open>spinDisplayOnce\<close>, \<^verbatim>\<open>initialize\<close>,
  \<^verbatim>\<open>initBackend\<close>, \<^verbatim>\<open>featureSelect\<close>, \<^verbatim>\<open>launchThreads\<close>,
  \<^verbatim>\<open>stopThreads\<close>, \<^verbatim>\<open>joinThreads\<close> and \<^verbatim>\<open>shutdown\<close>.

  The members and function-local statics that Pipeline.cpp owns are fields of one state record;
  every call on a collaborator (front-end, back-end, mesher, visualizer, queues, threads,
  logger, display) appends one event to the history kept in that record, in program order.
  The collaborators' own code is not part of Pipeline.cpp: what they compute is a parameter
  (\<open>Ext\<close>), and what the worker threads deliver on the output queues while one frame is
  processed is an input of that step (\<open>Env\<close>).
\<close>

subsection \<open>Values that Pipeline.cpp only carries\<close>

text \<open>
  Pipeline.cpp never computes on the following values; it receives them from one collaborator
  and hands them to another. Their representation is left open.
\<close>

typedecl Rot3
typedecl Pose3
typedecl Frame
typedecl ImuAccGyr \<comment> \<open>one column of the 6 x N matrix \<^verbatim>\<open>ImuAccGyrS\<close>\<close>
typedecl StereoPoint2
typedecl TrackerStatusSummary
typedecl TrackingStatus
typedecl Vec6f
typedecl Point3
typedecl LmkType
typedecl Plane
typedecl StateCovariance
typedecl FactorGraph
typedecl StateValues
typedecl gtNavState
typedecl Polygon2D
typedecl Polygon3D
typedecl Color
typedecl ImageToDisplay
typedecl VioBackEndOutputPayload

type_synonym Timestamp = int
type_synonym FrameId = nat
type_synonym LandmarkId = int

type_synonym ImuStampS = "Timestamp list" \<comment> \<open>1 x N matrix, as the list of its columns\<close>
type_synonym ImuAccGyrS = "ImuAccGyr list" \<comment> \<open>6 x N matrix, as the list of its columns\<close>

type_synonym SmartStereoMeasurements = "(LandmarkId \<times> StereoPoint2) list"
type_synonym StatusSmartStereoMeasurements = "TrackerStatusSummary \<times> SmartStereoMeasurements"

type_synonym PointsWithIdMap = "(LandmarkId \<times> Point3) list"
type_synonym LmkIdToLmkTypeMap = "(LandmarkId \<times> LmkType) list"
type_synonym Mesh3DColors = "Color list"

subsection \<open>Data model\<close>

record StereoFrame =
  frame_id :: FrameId
  frame_timestamp :: Timestamp
  isKeyframe :: bool
  left_frame :: Frame
  B_Pose_camLrect :: Pose3

record StereoImuSyncPacket =
  stereo_frame :: StereoFrame
  imu_stamps :: ImuStampS
  imu_accgyr :: ImuAccGyrS

text \<open>
  The values of \<^verbatim>\<open>FLAGS_viz_type\<close>, numbered as the flag's help text numbers them. The
  \<^verbatim>\<open>static_cast\<close> of \<^verbatim>\<open>processKeyframe\<close> accepts every integer; one that names no
  enumerator is kept as \<open>UNNAMED\<close>.
\<close>

datatype VisualizationType =
    POINTCLOUD
  | POINTCLOUD_REPEATEDPOINTS
  | MESH2D
  | MESH2DTo3D
  | MESH2Dsparse
  | MESH2DTo3Dsparse
  | MESH3D
  | NONE
  | UNNAMED int

definition static_cast_VisualizationType :: "int \<Rightarrow> VisualizationType" where
  "static_cast_VisualizationType i =
     (if i = 0 then POINTCLOUD
      else if i = 1 then POINTCLOUD_REPEATEDPOINTS
      else if i = 2 then MESH2D
      else if i = 3 then MESH2DTo3D
      else if i = 4 then MESH2Dsparse
      else if i = 5 then MESH2DTo3Dsparse
      else if i = 6 then MESH3D
      else if i = 7 then NONE
      else UNNAMED i)"

record Flags =
  log_output :: bool
  visualize :: bool
  visualize_lmk_type :: bool
  viz_type :: int
  use_feature_selection :: bool
  min_num_obs_for_mesher_points :: int
  regular_vio_backend_modality :: int

text \<open>The defaults of the \<^verbatim>\<open>DEFINE_\<close> lines 25 to 63.\<close>

definition default_Flags :: Flags where
  "default_Flags =
     \<lparr>log_output = False, visualize = True, visualize_lmk_type = False, viz_type = 0,
      use_feature_selection = False, min_num_obs_for_mesher_points = 4,
      regular_vio_backend_modality = 4\<rparr>"

text \<open>
  The members of \<^verbatim>\<open>StereoVisionFrontEnd\<close> that Pipeline.cpp reads. The two frames are
  shared pointers that Pipeline.cpp dereferences without a test; the record holds the
  pointees. The last field is the front-end's own memory of the frame its latest call
  received; Pipeline.cpp never reads it.
\<close>

record StereoVisionFrontEnd =
  stereoFrame_km1 :: StereoFrame
  stereoFrame_lkf :: StereoFrame
  kfTrackingStatus_stereo :: TrackingStatus
  relativePoseBodyStereo :: Pose3
  stereoFrame_k :: StereoFrame

record VioBackEndInputPayload =
  bi_timestamp_k :: Timestamp
  bi_status_smart_stereo_measurements :: StatusSmartStereoMeasurements
  bi_stereo_tracking_status :: TrackingStatus
  bi_imu_stamps :: ImuStampS
  bi_imu_accgyr :: ImuAccGyrS
  bi_planes :: "Plane list"
  bi_relative_pose_body_stereo :: Pose3

record MesherInputPayload =
  mi_points_with_id_VIO :: PointsWithIdMap
  mi_stereo_frame :: StereoFrame
  mi_left_camera_pose :: Pose3

record MesherOutputPayload =
  mo_mesh_2d :: "Polygon2D list"
  mo_mesh_3d :: "Polygon3D list"

text \<open>The value of the local \<^verbatim>\<open>MesherOutputPayload mesher_output_payload;\<close>\<close>

definition default_MesherOutputPayload :: MesherOutputPayload where
  "default_MesherOutputPayload = \<lparr>mo_mesh_2d = [], mo_mesh_3d = []\<rparr>"

record VisualizerInputPayload =
  vi_visualization_type :: VisualizationType
  vi_backend_type :: int
  vi_pose :: Pose3
  vi_mesh_2d :: "Vec6f list"
  vi_mesh_3d_colors :: Mesh3DColors
  vi_left_frame :: Frame
  vi_mesher_output_payload :: MesherOutputPayload
  vi_points_with_id_VIO :: PointsWithIdMap
  vi_lmk_id_to_lmk_type_map :: LmkIdToLmkTypeMap
  vi_planes :: "Plane list"
  vi_factors :: FactorGraph
  vi_state :: StateValues
  vi_points_3d :: "Point3 list"
  vi_timestamp_k :: Timestamp

record VisualizerOutputPayload =
  vo_visualization_type :: VisualizationType
  vo_images_to_display :: "ImageToDisplay list"

datatype Worker = BackendWorker | MesherWorker | VisualizerWorker

datatype QueueId =
    BackendInputQueue
  | BackendOutputQueue
  | MesherInputQueue
  | MesherOutputQueue
  | VisualizerInputQueue
  | VisualizerOutputQueue

datatype BackendKind = NormalVio | RegularVio int

text \<open>
  The calls that Pipeline.cpp makes on its collaborators, and the log lines it writes at
  WARNING level or for a keyframe. Each carries the arguments of the call.
\<close>

datatype Event =
    ProcessFirstStereoFrame StereoFrame
  | ConstructBackend BackendKind "gtNavState option" Timestamp ImuAccGyrS
  | DisplayInitialStateVioInfo
  | ThreadStart Worker
  | PreintegrateGyroMeasurements ImuStampS ImuAccGyrS
  | ProcessStereoFrame StereoFrame Rot3
  | LogInfoKeyframe FrameId nat
  | FeatureSelect StatusSmartStereoMeasurements
  | LogFrontendResults
  | BackendInputPush VioBackEndInputPayload
  | BackendOutputPopBlocking
  | LogBackendResults "VioBackEndOutputPayload option"
  | CreateMesh2D StereoFrame
  | CreateMesh2dStereo StereoFrame
  | GetMapLmkIdsTo3dPointsInTimeHorizon bool "int option"
  | Get3DPoints
  | MesherInputPush MesherInputPayload
  | MesherOutputPopBlocking
  | LogWarning string
  | SemanticMeshSegmentationCallback
  | VisualizerInputPush VisualizerInputPayload
  | VisualizerOutputPopBlocking
  | WindowSpinOnce
  | ImShow ImageToDisplay
  | WaitKey
  | QueueShutdown QueueId
  | WorkerShutdown Worker
  | ThreadJoin Worker
  | CloseLogFiles

datatype ThreadState = NotJoinable | Joinable

record Pipeline =
  is_initialized :: bool \<comment> \<open>\<^verbatim>\<open>static bool is_initialized\<close> of \<^verbatim>\<open>spin\<close>\<close>
  imu_stamps_lkf_to_curr_f :: ImuStampS \<comment> \<open>static of \<^verbatim>\<open>spinOnce\<close>\<close>
  imu_accgyr_lkf_to_curr_f :: ImuAccGyrS \<comment> \<open>static of \<^verbatim>\<open>spinOnce\<close>\<close>
  timestamp_lkf :: "Timestamp option"
    \<comment> \<open>static of \<^verbatim>\<open>spinOnce\<close>; \<open>None\<close> until its initialiser has run\<close>
  shutdown_flag :: bool
  stereo_vision_frontend :: StereoVisionFrontEnd
  vio_backend :: "BackendKind option"
  planes :: "Plane list"
  backend_input_queue_shutdown :: bool
  backend_output_queue_shutdown :: bool
  mesher_input_queue_shutdown :: bool
  mesher_output_queue_shutdown :: bool
  visualizer_input_queue_shutdown :: bool
  visualizer_output_queue_shutdown :: bool
  backend_thread :: ThreadState
  mesher_thread :: ThreadState
  visualizer_thread :: ThreadState
  events :: "Event list"

text \<open>
  How a call ends: it returns; or the process is terminated (\<^verbatim>\<open>LOG(FATAL)\<close>, a failed
  \<^verbatim>\<open>CHECK\<close>, \<^verbatim>\<open>std::terminate\<close>, an exception nobody in Pipeline.cpp catches); or the
  calling thread stays suspended in a blocking pop. Each carries the state reached.
\<close>

datatype Fatal =
    CheckFailed string
  | LogFatal string
  | StdSystemError Worker \<comment> \<open>\<^verbatim>\<open>join()\<close> on a thread that is not joinable\<close>
  | StdTerminate Worker \<comment> \<open>assignment to a \<^verbatim>\<open>std::thread\<close> that is joinable\<close>
  | NullDereference string \<comment> \<open>member call through a null \<^verbatim>\<open>unique_ptr\<close>\<close>

datatype Outcome = Returns Pipeline | Aborts Fatal Pipeline | Suspends Pipeline

definition emit :: "Event \<Rightarrow> Pipeline \<Rightarrow> Pipeline" where
  "emit e st = st\<lparr>events := events st @ [e]\<rparr>"

subsection \<open>The IMU accumulation of spinOnce\<close>

text \<open>
  Lines 135 to 158. \<^verbatim>\<open>conservativeResize\<close> to \<open>cols - 1 + n\<close> columns keeps the old
  columns, and \<^verbatim>\<open>rightCols(n) << imu_stamps\<close> then overwrites the last \<open>n\<close>: the first
  \<open>cols - 1\<close> old columns remain, followed by the packet's. The branch is chosen on the
  timestamp buffer alone. The first \<^verbatim>\<open>CHECK_GE(imu_accgyr.cols(), 0u)\<close> cannot fail, nor
  can \<^verbatim>\<open>CHECK_GT(imu_stamps_lkf_to_curr_f.cols(), 0)\<close> in the else branch.
\<close>

definition accumulateImu :: "Pipeline \<Rightarrow> StereoImuSyncPacket \<Rightarrow> Outcome" where
  "accumulateImu st pkt =
     (if length (imu_stamps_lkf_to_curr_f st) = 0 then
        Returns (st\<lparr>imu_stamps_lkf_to_curr_f := imu_stamps pkt,
                    imu_accgyr_lkf_to_curr_f := imu_accgyr pkt\<rparr>)
      else if \<not> 0 < length (imu_stamps pkt) then
        Aborts (CheckFailed ''imu_stamps.cols() > 0'') st
      else
        let st1 = st\<lparr>imu_stamps_lkf_to_curr_f :=
                      take (length (imu_stamps_lkf_to_curr_f st) - 1)
                        (imu_stamps_lkf_to_curr_f st) @ imu_stamps pkt\<rparr>
        in if \<not> 0 < length (imu_accgyr pkt) then
             Aborts (CheckFailed ''imu_accgyr.cols() > 0'') st1
           else if \<not> 0 < length (imu_accgyr_lkf_to_curr_f st1) then
             Aborts (CheckFailed ''imu_accgyr_lkf_to_curr_f.cols() > 0'') st1
           else
             Returns (st1\<lparr>imu_accgyr_lkf_to_curr_f :=
                        take (length (imu_accgyr_lkf_to_curr_f st1) - 1)
                          (imu_accgyr_lkf_to_curr_f st1) @ imu_accgyr pkt\<rparr>))"

subsection \<open>Collaborators\<close>

text \<open>
  What the code outside Pipeline.cpp computes, as parameters: the dataset parser's answers,
  the front-end's two tracking entry points (each returns the front-end as it leaves it),
  the back-end's gyro preintegration, the feature selector, the mesh constructors of the
  frames, the pose product, and the callback a client may have registered.
\<close>

record Ext =
  backend_type :: int
  isGroundTruthAvailable :: bool
  getGroundTruthState :: "Timestamp \<Rightarrow> gtNavState"
  timestamp_first_lkf :: Timestamp
  processFirstStereoFrame :: "StereoVisionFrontEnd \<Rightarrow> StereoFrame \<Rightarrow> StereoVisionFrontEnd"
  processStereoFrame ::
    "StereoVisionFrontEnd \<Rightarrow> StereoFrame \<Rightarrow> Rot3 \<Rightarrow>
       StatusSmartStereoMeasurements \<times> StereoVisionFrontEnd"
  preintegrateGyroMeasurements :: "ImuStampS \<Rightarrow> ImuAccGyrS \<Rightarrow> Rot3"
  splitTrackedAndNewFeatures_Select_Display ::
    "Timestamp \<Rightarrow> Timestamp \<Rightarrow> Pose3 \<Rightarrow> StereoFrame \<Rightarrow> SmartStereoMeasurements \<Rightarrow>
       int \<Rightarrow> int \<Rightarrow> StateCovariance \<Rightarrow> Frame \<Rightarrow> SmartStereoMeasurements"
  createMesh2D :: "Frame \<Rightarrow> Vec6f list"
  createMesh2dStereo :: "StereoFrame \<Rightarrow> Vec6f list"
  pose_compose :: "Pose3 \<Rightarrow> Pose3 \<Rightarrow> Pose3"
  semantic_mesh_segmentation_callback ::
    "(Frame \<Rightarrow> Polygon2D list \<Rightarrow> Polygon3D list \<Rightarrow> Mesh3DColors) option"

text \<open>
  What a worker has for the orchestrator when it pops that worker's output queue: a value that
  is already there, a value that arrives only after the pop has begun, a shutdown of the
  queue by another thread, or nothing at all.
\<close>

datatype 'a Reply = Available 'a | Later 'a | ShutDown | Silent

datatype 'a PopResult = Popped 'a | PopFailed | PopHangs

text \<open>
  Modelled from the spec: \<^verbatim>\<open>ThreadsafeQueue\<close> is not under src/. Section 4.3: push always
  succeeds while the channel is open; a blocking pop suspends the caller until a value is
  available or the channel is shut down, and then returns a failure indicator.
\<close>

definition popBlocking :: "bool \<Rightarrow> 'a Reply \<Rightarrow> 'a PopResult" where
  "popBlocking is_shutdown r =
     (if is_shutdown then PopFailed
      else case r of
             Available v \<Rightarrow> Popped v
           | Later v \<Rightarrow> Popped v
           | ShutDown \<Rightarrow> PopFailed
           | Silent \<Rightarrow> PopHangs)"

definition push_succeeds :: "bool \<Rightarrow> bool" where
  "push_succeeds is_shutdown = (\<not> is_shutdown)"

text \<open>
  The input of one step that comes from the other threads: the replies on the three output
  queues, and what the back-end's getters return (the back-end object is written by its own
  thread).
\<close>

record Env =
  backend_output :: "VioBackEndOutputPayload Reply"
  mesher_output :: "MesherOutputPayload Reply"
  visualizer_output :: "VisualizerOutputPayload Reply"
  W_Pose_Blkf :: Pose3
  B_Pose_leftCam :: Pose3
  currKfId :: int
  currentStateCovariance :: StateCovariance
  mapLmkIdsTo3dPointsInTimeHorizon :: "bool \<Rightarrow> int option \<Rightarrow> PointsWithIdMap \<times> LmkIdToLmkTypeMap"
  points3D :: "Point3 list"
  factorsUnsafe :: FactorGraph
  backendState :: StateValues

subsection \<open>spinDisplayOnce\<close>

definition spinDisplayOnce :: "VisualizerOutputPayload option \<Rightarrow> Pipeline \<Rightarrow> Pipeline" where
  "spinDisplayOnce visualizer_output_payload st =
     (case visualizer_output_payload of
        Some out \<Rightarrow>
          let st1 = (if vo_visualization_type out \<noteq> NONE then emit WindowSpinOnce st else st);
              st2 = foldl (\<lambda>s img. emit (ImShow img) s) st1 (vo_images_to_display out)
          in emit WaitKey st2
      | None \<Rightarrow> emit (LogWarning ''Visualizer is lagging behind pipeline processing.'') st)"

subsection \<open>featureSelect\<close>

text \<open>
  The poses at the future keyframes are computed from the ground truth in floating point and
  go to the selector only; the selector parameter receives what they are computed from. The
  status of the result is the status of the argument.
\<close>

definition featureSelect ::
  "Ext \<Rightarrow> Timestamp \<Rightarrow> Timestamp \<Rightarrow> Pose3 \<Rightarrow> StereoFrame \<Rightarrow> StatusSmartStereoMeasurements \<Rightarrow>
     int \<Rightarrow> int \<Rightarrow> StateCovariance \<Rightarrow> Frame \<Rightarrow> StatusSmartStereoMeasurements" where
  "featureSelect ex timestamp_k timestamp_lkf' W_Pose_Blkf' stereoFrame_km1'
       status_smart_stereo_meas cur_kf_id save_image_selector curr_state_cov left =
     (fst status_smart_stereo_meas,
      splitTrackedAndNewFeatures_Select_Display ex timestamp_k timestamp_lkf' W_Pose_Blkf'
        stereoFrame_km1' (snd status_smart_stereo_meas) cur_kf_id save_image_selector
        curr_state_cov left)"

subsection \<open>processKeyframe\<close>

text \<open>The payload constructed at lines 283 to 290.\<close>

definition backend_input_payload ::
  "Pipeline \<Rightarrow> StatusSmartStereoMeasurements \<Rightarrow> Timestamp \<Rightarrow> ImuStampS \<Rightarrow> ImuAccGyrS \<Rightarrow>
     VioBackEndInputPayload" where
  "backend_input_payload st ssm timestamp_k stamps accgyr =
     \<lparr>bi_timestamp_k = timestamp_k,
      bi_status_smart_stereo_measurements = ssm,
      bi_stereo_tracking_status = kfTrackingStatus_stereo (stereo_vision_frontend st),
      bi_imu_stamps = stamps,
      bi_imu_accgyr = accgyr,
      bi_planes = planes st,
      bi_relative_pose_body_stereo = relativePoseBodyStereo (stereo_vision_frontend st)\<rparr>"

text \<open>
  Lines 279 to 305: push to the back-end, pull from the back-end. The result of the push is
  not looked at; the popped pointer is used by the logger only.
\<close>

definition processKeyframe_backend ::
  "Flags \<Rightarrow> Ext \<Rightarrow> Env \<Rightarrow> Pipeline \<Rightarrow> StatusSmartStereoMeasurements \<Rightarrow> Timestamp \<Rightarrow>
     ImuStampS \<Rightarrow> ImuAccGyrS \<Rightarrow> Outcome" where
  "processKeyframe_backend fl ex env st ssm timestamp_k stamps accgyr =
     (let st1 = (if log_output fl then emit LogFrontendResults st else st);
          st2 = emit (BackendInputPush
                        (backend_input_payload st1 ssm timestamp_k stamps accgyr)) st1;
          st3 = emit BackendOutputPopBlocking st2
      in case popBlocking (backend_output_queue_shutdown st3) (backend_output env) of
           Popped v \<Rightarrow>
             Returns (if log_output fl then emit (LogBackendResults (Some v)) st3 else st3)
         | PopFailed \<Rightarrow>
             Returns (if log_output fl then emit (LogBackendResults None) st3 else st3)
         | PopHangs \<Rightarrow> Suspends st3)"

text \<open>The locals declared at lines 308 to 313 that the switch may fill.\<close>

record MeshLocals =
  mesh_2d :: "Vec6f list"
  points_with_id_VIO :: PointsWithIdMap
  lmk_id_to_lmk_type_map :: LmkIdToLmkTypeMap
  mesher_output_payload :: MesherOutputPayload
  points_3d :: "Point3 list"

definition initial_MeshLocals :: MeshLocals where
  "initial_MeshLocals =
     \<lparr>mesh_2d = [], points_with_id_VIO = [], lmk_id_to_lmk_type_map = [],
      mesher_output_payload = default_MesherOutputPayload, points_3d = []\<rparr>"

text \<open>
  Lines 315 to 376, the switch on the visualization type. A value without a case
  (\<^verbatim>\<open>MESH2DTo3D\<close>, \<^verbatim>\<open>MESH3D\<close>, an integer that names no enumerator) runs no case. The
  one-argument call of \<^verbatim>\<open>getMapLmkIdsTo3dPointsInTimeHorizon\<close> leaves the landmark-type
  pointer and the minimum age to the defaults of its declaration (\<open>False\<close>, \<open>None\<close>).
  \<^verbatim>\<open>popBlocking(mesher_output_payload)\<close> writes its argument only when it pops a value.
\<close>

definition processKeyframe_mesh :: "Flags \<Rightarrow> Ext \<Rightarrow> Env \<Rightarrow> Pipeline \<Rightarrow> MeshLocals \<times> Outcome" where
  "processKeyframe_mesh fl ex env st =
     (let l0 = initial_MeshLocals;
          lkf = stereoFrame_lkf (stereo_vision_frontend st)
      in case static_cast_VisualizationType (viz_type fl) of
           MESH2D \<Rightarrow>
             (l0\<lparr>mesh_2d := createMesh2D ex (left_frame lkf)\<rparr>,
              Returns (emit (CreateMesh2D lkf) st))
         | MESH2Dsparse \<Rightarrow>
             (l0\<lparr>mesh_2d := createMesh2dStereo ex lkf\<rparr>,
              Returns (emit (CreateMesh2dStereo lkf) st))
         | MESH2DTo3Dsparse \<Rightarrow>
             (let want_types = visualize_lmk_type fl;
                  min_obs = Some (min_num_obs_for_mesher_points fl);
                  res = mapLmkIdsTo3dPointsInTimeHorizon env want_types min_obs;
                  st1 = emit (GetMapLmkIdsTo3dPointsInTimeHorizon want_types min_obs) st;
                  l1 = l0\<lparr>points_with_id_VIO := fst res,
                          lmk_id_to_lmk_type_map := (if want_types then snd res else [])\<rparr>;
                  W_Pose_camlkf_vio = pose_compose ex (W_Pose_Blkf env) (B_Pose_leftCam env);
                  st2 = emit (MesherInputPush
                          \<lparr>mi_points_with_id_VIO = points_with_id_VIO l1,
                           mi_stereo_frame = lkf,
                           mi_left_camera_pose = W_Pose_camlkf_vio\<rparr>) st1
              in if \<not> push_succeeds (mesher_input_queue_shutdown st2) then
                   (l1, Aborts (CheckFailed ''mesher_input_queue_.push(...)'') st2)
                 else
                   let st3 = emit MesherOutputPopBlocking st2
                   in case popBlocking (mesher_output_queue_shutdown st3) (mesher_output env) of
                        Popped v \<Rightarrow> (l1\<lparr>mesher_output_payload := v\<rparr>, Returns st3)
                      | PopFailed \<Rightarrow>
                          (l1, Returns (emit (LogWarning
                                 ''Mesher output queue did not pop a payload.'') st3))
                      | PopHangs \<Rightarrow> (l1, Suspends st3))
         | POINTCLOUD_REPEATEDPOINTS \<Rightarrow>
             (l0\<lparr>points_3d := points3D env\<rparr>, Returns (emit Get3DPoints st))
         | POINTCLOUD \<Rightarrow>
             (l0\<lparr>points_with_id_VIO := fst (mapLmkIdsTo3dPointsInTimeHorizon env False None)\<rparr>,
              Returns (emit (GetMapLmkIdsTo3dPointsInTimeHorizon False None) st))
         | NONE \<Rightarrow> (l0, Returns st)
         | _ \<Rightarrow> (l0, Returns st))"

text \<open>
  The payload constructed at lines 381 to 407. The colours come from the callback when one is
  registered, and are default-constructed otherwise.
\<close>

definition visualizer_input_payload ::
  "Flags \<Rightarrow> Ext \<Rightarrow> Env \<Rightarrow> Pipeline \<Rightarrow> MeshLocals \<Rightarrow> Frame \<Rightarrow> Timestamp \<Rightarrow>
     VisualizerInputPayload" where
  "visualizer_input_payload fl ex env st l left_frame_for_semantic_segmentation timestamp_k =
     \<lparr>vi_visualization_type = static_cast_VisualizationType (viz_type fl),
      vi_backend_type = backend_type ex,
      vi_pose = pose_compose ex (W_Pose_Blkf env)
                  (B_Pose_camLrect (stereoFrame_km1 (stereo_vision_frontend st))),
      vi_mesh_2d = mesh_2d l,
      vi_mesh_3d_colors =
        (case semantic_mesh_segmentation_callback ex of
           Some callback \<Rightarrow>
             callback left_frame_for_semantic_segmentation
               (mo_mesh_2d (mesher_output_payload l)) (mo_mesh_3d (mesher_output_payload l))
         | None \<Rightarrow> []),
      vi_left_frame = left_frame (stereoFrame_lkf (stereo_vision_frontend st)),
      vi_mesher_output_payload = mesher_output_payload l,
      vi_points_with_id_VIO = points_with_id_VIO l,
      vi_lmk_id_to_lmk_type_map = lmk_id_to_lmk_type_map l,
      vi_planes = planes st,
      vi_factors = factorsUnsafe env,
      vi_state = backendState env,
      vi_points_3d = points_3d l,
      vi_timestamp_k = timestamp_k\<rparr>"

text \<open>
  Lines 378 to 414: push to the visualizer, pop its output with \<^verbatim>\<open>popBlocking\<close>,
  display.
\<close>

definition processKeyframe_visualize ::
  "Flags \<Rightarrow> Ext \<Rightarrow> Env \<Rightarrow> Pipeline \<Rightarrow> MeshLocals \<Rightarrow> Frame \<Rightarrow> Timestamp \<Rightarrow> Outcome" where
  "processKeyframe_visualize fl ex env st l left_frame_for_semantic_segmentation timestamp_k =
     (if visualize fl then
        let st1 = (case semantic_mesh_segmentation_callback ex of
                     Some callback \<Rightarrow> emit SemanticMeshSegmentationCallback st
                   | None \<Rightarrow> st);
            st2 = emit (VisualizerInputPush
                          (visualizer_input_payload fl ex env st1 l
                             left_frame_for_semantic_segmentation timestamp_k)) st1;
            st3 = emit VisualizerOutputPopBlocking st2
        in case popBlocking (visualizer_output_queue_shutdown st3) (visualizer_output env) of
             Popped v \<Rightarrow> Returns (spinDisplayOnce (Some v) st3)
           | PopFailed \<Rightarrow> Returns (spinDisplayOnce None st3)
           | PopHangs \<Rightarrow> Suspends st3
      else Returns st)"

text \<open>
  \<^verbatim>\<open>processKeyframe\<close> returns nothing and may write through its pointer argument
  \<^verbatim>\<open>statusSmartStereoMeasurements\<close>: the first component of the result is the value behind
  that pointer when the call ends.
\<close>

definition processKeyframe ::
  "Flags \<Rightarrow> Ext \<Rightarrow> Env \<Rightarrow> Pipeline \<Rightarrow> FrameId \<Rightarrow> StatusSmartStereoMeasurements \<Rightarrow> Frame \<Rightarrow>
     Timestamp \<Rightarrow> Timestamp \<Rightarrow> ImuStampS \<Rightarrow> ImuAccGyrS \<Rightarrow>
     StatusSmartStereoMeasurements \<times> Outcome" where
  "processKeyframe fl ex env st k ssm left_frame_for_semantic_segmentation timestamp_k
       timestamp_lkf' stamps accgyr =
     (if use_feature_selection fl then
        (featureSelect ex timestamp_k timestamp_lkf' (W_Pose_Blkf env)
           (stereoFrame_km1 (stereo_vision_frontend st)) ssm (currKfId env)
           (if visualize fl then 1 else 0) (currentStateCovariance env)
           (left_frame (stereoFrame_lkf (stereo_vision_frontend st))),
         Aborts (LogFatal ''Do not use feature selection in parallel mode.'')
           (emit (FeatureSelect ssm) st))
      else
        (ssm,
         case processKeyframe_backend fl ex env st ssm timestamp_k stamps accgyr of
           Returns st1 \<Rightarrow>
             (case processKeyframe_mesh fl ex env st1 of
                (l, Returns st2) \<Rightarrow>
                  processKeyframe_visualize fl ex env st2 l
                    left_frame_for_semantic_segmentation timestamp_k
              | (l, Aborts f st2) \<Rightarrow> Aborts f st2
              | (l, Suspends st2) \<Rightarrow> Suspends st2)
         | Aborts f st1 \<Rightarrow> Aborts f st1
         | Suspends st1 \<Rightarrow> Suspends st1))"

subsection \<open>spinOnce\<close>

text \<open>
  The static \<^verbatim>\<open>timestamp_lkf\<close> is initialised from the dataset when control first passes
  its declaration (line 170), after the accumulation. The keyframe test at line 201 reads the
  front-end after \<^verbatim>\<open>processStereoFrame\<close> has returned.
\<close>

definition timestamp_lkf_value :: "Ext \<Rightarrow> Pipeline \<Rightarrow> Timestamp" where
  "timestamp_lkf_value ex st =
     (case timestamp_lkf st of None \<Rightarrow> timestamp_first_lkf ex | Some t \<Rightarrow> t)"

text \<open>Lines 167 to 196, on the state that the accumulation has left.\<close>

definition spinOnce_track ::
  "Ext \<Rightarrow> Pipeline \<Rightarrow> StereoImuSyncPacket \<Rightarrow> StatusSmartStereoMeasurements \<times> Pipeline" where
  "spinOnce_track ex st1 pkt =
     (let stereoFrame_k' = stereo_frame pkt;
          st2 = st1\<lparr>timestamp_lkf := Some (timestamp_lkf_value ex st1)\<rparr>;
          rot = preintegrateGyroMeasurements ex (imu_stamps_lkf_to_curr_f st2)
                  (imu_accgyr_lkf_to_curr_f st2);
          st3 = emit (PreintegrateGyroMeasurements (imu_stamps_lkf_to_curr_f st2)
                  (imu_accgyr_lkf_to_curr_f st2)) st2;
          tracked = processStereoFrame ex (stereo_vision_frontend st3) stereoFrame_k' rot
      in (fst tracked,
          emit (ProcessStereoFrame stereoFrame_k' rot)
            (st3\<lparr>stereo_vision_frontend := snd tracked\<rparr>)))"

definition spinOnce :: "Flags \<Rightarrow> Ext \<Rightarrow> Env \<Rightarrow> Pipeline \<Rightarrow> StereoImuSyncPacket \<Rightarrow> Outcome" where
  "spinOnce fl ex env st pkt =
     (case accumulateImu st pkt of
        Returns st1 \<Rightarrow>
          (let stereoFrame_k' = stereo_frame pkt;
               k = frame_id stereoFrame_k';
               statusSmartStereoMeasurements = fst (spinOnce_track ex st1 pkt);
               st4 = snd (spinOnce_track ex st1 pkt)
           in if isKeyframe (stereoFrame_km1 (stereo_vision_frontend st4)) then
                (let st5 = emit (LogInfoKeyframe k
                             (length (snd statusSmartStereoMeasurements))) st4
                 in case snd (processKeyframe fl ex env st5 k statusSmartStereoMeasurements
                               (left_frame stereoFrame_k') (frame_timestamp stereoFrame_k')
                               (timestamp_lkf_value ex st1)
                               (imu_stamps_lkf_to_curr_f st5) (imu_accgyr_lkf_to_curr_f st5)) of
                      Returns st6 \<Rightarrow>
                        Returns (st6\<lparr>imu_stamps_lkf_to_curr_f := [],
                                     imu_accgyr_lkf_to_curr_f := [],
                                     timestamp_lkf := Some (frame_timestamp stereoFrame_k')\<rparr>)
                    | Aborts f st6 \<Rightarrow> Aborts f st6
                    | Suspends st6 \<Rightarrow> Suspends st6)
              else Returns st4)
      | Aborts f st1 \<Rightarrow> Aborts f st1
      | Suspends st1 \<Rightarrow> Suspends st1)"

subsection \<open>initialize, initBackend, launchThreads and spin\<close>

definition initialStateGT :: "Ext \<Rightarrow> StereoImuSyncPacket \<Rightarrow> gtNavState option" where
  "initialStateGT ex pkt =
     (if isGroundTruthAvailable ex
      then Some (getGroundTruthState ex (frame_timestamp (stereo_frame pkt)))
      else None)"

definition initBackend ::
  "Flags \<Rightarrow> Ext \<Rightarrow> Pipeline \<Rightarrow> gtNavState option \<Rightarrow> Timestamp \<Rightarrow> ImuAccGyrS \<Rightarrow> Outcome" where
  "initBackend fl ex st initial_state_gt timestamp_k accgyr =
     (if backend_type ex = 0 then
        Returns (emit (ConstructBackend NormalVio initial_state_gt timestamp_k accgyr)
                   (st\<lparr>vio_backend := Some NormalVio\<rparr>))
      else if backend_type ex = 1 then
        Returns (emit (ConstructBackend (RegularVio (regular_vio_backend_modality fl))
                         initial_state_gt timestamp_k accgyr)
                   (st\<lparr>vio_backend := Some (RegularVio (regular_vio_backend_modality fl))\<rparr>))
      else Aborts (LogFatal ''Requested backend type is not supported.'') st)"

definition initialize :: "Flags \<Rightarrow> Ext \<Rightarrow> Pipeline \<Rightarrow> StereoImuSyncPacket \<Rightarrow> Outcome" where
  "initialize fl ex st pkt =
     (let st1 = emit (ProcessFirstStereoFrame (stereo_frame pkt))
                  (st\<lparr>stereo_vision_frontend :=
                        processFirstStereoFrame ex (stereo_vision_frontend st) (stereo_frame pkt)\<rparr>)
      in case initBackend fl ex st1 (initialStateGT ex pkt)
                (frame_timestamp (stereo_frame pkt)) (imu_accgyr pkt) of
           Returns st2 \<Rightarrow>
             (if log_output fl then
                (if initialStateGT ex pkt = None
                 then Aborts (CheckFailed ''initialStateGT.get() != nullptr'') st2
                 else Returns (emit DisplayInitialStateVioInfo st2))
              else Returns st2)
         | Aborts f st2 \<Rightarrow> Aborts f st2
         | Suspends st2 \<Rightarrow> Suspends st2)"

text \<open>
  Move-assigning to a \<^verbatim>\<open>std::thread\<close> that is joinable calls \<^verbatim>\<open>std::terminate\<close>;
  otherwise the member becomes the new, joinable thread.
\<close>

definition launchThreads :: "Pipeline \<Rightarrow> Outcome" where
  "launchThreads st =
     (if backend_thread st = Joinable then Aborts (StdTerminate BackendWorker) st
      else
        let st1 = emit (ThreadStart BackendWorker) (st\<lparr>backend_thread := Joinable\<rparr>)
        in if mesher_thread st1 = Joinable then Aborts (StdTerminate MesherWorker) st1
           else
             let st2 = emit (ThreadStart MesherWorker) (st1\<lparr>mesher_thread := Joinable\<rparr>)
             in if visualizer_thread st2 = Joinable
                then Aborts (StdTerminate VisualizerWorker) st2
                else Returns (emit (ThreadStart VisualizerWorker)
                                (st2\<lparr>visualizer_thread := Joinable\<rparr>)))"

text \<open>\<^verbatim>\<open>spin\<close> returns \<^verbatim>\<open>true\<close> on both paths; the model keeps the state only.\<close>

definition spin :: "Flags \<Rightarrow> Ext \<Rightarrow> Env \<Rightarrow> Pipeline \<Rightarrow> StereoImuSyncPacket \<Rightarrow> Outcome" where
  "spin fl ex env st pkt =
     (if \<not> is_initialized st then
        (case initialize fl ex st pkt of
           Returns st1 \<Rightarrow>
             (case launchThreads st1 of
                Returns st2 \<Rightarrow> Returns (st2\<lparr>is_initialized := True\<rparr>)
              | Aborts f st2 \<Rightarrow> Aborts f st2
              | Suspends st2 \<Rightarrow> Suspends st2)
         | Aborts f st1 \<Rightarrow> Aborts f st1
         | Suspends st1 \<Rightarrow> Suspends st1)
      else spinOnce fl ex env st pkt)"

text \<open>A caller that feeds packets to \<^verbatim>\<open>spin\<close> one after the other, while each call returns.\<close>

fun spin_all :: "Flags \<Rightarrow> Ext \<Rightarrow> Pipeline \<Rightarrow> (StereoImuSyncPacket \<times> Env) list \<Rightarrow> Outcome" where
  "spin_all fl ex st [] = Returns st"
| "spin_all fl ex st (p # rest) =
     (case spin fl ex (snd p) st (fst p) of
        Returns st' \<Rightarrow> spin_all fl ex st' rest
      | Aborts f st' \<Rightarrow> Aborts f st'
      | Suspends st' \<Rightarrow> Suspends st')"

subsection \<open>stopThreads, joinThreads and shutdown\<close>

text \<open>
  \<^verbatim>\<open>vio_backend_\<close> is null until \<^verbatim>\<open>initBackend\<close> has constructed the back-end. Line 632
  calls \<^verbatim>\<open>shutdown()\<close> through it, after the two back-end queues have been shut down: on a
  null pointer the call does not come back and nothing after it is executed. The mesher and
  the visualizer are members, not pointers.
\<close>

definition stopThreads :: "Pipeline \<Rightarrow> Outcome" where
  "stopThreads st =
     (let st1 = emit (QueueShutdown BackendInputQueue) (st\<lparr>backend_input_queue_shutdown := True\<rparr>);
          st2 = emit (QueueShutdown BackendOutputQueue) (st1\<lparr>backend_output_queue_shutdown := True\<rparr>)
      in if vio_backend st2 = None then Aborts (NullDereference ''vio_backend_'') st2
         else
           let st3 = emit (WorkerShutdown BackendWorker) st2;
               st4 = emit (QueueShutdown MesherInputQueue)
                       (st3\<lparr>mesher_input_queue_shutdown := True\<rparr>);
               st5 = emit (QueueShutdown MesherOutputQueue)
                       (st4\<lparr>mesher_output_queue_shutdown := True\<rparr>);
               st6 = emit (WorkerShutdown MesherWorker) st5;
               st7 = emit (QueueShutdown VisualizerInputQueue)
                       (st6\<lparr>visualizer_input_queue_shutdown := True\<rparr>);
               st8 = emit (QueueShutdown VisualizerOutputQueue)
                       (st7\<lparr>visualizer_output_queue_shutdown := True\<rparr>)
           in Returns (emit (WorkerShutdown VisualizerWorker) st8))"

text \<open>
  \<^verbatim>\<open>std::thread::join\<close> throws \<^verbatim>\<open>std::system_error\<close> when the thread is not joinable
  (never started, or joined before), and Pipeline.cpp has no handler. On a joinable thread it
  returns when the worker has left its loop, after which the thread is no longer joinable.
  Modelled from the spec: the worker loops are not under src/. Section 5: a worker observes
  the shutdown of its input channel and leaves its loop, so a join that follows
  \<^verbatim>\<open>stopThreads\<close> returns.
\<close>

definition joinThreads :: "Pipeline \<Rightarrow> Outcome" where
  "joinThreads st =
     (let st1 = emit (ThreadJoin BackendWorker) st
      in if backend_thread st1 \<noteq> Joinable then Aborts (StdSystemError BackendWorker) st1
         else
           let st2 = emit (ThreadJoin MesherWorker) (st1\<lparr>backend_thread := NotJoinable\<rparr>)
           in if mesher_thread st2 \<noteq> Joinable then Aborts (StdSystemError MesherWorker) st2
              else
                let st3 = emit (ThreadJoin VisualizerWorker) (st2\<lparr>mesher_thread := NotJoinable\<rparr>)
                in if visualizer_thread st3 \<noteq> Joinable
                   then Aborts (StdSystemError VisualizerWorker) st3
                   else Returns (st3\<lparr>visualizer_thread := NotJoinable\<rparr>))"

definition shutdown :: "Flags \<Rightarrow> Pipeline \<Rightarrow> Outcome" where
  "shutdown fl st =
     (case stopThreads (st\<lparr>shutdown_flag := True\<rparr>) of
        Returns st1 \<Rightarrow>
          (case joinThreads st1 of
             Returns st2 \<Rightarrow> Returns (if log_output fl then emit CloseLogFiles st2 else st2)
           | Aborts f st2 \<Rightarrow> Aborts f st2
           | Suspends st2 \<Rightarrow> Suspends st2)
      | Aborts f st1 \<Rightarrow> Aborts f st1
      | Suspends st1 \<Rightarrow> Suspends st1)"

subsection \<open>Consecutive accumulation steps\<close>

text \<open>
  The accumulation steps of consecutive calls of \<^verbatim>\<open>spinOnce\<close>, as long as none of them
  resets the matrices at line 217: between two steps \<^verbatim>\<open>spinOnce\<close> writes neither matrix.
\<close>

fun accumulate_frames :: "Pipeline \<Rightarrow> StereoImuSyncPacket list \<Rightarrow> Outcome" where
  "accumulate_frames st [] = Returns st"
| "accumulate_frames st (pkt # pkts) =
     (case accumulateImu st pkt of
        Returns st' \<Rightarrow> accumulate_frames st' pkts
      | Aborts f st' \<Rightarrow> Aborts f st'
      | Suspends st' \<Rightarrow> Suspends st')"

text \<open>
  The windows of consecutive packets: each starts no earlier than the last timestamp of the
  window before it.
\<close>

fun consecutive_windows :: "StereoImuSyncPacket list \<Rightarrow> bool" where
  "consecutive_windows [] = True"
| "consecutive_windows [p] = True"
| "consecutive_windows (p # q # ps) =
     (last (imu_stamps p) \<le> hd (imu_stamps q) \<and> consecutive_windows (q # ps))"

text \<open>
  What the claim describes: of every window but the last, all samples but the final one;
  then the last window whole.
\<close>

definition joined_windows :: "'a list list \<Rightarrow> 'a list" where
  "joined_windows ws = concat (map butlast (butlast ws)) @ last ws"

subsection \<open>The constructed pipeline\<close>

text \<open>
  The state after the constructor (lines 76 to 94), with the statics at their initialisers:
  empty accumulation matrices, no thread started, every queue open.
\<close>

definition constructed_Pipeline :: "StereoVisionFrontEnd \<Rightarrow> Pipeline" where
  "constructed_Pipeline fe =
     \<lparr>is_initialized = False,
      imu_stamps_lkf_to_curr_f = [],
      imu_accgyr_lkf_to_curr_f = [],
      timestamp_lkf = None,
      shutdown_flag = False,
      stereo_vision_frontend = fe,
      vio_backend = None,
      planes = [],
      backend_input_queue_shutdown = False,
      backend_output_queue_shutdown = False,
      mesher_input_queue_shutdown = False,
      mesher_output_queue_shutdown = False,
      visualizer_input_queue_shutdown = False,
      visualizer_output_queue_shutdown = False,
      backend_thread = NotJoinable,
      mesher_thread = NotJoinable,
      visualizer_thread = NotJoinable,
      events = []\<rparr>"

subsection \<open>Observing a call\<close>

definition state_of :: "Outcome \<Rightarrow> Pipeline" where
  "state_of r = (case r of Returns s \<Rightarrow> s | Aborts f s \<Rightarrow> s | Suspends s \<Rightarrow> s)"

definition returns :: "Outcome \<Rightarrow> bool" where
  "returns r = (case r of Returns s \<Rightarrow> True | Aborts f s \<Rightarrow> False | Suspends s \<Rightarrow> False)"

text \<open>The events that a call has added to the history of the state it started from.\<close>

definition new_events :: "Pipeline \<Rightarrow> Outcome \<Rightarrow> Event list" where
  "new_events st r = drop (length (events st)) (events (state_of r))"

text \<open>A state that differs from another by events added at the end of the history.\<close>

definition only_appends :: "Pipeline \<Rightarrow> Pipeline \<Rightarrow> bool" where
  "only_appends st st' =
     (st' = st\<lparr>events := events st @ drop (length (events st)) (events st')\<rparr>)"

fun is_BackendInputPush :: "Event \<Rightarrow> bool" where
  "is_BackendInputPush (BackendInputPush p) = True"
| "is_BackendInputPush _ = False"

fun is_VisualizerInputPush :: "Event \<Rightarrow> bool" where
  "is_VisualizerInputPush (VisualizerInputPush p) = True"
| "is_VisualizerInputPush _ = False"

fun is_LandmarkMapQuery :: "Event \<Rightarrow> bool" where
  "is_LandmarkMapQuery (GetMapLmkIdsTo3dPointsInTimeHorizon want_types min_obs) = True"
| "is_LandmarkMapQuery _ = False"

fun is_LogInfoKeyframe :: "Event \<Rightarrow> bool" where
  "is_LogInfoKeyframe (LogInfoKeyframe k n) = True"
| "is_LogInfoKeyframe _ = False"

fun is_display :: "Event \<Rightarrow> bool" where
  "is_display WindowSpinOnce = True"
| "is_display (ImShow img) = True"
| "is_display WaitKey = True"
| "is_display _ = False"

fun is_ProcessStereoFrame :: "Event \<Rightarrow> bool" where
  "is_ProcessStereoFrame (ProcessStereoFrame f rot) = True"
| "is_ProcessStereoFrame _ = False"

text \<open>The computations that the switch on the visualization type can run.\<close>

fun is_mesh_computation :: "Event \<Rightarrow> bool" where
  "is_mesh_computation (CreateMesh2D f) = True"
| "is_mesh_computation (CreateMesh2dStereo f) = True"
| "is_mesh_computation (GetMapLmkIdsTo3dPointsInTimeHorizon want_types min_obs) = True"
| "is_mesh_computation Get3DPoints = True"
| "is_mesh_computation _ = False"

text \<open>The events of the back-end queues.\<close>

fun is_backend_queue_event :: "Event \<Rightarrow> bool" where
  "is_backend_queue_event (BackendInputPush p) = True"
| "is_backend_queue_event BackendOutputPopBlocking = True"
| "is_backend_queue_event _ = False"

text \<open>The events that the switch on the visualization type can add.\<close>

fun is_mesh_stage_event :: "Event \<Rightarrow> bool" where
  "is_mesh_stage_event (CreateMesh2D f) = True"
| "is_mesh_stage_event (CreateMesh2dStereo f) = True"
| "is_mesh_stage_event (GetMapLmkIdsTo3dPointsInTimeHorizon want_types min_obs) = True"
| "is_mesh_stage_event Get3DPoints = True"
| "is_mesh_stage_event (MesherInputPush p) = True"
| "is_mesh_stage_event MesherOutputPopBlocking = True"
| "is_mesh_stage_event (LogWarning msg) = True"
| "is_mesh_stage_event _ = False"

text \<open>The events that lines 378 to 414 can add.\<close>

fun is_visualize_stage_event :: "Event \<Rightarrow> bool" where
  "is_visualize_stage_event SemanticMeshSegmentationCallback = True"
| "is_visualize_stage_event (VisualizerInputPush p) = True"
| "is_visualize_stage_event VisualizerOutputPopBlocking = True"
| "is_visualize_stage_event WindowSpinOnce = True"
| "is_visualize_stage_event (ImShow img) = True"
| "is_visualize_stage_event WaitKey = True"
| "is_visualize_stage_event (LogWarning msg) = True"
| "is_visualize_stage_event _ = False"

text \<open>The payloads pushed to the back-end and to the visualizer, in order.\<close>

fun backend_pushes :: "Event list \<Rightarrow> VioBackEndInputPayload list" where
  "backend_pushes [] = []"
| "backend_pushes (BackendInputPush p # es) = p # backend_pushes es"
| "backend_pushes (e # es) = backend_pushes es"

fun visualizer_pushes :: "Event list \<Rightarrow> VisualizerInputPayload list" where
  "visualizer_pushes [] = []"
| "visualizer_pushes (VisualizerInputPush p # es) = p # visualizer_pushes es"
| "visualizer_pushes (e # es) = visualizer_pushes es"

subsection \<open>A stub front-end\<close>

text \<open>
  Modelled from the spec: \<^verbatim>\<open>StereoVisionFrontEnd\<close> is not under src/. Sections 4.1 and 6:
  the front-end processes one frame per call, returns the tracking result of that frame,
  decides whether that frame is a keyframe, and exposes the last two processed frames; after
  the call for frame k, \<^verbatim>\<open>stereoFrame_km1_\<close> is the frame processed by the call before
  (the one-frame lag of section 4.1). The stub marks the frames whose id satisfies
  \<open>marked\<close>, and returns for frame k one smart measurement whose landmark id is k. It
  comes with the normal back-end, no ground truth and no segmentation callback.
\<close>

definition stub_processStereoFrame ::
  "(FrameId \<Rightarrow> bool) \<Rightarrow> TrackerStatusSummary \<Rightarrow> StereoPoint2 \<Rightarrow>
     StereoVisionFrontEnd \<Rightarrow> StereoFrame \<Rightarrow> Rot3 \<Rightarrow>
     StatusSmartStereoMeasurements \<times> StereoVisionFrontEnd" where
  "stub_processStereoFrame marked summary pt fe cur rot =
     (let cur' = cur\<lparr>isKeyframe := marked (frame_id cur)\<rparr>
      in ((summary, [(int (frame_id cur), pt)]),
          fe\<lparr>stereoFrame_km1 := stereoFrame_k fe,
             stereoFrame_lkf := (if marked (frame_id cur) then cur' else stereoFrame_lkf fe),
             stereoFrame_k := cur'\<rparr>))"

definition stub_processFirstStereoFrame ::
  "(FrameId \<Rightarrow> bool) \<Rightarrow> StereoVisionFrontEnd \<Rightarrow> StereoFrame \<Rightarrow> StereoVisionFrontEnd" where
  "stub_processFirstStereoFrame marked fe first =
     (let first' = first\<lparr>isKeyframe := marked (frame_id first)\<rparr>
      in fe\<lparr>stereoFrame_km1 := first', stereoFrame_lkf := first', stereoFrame_k := first'\<rparr>)"

definition stub_Ext :: "(FrameId \<Rightarrow> bool) \<Rightarrow> TrackerStatusSummary \<Rightarrow> StereoPoint2 \<Rightarrow> Ext \<Rightarrow> Ext" where
  "stub_Ext marked summary pt ex =
     ex\<lparr>backend_type := 0,
        isGroundTruthAvailable := False,
        processFirstStereoFrame := stub_processFirstStereoFrame marked,
        processStereoFrame := stub_processStereoFrame marked summary pt,
        semantic_mesh_segmentation_callback := None\<rparr>"

text \<open>
  Test packets: frame \<open>i\<close> has timestamp \<open>30 * i\<close>, and its window has four samples, from the
  timestamp of frame \<open>i - 1\<close> to its own.
\<close>

definition test_packet :: "Frame \<Rightarrow> Pose3 \<Rightarrow> ImuAccGyr \<Rightarrow> nat \<Rightarrow> StereoImuSyncPacket" where
  "test_packet img pose sample i =
     \<lparr>stereo_frame =
        \<lparr>frame_id = i, frame_timestamp = 30 * int i, isKeyframe = False,
         left_frame = img, B_Pose_camLrect = pose\<rparr>,
      imu_stamps = [30 * int i - 30, 30 * int i - 20, 30 * int i - 10, 30 * int i],
      imu_accgyr = [sample, sample, sample, sample]\<rparr>"

text \<open>An environment in which every worker has its output ready.\<close>

definition ready_Env ::
  "VioBackEndOutputPayload \<Rightarrow> MesherOutputPayload \<Rightarrow> VisualizerOutputPayload \<Rightarrow> Env \<Rightarrow> Env" where
  "ready_Env b m v env =
     env\<lparr>backend_output := Available b, mesher_output := Available m,
         visualizer_output := Available v\<rparr>"

text \<open>
  A run on the test packets with the given ids, from the constructed pipeline, with the stub
  front-end and every worker output ready. The values that Pipeline.cpp only carries are
  taken from one record, so that a statement can range over all of them.
\<close>

record TestValues =
  tv_frontend :: StereoVisionFrontEnd
  tv_image :: Frame
  tv_pose :: Pose3
  tv_sample :: ImuAccGyr
  tv_backend_output :: VioBackEndOutputPayload
  tv_mesher_output :: MesherOutputPayload
  tv_visualizer_output :: VisualizerOutputPayload
  tv_env :: Env
  tv_ext :: Ext
  tv_summary :: TrackerStatusSummary
  tv_point :: StereoPoint2

definition test_Ext :: "TestValues \<Rightarrow> (FrameId \<Rightarrow> bool) \<Rightarrow> Ext" where
  "test_Ext tv marked = stub_Ext marked (tv_summary tv) (tv_point tv) (tv_ext tv)"

definition test_frame :: "TestValues \<Rightarrow> nat \<Rightarrow> StereoImuSyncPacket" where
  "test_frame tv i = test_packet (tv_image tv) (tv_pose tv) (tv_sample tv) i"

definition test_Env :: "TestValues \<Rightarrow> Env" where
  "test_Env tv =
     ready_Env (tv_backend_output tv) (tv_mesher_output tv)
       ((tv_visualizer_output tv)\<lparr>vo_visualization_type := POINTCLOUD\<rparr>) (tv_env tv)"

definition test_run :: "TestValues \<Rightarrow> Flags \<Rightarrow> (FrameId \<Rightarrow> bool) \<Rightarrow> nat list \<Rightarrow> Outcome" where
  "test_run tv fl marked ids =
     spin_all fl (test_Ext tv marked) (constructed_Pipeline (tv_frontend tv))
       (map (\<lambda>i. (test_frame tv i, test_Env tv)) ids)"

section \<open>Properties\<close>

subsection \<open>Histories\<close>

lemma state_of_simps [simp]:
  "state_of (Returns s) = s" "state_of (Aborts f s) = s" "state_of (Suspends s) = s"
  by (simp_all add: state_of_def)

lemma returns_simps [simp]:
  "returns (Returns s)" "\<not> returns (Aborts f s)" "\<not> returns (Suspends s)"
  by (simp_all add: returns_def)

lemma new_events_append [simp]:
  "new_events st (Returns (st\<lparr>events := events st @ es\<rparr>)) = es"
  "new_events st (Aborts f (st\<lparr>events := events st @ es\<rparr>)) = es"
  "new_events st (Suspends (st\<lparr>events := events st @ es\<rparr>)) = es"
  by (simp_all add: new_events_def)

lemma new_events_same [simp]:
  "new_events st (Returns st) = []"
  "new_events st (Aborts f st) = []"
  "new_events st (Suspends st) = []"
  by (simp_all add: new_events_def)

lemma only_appendsI: "st' = st\<lparr>events := events st @ es\<rparr> \<Longrightarrow> only_appends st st'"
  by (simp add: only_appends_def)

lemma only_appendsE: "only_appends st st' \<Longrightarrow> \<exists>es. st' = st\<lparr>events := events st @ es\<rparr>"
  unfolding only_appends_def by blast

lemma only_appends_refl [simp]: "only_appends st st"
  by (simp add: only_appends_def)

lemma only_appends_trans:
  assumes "only_appends st st1" and "only_appends st1 st2"
  shows "only_appends st st2"
proof -
  obtain a where a: "st1 = st\<lparr>events := events st @ a\<rparr>"
    using assms(1) by (blast dest: only_appendsE)
  obtain b where b: "st2 = st1\<lparr>events := events st1 @ b\<rparr>"
    using assms(2) by (blast dest: only_appendsE)
  have "st2 = st\<lparr>events := events st @ (a @ b)\<rparr>"
    by (simp add: a b)
  then show ?thesis by (rule only_appendsI)
qed

lemma only_appends_app [simp]: "only_appends st (st\<lparr>events := events st @ es\<rparr>)"
  by (simp add: only_appends_def)

lemma only_appends_frame:
  "only_appends st (state_of r) \<Longrightarrow> state_of r = st\<lparr>events := events st @ new_events st r\<rparr>"
  unfolding only_appends_def new_events_def .

lemma new_events_trans:
  assumes "only_appends st st1" and "only_appends st1 (state_of r)"
  shows "new_events st r = new_events st (Returns st1) @ new_events st1 r"
proof -
  obtain a where a: "st1 = st\<lparr>events := events st @ a\<rparr>"
    using assms(1) by (blast dest: only_appendsE)
  obtain b where b: "state_of r = st1\<lparr>events := events st1 @ b\<rparr>"
    using assms(2) by (blast dest: only_appendsE)
  show ?thesis by (simp add: new_events_def a b)
qed

text \<open>A history that grows: the events of two calls in sequence.\<close>

lemma new_events_grow:
  assumes "events s1 = events st @ e1" and "events (state_of r) = events s1 @ e2"
  shows "new_events st r = e1 @ e2"
  using assms by (simp add: new_events_def)

lemma backend_pushes_append [simp]:
  "backend_pushes (xs @ ys) = backend_pushes xs @ backend_pushes ys"
  by (induction xs rule: backend_pushes.induct) simp_all

lemma visualizer_pushes_append [simp]:
  "visualizer_pushes (xs @ ys) = visualizer_pushes xs @ visualizer_pushes ys"
  by (induction xs rule: visualizer_pushes.induct) simp_all

lemma pushes_map_ImShow [simp]:
  "backend_pushes (map ImShow imgs) = []" "visualizer_pushes (map ImShow imgs) = []"
  by (induction imgs) simp_all

lemma count_list_map_ImShow [simp]:
  "count_list (map ImShow imgs) WaitKey = 0"
  by (induction imgs) simp_all

lemma backend_pushes_none:
  "list_all (\<lambda>e. \<not> is_backend_queue_event e) es \<Longrightarrow> backend_pushes es = []"
proof (induction es)
  case Nil
  then show ?case by simp
next
  case (Cons e es)
  then show ?case by (cases e) simp_all
qed

lemma mesh_event_kinds:
  "is_mesh_stage_event e \<Longrightarrow>
     \<not> is_backend_queue_event e \<and> \<not> is_VisualizerInputPush e \<and> \<not> is_display e \<and>
     \<not> is_LogInfoKeyframe e \<and> \<not> is_ProcessStereoFrame e"
  by (cases e) simp_all

lemma visualize_event_kinds:
  "is_visualize_stage_event e \<Longrightarrow>
     \<not> is_backend_queue_event e \<and> \<not> is_mesh_computation e \<and> \<not> is_LandmarkMapQuery e \<and>
     \<not> is_LogInfoKeyframe e \<and> \<not> is_ProcessStereoFrame e"
  by (cases e) simp_all

lemma filter_none: "list_all (\<lambda>e. \<not> P e) es \<Longrightarrow> filter P es = []"
  by (induction es) simp_all

lemma mesh_events_filter:
  assumes "list_all is_mesh_stage_event es"
  shows "filter is_backend_queue_event es = []" and "backend_pushes es = []"
    and "filter is_LogInfoKeyframe es = []" and "filter is_ProcessStereoFrame es = []"
proof -
  have k: "list_all (\<lambda>e. \<not> is_backend_queue_event e) es"
    "list_all (\<lambda>e. \<not> is_LogInfoKeyframe e) es" "list_all (\<lambda>e. \<not> is_ProcessStereoFrame e) es"
    using assms by (auto simp: list_all_iff dest: mesh_event_kinds)
  show "filter is_backend_queue_event es = []" using k(1) by (rule filter_none)
  show "backend_pushes es = []" using k(1) by (rule backend_pushes_none)
  show "filter is_LogInfoKeyframe es = []" using k(2) by (rule filter_none)
  show "filter is_ProcessStereoFrame es = []" using k(3) by (rule filter_none)
qed

lemma visualize_events_filter:
  assumes "list_all is_visualize_stage_event es"
  shows "filter is_backend_queue_event es = []" and "backend_pushes es = []"
    and "filter is_mesh_computation es = []" and "filter is_LandmarkMapQuery es = []"
    and "filter is_LogInfoKeyframe es = []" and "filter is_ProcessStereoFrame es = []"
proof -
  have k: "list_all (\<lambda>e. \<not> is_backend_queue_event e) es"
    "list_all (\<lambda>e. \<not> is_mesh_computation e) es" "list_all (\<lambda>e. \<not> is_LandmarkMapQuery e) es"
    "list_all (\<lambda>e. \<not> is_LogInfoKeyframe e) es" "list_all (\<lambda>e. \<not> is_ProcessStereoFrame e) es"
    using assms by (auto simp: list_all_iff dest: visualize_event_kinds)
  show "filter is_backend_queue_event es = []" using k(1) by (rule filter_none)
  show "backend_pushes es = []" using k(1) by (rule backend_pushes_none)
  show "filter is_mesh_computation es = []" using k(2) by (rule filter_none)
  show "filter is_LandmarkMapQuery es = []" using k(3) by (rule filter_none)
  show "filter is_LogInfoKeyframe es = []" using k(4) by (rule filter_none)
  show "filter is_ProcessStereoFrame es = []" using k(5) by (rule filter_none)
qed

subsection \<open>The sections of processKeyframe\<close>

lemma foldl_emit_ImShow:
  "foldl (\<lambda>s img. emit (ImShow img) s) st imgs = st\<lparr>events := events st @ map ImShow imgs\<rparr>"
  by (induction imgs arbitrary: st) (simp_all add: emit_def)

lemma spinDisplayOnce_eq:
  "spinDisplayOnce p st = st\<lparr>events := events st @
     (case p of None \<Rightarrow> [LogWarning ''Visualizer is lagging behind pipeline processing.'']
      | Some out \<Rightarrow> (if vo_visualization_type out \<noteq> NONE then [WindowSpinOnce] else []) @
          map ImShow (vo_images_to_display out) @ [WaitKey])\<rparr>"
  by (cases p) (simp_all add: spinDisplayOnce_def foldl_emit_ImShow Let_def, simp_all add: emit_def)

lemma backend_stage:
  "processKeyframe_backend fl ex env st ssm tk stamps accgyr =
     (let es = (if log_output fl then [LogFrontendResults] else []) @
               [BackendInputPush (backend_input_payload st ssm tk stamps accgyr),
                BackendOutputPopBlocking]
      in case popBlocking (backend_output_queue_shutdown st) (backend_output env) of
           Popped v \<Rightarrow>
             Returns (st\<lparr>events := events st @ es @
                        (if log_output fl then [LogBackendResults (Some v)] else [])\<rparr>)
         | PopFailed \<Rightarrow>
             Returns (st\<lparr>events := events st @ es @
                        (if log_output fl then [LogBackendResults None] else [])\<rparr>)
         | PopHangs \<Rightarrow> Suspends (st\<lparr>events := events st @ es\<rparr>))"
  by (simp add: processKeyframe_backend_def emit_def Let_def backend_input_payload_def
      split: PopResult.splits)

lemma backend_stage_new_events:
  "new_events st (processKeyframe_backend fl ex env st ssm tk stamps accgyr) =
     (if log_output fl then [LogFrontendResults] else []) @
     [BackendInputPush (backend_input_payload st ssm tk stamps accgyr), BackendOutputPopBlocking] @
     (if log_output fl
      then (case popBlocking (backend_output_queue_shutdown st) (backend_output env) of
              Popped v \<Rightarrow> [LogBackendResults (Some v)]
            | PopFailed \<Rightarrow> [LogBackendResults None]
            | PopHangs \<Rightarrow> [])
      else [])"
  by (simp add: backend_stage Let_def split: PopResult.splits)

lemma backend_stage_returns:
  "returns (processKeyframe_backend fl ex env st ssm tk stamps accgyr) =
     (popBlocking (backend_output_queue_shutdown st) (backend_output env) \<noteq> PopHangs)"
  by (simp add: backend_stage Let_def split: PopResult.splits)

lemma backend_stage_never_aborts:
  "processKeyframe_backend fl ex env st ssm tk stamps accgyr \<noteq> Aborts f s"
  by (simp add: backend_stage Let_def split: PopResult.splits)

lemma backend_stage_appends:
  "only_appends st (state_of (processKeyframe_backend fl ex env st ssm tk stamps accgyr))"
  by (simp add: backend_stage Let_def split: PopResult.splits)

lemma visualize_stage:
  "processKeyframe_visualize fl ex env st l lf tk =
     (if visualize fl then
        let es = (case semantic_mesh_segmentation_callback ex of
                    Some callback \<Rightarrow> [SemanticMeshSegmentationCallback] | None \<Rightarrow> []) @
                 [VisualizerInputPush (visualizer_input_payload fl ex env st l lf tk),
                  VisualizerOutputPopBlocking]
        in case popBlocking (visualizer_output_queue_shutdown st) (visualizer_output env) of
             Popped v \<Rightarrow>
               Returns (st\<lparr>events := events st @ es @
                  (if vo_visualization_type v \<noteq> NONE then [WindowSpinOnce] else []) @
                  map ImShow (vo_images_to_display v) @ [WaitKey]\<rparr>)
           | PopFailed \<Rightarrow>
               Returns (st\<lparr>events := events st @ es @
                  [LogWarning ''Visualizer is lagging behind pipeline processing.'']\<rparr>)
           | PopHangs \<Rightarrow> Suspends (st\<lparr>events := events st @ es\<rparr>)
      else Returns st)"
  by (simp add: processKeyframe_visualize_def spinDisplayOnce_eq emit_def Let_def
        visualizer_input_payload_def split: PopResult.splits option.splits)

lemma visualize_stage_appends:
  "only_appends st (state_of (processKeyframe_visualize fl ex env st l lf tk))"
  by (simp add: visualize_stage Let_def split: PopResult.splits)

lemma visualize_stage_kind:
  "list_all is_visualize_stage_event
     (new_events st (processKeyframe_visualize fl ex env st l lf tk))"
  by (auto simp: visualize_stage Let_def list_all_iff split: PopResult.splits option.splits)

lemma visualize_stage_never_aborts:
  "processKeyframe_visualize fl ex env st l lf tk \<noteq> Aborts f s"
  by (simp add: visualize_stage Let_def split: PopResult.splits)

lemmas mesh_stage_defs =
  processKeyframe_mesh_def emit_def Let_def push_succeeds_def initial_MeshLocals_def

lemma mesh_stage_appends:
  "only_appends st (state_of (snd (processKeyframe_mesh fl ex env st)))"
  by (simp add: mesh_stage_defs split: VisualizationType.splits PopResult.splits)

lemma mesh_stage_kind:
  "list_all is_mesh_stage_event (new_events st (snd (processKeyframe_mesh fl ex env st)))"
  by (simp add: mesh_stage_defs split: VisualizationType.splits PopResult.splits)

lemma mesh_stage_aborts_case:
  "(case snd (processKeyframe_mesh fl ex env st) of
      Aborts f s \<Rightarrow> f = CheckFailed ''mesher_input_queue_.push(...)''
    | _ \<Rightarrow> True)"
  by (simp add: mesh_stage_defs split: VisualizationType.splits PopResult.splits)

lemma mesh_stage_aborts:
  "snd (processKeyframe_mesh fl ex env st) = Aborts f s \<Longrightarrow>
     f = CheckFailed ''mesher_input_queue_.push(...)''"
  using mesh_stage_aborts_case [of fl ex env st] by simp

text \<open>What the switch computes, by visualization type.\<close>

lemma mesh_stage_computation:
  "filter is_mesh_computation (new_events st (snd (processKeyframe_mesh fl ex env st))) =
     (case static_cast_VisualizationType (viz_type fl) of
        POINTCLOUD \<Rightarrow> [GetMapLmkIdsTo3dPointsInTimeHorizon False None]
      | POINTCLOUD_REPEATEDPOINTS \<Rightarrow> [Get3DPoints]
      | MESH2D \<Rightarrow> [CreateMesh2D (stereoFrame_lkf (stereo_vision_frontend st))]
      | MESH2Dsparse \<Rightarrow> [CreateMesh2dStereo (stereoFrame_lkf (stereo_vision_frontend st))]
      | MESH2DTo3Dsparse \<Rightarrow>
          [GetMapLmkIdsTo3dPointsInTimeHorizon (visualize_lmk_type fl)
             (Some (min_num_obs_for_mesher_points fl))]
      | _ \<Rightarrow> [])"
  by (simp add: mesh_stage_defs split: VisualizationType.splits PopResult.splits)

subsection \<open>processKeyframe\<close>

lemma processKeyframe_off:
  "\<not> use_feature_selection fl \<Longrightarrow>
   processKeyframe fl ex env st k ssm lf tk tlkf stamps accgyr =
     (ssm,
      case processKeyframe_backend fl ex env st ssm tk stamps accgyr of
        Returns st1 \<Rightarrow>
          (case processKeyframe_mesh fl ex env st1 of
             (l, Returns st2) \<Rightarrow> processKeyframe_visualize fl ex env st2 l lf tk
           | (l, Aborts f st2) \<Rightarrow> Aborts f st2
           | (l, Suspends st2) \<Rightarrow> Suspends st2)
      | Aborts f st1 \<Rightarrow> Aborts f st1
      | Suspends st1 \<Rightarrow> Suspends st1)"
  by (simp add: processKeyframe_def)

lemma processKeyframe_on:
  "use_feature_selection fl \<Longrightarrow>
   processKeyframe fl ex env st k ssm lf tk tlkf stamps accgyr =
     (featureSelect ex tk tlkf (W_Pose_Blkf env) (stereoFrame_km1 (stereo_vision_frontend st))
        ssm (currKfId env) (if visualize fl then 1 else 0) (currentStateCovariance env)
        (left_frame (stereoFrame_lkf (stereo_vision_frontend st))),
      Aborts (LogFatal ''Do not use feature selection in parallel mode.'')
        (st\<lparr>events := events st @ [FeatureSelect ssm]\<rparr>))"
  by (simp add: processKeyframe_def emit_def)

text \<open>The events of one dispatch: those of the three sections, as far as control gets.\<close>

lemma processKeyframe_events:
  assumes off: "\<not> use_feature_selection fl"
  shows "\<exists>eM eV.
     new_events st (snd (processKeyframe fl ex env st k ssm lf tk tlkf stamps accgyr)) =
       new_events st (processKeyframe_backend fl ex env st ssm tk stamps accgyr) @ eM @ eV \<and>
     only_appends st (state_of (snd (processKeyframe fl ex env st k ssm lf tk tlkf stamps accgyr))) \<and>
     list_all is_mesh_stage_event eM \<and> list_all is_visualize_stage_event eV \<and>
     (returns (processKeyframe_backend fl ex env st ssm tk stamps accgyr) \<longrightarrow>
        eM = new_events (state_of (processKeyframe_backend fl ex env st ssm tk stamps accgyr))
               (snd (processKeyframe_mesh fl ex env
                  (state_of (processKeyframe_backend fl ex env st ssm tk stamps accgyr)))))"
proof (cases "processKeyframe_backend fl ex env st ssm tk stamps accgyr")
  case B: (Returns st1)
  have a1: "only_appends st st1"
    using backend_stage_appends [of st fl ex env ssm tk stamps accgyr] B by simp
  obtain l r where M: "processKeyframe_mesh fl ex env st1 = (l, r)"
    by (cases "processKeyframe_mesh fl ex env st1")
  have a2: "only_appends st1 (state_of r)"
    using mesh_stage_appends [of st1 fl ex env] M by simp
  have kM: "list_all is_mesh_stage_event (new_events st1 r)"
    using mesh_stage_kind [of st1 fl ex env] M by simp
  have n2: "new_events st r = new_events st (Returns st1) @ new_events st1 r"
    using a1 a2 by (rule new_events_trans)
  show ?thesis
  proof (cases r)
    case r: (Returns st2)
    let ?V = "processKeyframe_visualize fl ex env st2 l lf tk"
    have a3: "only_appends st2 (state_of ?V)" by (rule visualize_stage_appends)
    have a12: "only_appends st st2" using a1 a2 r by (auto intro: only_appends_trans)
    have "new_events st ?V = new_events st (Returns st2) @ new_events st2 ?V"
      using a12 a3 by (rule new_events_trans)
    moreover have "only_appends st (state_of ?V)"
      using a12 a3 by (rule only_appends_trans)
    ultimately show ?thesis
      using off B M r kM n2 visualize_stage_kind [of st2 fl ex env l lf tk]
      by (simp add: processKeyframe_off)
  next
    case r: (Aborts f st2)
    have "only_appends st st2" using a1 a2 r by (auto intro: only_appends_trans)
    then show ?thesis
      using off B M r kM n2 by (simp add: processKeyframe_off)
  next
    case r: (Suspends st2)
    have "only_appends st st2" using a1 a2 r by (auto intro: only_appends_trans)
    then show ?thesis
      using off B M r kM n2 by (simp add: processKeyframe_off)
  qed
next
  case (Aborts f st1)
  then show ?thesis
    using off backend_stage_appends [of st fl ex env ssm tk stamps accgyr]
    by (simp add: processKeyframe_off)
next
  case (Suspends st1)
  then show ?thesis
    using off backend_stage_appends [of st fl ex env ssm tk stamps accgyr]
    by (simp add: processKeyframe_off)
qed

lemma processKeyframe_appends:
  "only_appends st (state_of (snd (processKeyframe fl ex env st k ssm lf tk tlkf stamps accgyr)))"
proof (cases "use_feature_selection fl")
  case True
  then show ?thesis by (simp add: processKeyframe_on)
next
  case False
  then show ?thesis
    using processKeyframe_events [of fl st ex env k ssm lf tk tlkf stamps accgyr] by blast
qed

text \<open>One push to the back-end, then one pop of its output, and no other event on its queues.\<close>

lemma processKeyframe_backend_queue:
  assumes off: "\<not> use_feature_selection fl"
  shows "filter is_backend_queue_event
           (new_events st (snd (processKeyframe fl ex env st k ssm lf tk tlkf stamps accgyr))) =
         [BackendInputPush (backend_input_payload st ssm tk stamps accgyr),
          BackendOutputPopBlocking]"
    and "backend_pushes
           (new_events st (snd (processKeyframe fl ex env st k ssm lf tk tlkf stamps accgyr))) =
         [backend_input_payload st ssm tk stamps accgyr]"
proof -
  obtain eM eV where
    ev: "new_events st (snd (processKeyframe fl ex env st k ssm lf tk tlkf stamps accgyr)) =
           new_events st (processKeyframe_backend fl ex env st ssm tk stamps accgyr) @ eM @ eV"
    and kM: "list_all is_mesh_stage_event eM" and kV: "list_all is_visualize_stage_event eV"
    using processKeyframe_events [OF off, of st ex env k ssm lf tk tlkf stamps accgyr] by blast
  show "filter is_backend_queue_event
           (new_events st (snd (processKeyframe fl ex env st k ssm lf tk tlkf stamps accgyr))) =
         [BackendInputPush (backend_input_payload st ssm tk stamps accgyr),
          BackendOutputPopBlocking]"
    by (simp add: ev backend_stage_new_events mesh_events_filter(1) [OF kM]
        visualize_events_filter(1) [OF kV] split: PopResult.splits)
  show "backend_pushes
           (new_events st (snd (processKeyframe fl ex env st k ssm lf tk tlkf stamps accgyr))) =
         [backend_input_payload st ssm tk stamps accgyr]"
    by (simp add: ev backend_stage_new_events mesh_events_filter(2) [OF kM]
        visualize_events_filter(2) [OF kV] split: PopResult.splits)
qed

lemma processKeyframe_aborts:
  assumes off: "\<not> use_feature_selection fl"
    and ab: "snd (processKeyframe fl ex env st k ssm lf tk tlkf stamps accgyr) = Aborts f s"
  shows "f = CheckFailed ''mesher_input_queue_.push(...)''"
proof (cases "processKeyframe_backend fl ex env st ssm tk stamps accgyr")
  case (Returns st1)
  obtain l r where M: "processKeyframe_mesh fl ex env st1 = (l, r)"
    by (cases "processKeyframe_mesh fl ex env st1")
  show ?thesis
  proof (cases r)
    case r: (Returns st2)
    then show ?thesis
      using off ab Returns M visualize_stage_never_aborts [of fl ex env st2 l lf tk f s]
      by (simp add: processKeyframe_off)
  next
    case r: (Aborts f' st2)
    then have "f' = CheckFailed ''mesher_input_queue_.push(...)''"
      using mesh_stage_aborts [of fl ex env st1 f' st2] M by simp
    then show ?thesis using off ab Returns M r by (simp add: processKeyframe_off)
  next
    case r: (Suspends st2)
    then show ?thesis using off ab Returns M by (simp add: processKeyframe_off)
  qed
next
  case (Aborts f' st1)
  then show ?thesis by (simp add: backend_stage_never_aborts)
next
  case (Suspends st1)
  then show ?thesis using off ab by (simp add: processKeyframe_off)
qed


subsection \<open>IMU accumulation\<close>

lemma accumulateImu_empty:
  "imu_stamps_lkf_to_curr_f st = [] \<Longrightarrow>
   accumulateImu st pkt =
     Returns (st\<lparr>imu_stamps_lkf_to_curr_f := imu_stamps pkt,
                 imu_accgyr_lkf_to_curr_f := imu_accgyr pkt\<rparr>)"
  by (simp add: accumulateImu_def)

lemma accumulateImu_append:
  "imu_stamps_lkf_to_curr_f st \<noteq> [] \<Longrightarrow> imu_accgyr_lkf_to_curr_f st \<noteq> [] \<Longrightarrow>
   imu_stamps pkt \<noteq> [] \<Longrightarrow> imu_accgyr pkt \<noteq> [] \<Longrightarrow>
   accumulateImu st pkt =
     Returns (st\<lparr>imu_stamps_lkf_to_curr_f :=
                   butlast (imu_stamps_lkf_to_curr_f st) @ imu_stamps pkt,
                 imu_accgyr_lkf_to_curr_f :=
                   butlast (imu_accgyr_lkf_to_curr_f st) @ imu_accgyr pkt\<rparr>)"
  by (simp add: accumulateImu_def Let_def butlast_conv_take)

lemma joined_windows_snoc:
  "ws \<noteq> [] \<Longrightarrow> last ws \<noteq> [] \<Longrightarrow>
   joined_windows (ws @ [w]) = butlast (joined_windows ws) @ w"
  by (cases ws rule: rev_cases) (simp_all add: joined_windows_def butlast_append)

lemma accumulate_frames_snoc:
  "accumulate_frames st (pkts @ [pkt]) =
     (case accumulate_frames st pkts of
        Returns st' \<Rightarrow> accumulateImu st' pkt
      | Aborts f st' \<Rightarrow> Aborts f st'
      | Suspends st' \<Rightarrow> Suspends st')"
  by (induction pkts arbitrary: st) (simp_all split: Outcome.splits)

lemma accumulate_frames_joined:
  assumes "imu_stamps_lkf_to_curr_f st = []"
    and "pkts \<noteq> []"
    and "\<forall>p\<in>set pkts. imu_stamps p \<noteq> [] \<and> imu_accgyr p \<noteq> []"
  shows "accumulate_frames st pkts =
           Returns (st\<lparr>imu_stamps_lkf_to_curr_f := joined_windows (map imu_stamps pkts),
                       imu_accgyr_lkf_to_curr_f := joined_windows (map imu_accgyr pkts)\<rparr>)"
  using assms(2,3)
proof (induction pkts rule: rev_induct)
  case Nil
  then show ?case by simp
next
  case (snoc pkt pkts)
  show ?case
  proof (cases "pkts = []")
    case True
    then show ?thesis
      using assms(1) by (simp add: accumulateImu_empty joined_windows_def)
  next
    case False
    have ne: "\<forall>p\<in>set pkts. imu_stamps p \<noteq> [] \<and> imu_accgyr p \<noteq> []"
      using snoc.prems by simp
    have prev: "accumulate_frames st pkts =
           Returns (st\<lparr>imu_stamps_lkf_to_curr_f := joined_windows (map imu_stamps pkts),
                       imu_accgyr_lkf_to_curr_f := joined_windows (map imu_accgyr pkts)\<rparr>)"
      using snoc.IH False ne by blast
    have l1: "last (map imu_stamps pkts) \<noteq> []" and l2: "last (map imu_accgyr pkts) \<noteq> []"
      using False ne by (simp_all add: last_map)
    have j1: "joined_windows (map imu_stamps pkts) \<noteq> []"
      and j2: "joined_windows (map imu_accgyr pkts) \<noteq> []"
      using l1 l2 by (simp_all add: joined_windows_def)
    have p1: "imu_stamps pkt \<noteq> []" and p2: "imu_accgyr pkt \<noteq> []"
      using snoc.prems by simp_all
    show ?thesis
      using False l1 l2 j1 j2 p1 p2
      by (simp add: accumulate_frames_snoc prev accumulateImu_append joined_windows_snoc)
  qed
qed

lemma length_joined_windows:
  "ws \<noteq> [] \<Longrightarrow> \<forall>w\<in>set ws. w \<noteq> [] \<Longrightarrow>
   length (joined_windows ws) = sum_list (map length ws) - (length ws - 1)"
proof (induction ws rule: rev_induct)
  case Nil
  then show ?case by simp
next
  case (snoc w ws)
  show ?case
  proof (cases "ws = []")
    case True
    then show ?thesis by (simp add: joined_windows_def)
  next
    case False
    have ih: "length (joined_windows ws) = sum_list (map length ws) - (length ws - 1)"
      using snoc False by simp
    have lne: "last ws \<noteq> []" using False snoc.prems by simp
    then have pos: "joined_windows ws \<noteq> []" by (simp add: joined_windows_def)
    have "\<forall>w\<in>set ws. 1 \<le> length w" using snoc.prems(2) by (auto simp: Suc_le_eq)
    then have "sum_list (map (\<lambda>_. 1) ws) \<le> sum_list (map length ws)"
      by (intro sum_list_mono) auto
    then have ge: "length ws \<le> sum_list (map length ws)"
      by (simp add: sum_list_triv)
    have "length (joined_windows (ws @ [w])) = length (joined_windows ws) - 1 + length w"
      using False lne by (simp add: joined_windows_snoc)
    then show ?thesis using ih ge False pos
      by (cases ws) auto
  qed
qed

lemma consecutive_windows_snoc:
  "consecutive_windows (pkts @ [pkt]) =
     (consecutive_windows pkts \<and>
      (pkts \<noteq> [] \<longrightarrow> last (imu_stamps (last pkts)) \<le> hd (imu_stamps pkt)))"
  by (induction pkts rule: consecutive_windows.induct) auto

lemma last_joined_windows:
  "ws \<noteq> [] \<Longrightarrow> last ws \<noteq> [] \<Longrightarrow> last (joined_windows ws) = last (last ws)"
  by (simp add: joined_windows_def)

lemma butlast_below_last:
  fixes xs :: "int list"
  assumes "sorted_wrt (<) xs" and "x \<in> set (butlast xs)"
  shows "x < last xs"
proof (cases xs rule: rev_cases)
  case Nil
  then show ?thesis using assms by simp
next
  case (snoc ys y)
  then show ?thesis using assms by (simp add: sorted_wrt_append)
qed

lemma hd_least:
  fixes xs :: "int list"
  assumes "sorted_wrt (<) xs" and "y \<in> set xs"
  shows "hd xs \<le> y"
  using assms by (cases xs) auto

lemma sorted_joined_stamps:
  assumes "pkts \<noteq> []"
    and "\<forall>p\<in>set pkts. imu_stamps p \<noteq> [] \<and> sorted_wrt (<) (imu_stamps p)"
    and "consecutive_windows pkts"
  shows "sorted_wrt (<) (joined_windows (map imu_stamps pkts))"
  using assms
proof (induction pkts rule: rev_induct)
  case Nil
  then show ?case by simp
next
  case (snoc pkt pkts)
  show ?case
  proof (cases "pkts = []")
    case True
    then show ?thesis using snoc.prems by (simp add: joined_windows_def)
  next
    case False
    let ?J = "joined_windows (map imu_stamps pkts)"
    have ne: "\<forall>p\<in>set pkts. imu_stamps p \<noteq> [] \<and> sorted_wrt (<) (imu_stamps p)"
      using snoc.prems by simp
    have cons: "consecutive_windows pkts"
      and link: "last (imu_stamps (last pkts)) \<le> hd (imu_stamps pkt)"
      using snoc.prems(3) False by (simp_all add: consecutive_windows_snoc)
    have sJ: "sorted_wrt (<) ?J" using snoc.IH False ne cons by blast
    have lne: "last (map imu_stamps pkts) \<noteq> []" using False ne by (simp add: last_map)
    have lastJ: "last ?J = last (imu_stamps (last pkts))"
      using False lne by (simp add: last_joined_windows last_map)
    have sw: "sorted_wrt (<) (imu_stamps pkt)" using snoc.prems by simp
    have cross: "\<forall>x\<in>set (butlast ?J). \<forall>y\<in>set (imu_stamps pkt). x < y"
    proof (intro ballI)
      fix x y assume x: "x \<in> set (butlast ?J)" and y: "y \<in> set (imu_stamps pkt)"
      have "x < last ?J" using sJ x by (rule butlast_below_last)
      moreover have "hd (imu_stamps pkt) \<le> y" using sw y by (rule hd_least)
      ultimately show "x < y" using lastJ link by linarith
    qed
    have sb: "sorted_wrt (<) (butlast ?J)"
      using sJ by (metis append_butlast_last_id butlast.simps(1) sorted_wrt_append)
    have "joined_windows (map imu_stamps (pkts @ [pkt])) = butlast ?J @ imu_stamps pkt"
      using False lne by (simp add: joined_windows_snoc)
    then show ?thesis using sb sw cross by (simp add: sorted_wrt_append)
  qed
qed

text \<open>
  C2 (amended). One accumulation step stores the packet's window verbatim when the timestamp
  buffer is empty, and otherwise drops the final column of each buffer and appends the
  packet's window (both windows and the sample buffer being non-empty). Consequently, when
  the windows of M frames, each non-empty and with as many timestamps as samples, have been
  accumulated into an empty buffer, the buffer is the concatenation of the windows with the
  final sample of every window but the last dropped: its sample count is the sum of the M
  window lengths minus (M - 1), its timestamp count equals its sample count, and its
  timestamps are strictly increasing when those of each window are and each window starts no
  earlier than the final timestamp of the window before it. The buffer that a dispatch
  receives holds the window of the dispatching frame too, so N frames without dispatch
  followed by a dispatching frame give M = N + 1 windows and N dropped samples.
\<close>

theorem imu_accumulation_rule:
  "(imu_stamps_lkf_to_curr_f s = [] \<longrightarrow>
      accumulateImu s pkt =
        Returns (s\<lparr>imu_stamps_lkf_to_curr_f := imu_stamps pkt,
                   imu_accgyr_lkf_to_curr_f := imu_accgyr pkt\<rparr>)) \<and>
   (imu_stamps_lkf_to_curr_f s \<noteq> [] \<and> imu_accgyr_lkf_to_curr_f s \<noteq> [] \<and>
    imu_stamps pkt \<noteq> [] \<and> imu_accgyr pkt \<noteq> [] \<longrightarrow>
      accumulateImu s pkt =
        Returns (s\<lparr>imu_stamps_lkf_to_curr_f :=
                     butlast (imu_stamps_lkf_to_curr_f s) @ imu_stamps pkt,
                   imu_accgyr_lkf_to_curr_f :=
                     butlast (imu_accgyr_lkf_to_curr_f s) @ imu_accgyr pkt\<rparr>)) \<and>
   (imu_stamps_lkf_to_curr_f st = [] \<and> pkts \<noteq> [] \<and>
    (\<forall>p\<in>set pkts. imu_stamps p \<noteq> [] \<and> length (imu_stamps p) = length (imu_accgyr p)) \<longrightarrow>
      (\<exists>st'. accumulate_frames st pkts = Returns st' \<and>
         imu_stamps_lkf_to_curr_f st' = joined_windows (map imu_stamps pkts) \<and>
         imu_accgyr_lkf_to_curr_f st' = joined_windows (map imu_accgyr pkts) \<and>
         length (imu_accgyr_lkf_to_curr_f st') =
           sum_list (map (\<lambda>p. length (imu_accgyr p)) pkts) - (length pkts - 1) \<and>
         length (imu_stamps_lkf_to_curr_f st') = length (imu_accgyr_lkf_to_curr_f st') \<and>
         ((\<forall>p\<in>set pkts. sorted_wrt (<) (imu_stamps p)) \<and> consecutive_windows pkts \<longrightarrow>
            sorted_wrt (<) (imu_stamps_lkf_to_curr_f st'))))"
proof (intro conjI impI)
  assume "imu_stamps_lkf_to_curr_f s = []"
  then show "accumulateImu s pkt =
        Returns (s\<lparr>imu_stamps_lkf_to_curr_f := imu_stamps pkt,
                   imu_accgyr_lkf_to_curr_f := imu_accgyr pkt\<rparr>)"
    by (rule accumulateImu_empty)
next
  assume "imu_stamps_lkf_to_curr_f s \<noteq> [] \<and> imu_accgyr_lkf_to_curr_f s \<noteq> [] \<and>
    imu_stamps pkt \<noteq> [] \<and> imu_accgyr pkt \<noteq> []"
  then show "accumulateImu s pkt =
        Returns (s\<lparr>imu_stamps_lkf_to_curr_f :=
                     butlast (imu_stamps_lkf_to_curr_f s) @ imu_stamps pkt,
                   imu_accgyr_lkf_to_curr_f :=
                     butlast (imu_accgyr_lkf_to_curr_f s) @ imu_accgyr pkt\<rparr>)"
    by (simp add: accumulateImu_append)
next
  assume h: "imu_stamps_lkf_to_curr_f st = [] \<and> pkts \<noteq> [] \<and>
    (\<forall>p\<in>set pkts. imu_stamps p \<noteq> [] \<and> length (imu_stamps p) = length (imu_accgyr p))"
  then have e: "imu_stamps_lkf_to_curr_f st = []" and ne: "pkts \<noteq> []"
    and wf: "\<forall>p\<in>set pkts. imu_stamps p \<noteq> [] \<and> length (imu_stamps p) = length (imu_accgyr p)"
    by simp_all
  have ne2: "\<forall>p\<in>set pkts. imu_stamps p \<noteq> [] \<and> imu_accgyr p \<noteq> []"
    using wf by auto
  let ?st' = "st\<lparr>imu_stamps_lkf_to_curr_f := joined_windows (map imu_stamps pkts),
                  imu_accgyr_lkf_to_curr_f := joined_windows (map imu_accgyr pkts)\<rparr>"
  have run: "accumulate_frames st pkts = Returns ?st'"
    using e ne ne2 by (rule accumulate_frames_joined)
  have la: "length (joined_windows (map imu_accgyr pkts)) =
      sum_list (map (\<lambda>p. length (imu_accgyr p)) pkts) - (length pkts - 1)"
    using length_joined_windows [of "map imu_accgyr pkts"] ne ne2 by (simp add: comp_def)
  have ls: "length (joined_windows (map imu_stamps pkts)) =
      sum_list (map (\<lambda>p. length (imu_stamps p)) pkts) - (length pkts - 1)"
    using length_joined_windows [of "map imu_stamps pkts"] ne ne2 by (simp add: comp_def)
  have same: "map (\<lambda>p. length (imu_stamps p)) pkts = map (\<lambda>p. length (imu_accgyr p)) pkts"
    using wf by simp
  have so: "(\<forall>p\<in>set pkts. sorted_wrt (<) (imu_stamps p)) \<and> consecutive_windows pkts \<longrightarrow>
      sorted_wrt (<) (joined_windows (map imu_stamps pkts))"
    using sorted_joined_stamps [of pkts] ne ne2 by blast
  show "\<exists>st'. accumulate_frames st pkts = Returns st' \<and>
         imu_stamps_lkf_to_curr_f st' = joined_windows (map imu_stamps pkts) \<and>
         imu_accgyr_lkf_to_curr_f st' = joined_windows (map imu_accgyr pkts) \<and>
         length (imu_accgyr_lkf_to_curr_f st') =
           sum_list (map (\<lambda>p. length (imu_accgyr p)) pkts) - (length pkts - 1) \<and>
         length (imu_stamps_lkf_to_curr_f st') = length (imu_accgyr_lkf_to_curr_f st') \<and>
         ((\<forall>p\<in>set pkts. sorted_wrt (<) (imu_stamps p)) \<and> consecutive_windows pkts \<longrightarrow>
            sorted_wrt (<) (imu_stamps_lkf_to_curr_f st'))"
    using run la ls same so by (intro exI [of _ ?st']) simp
qed

theorem imu_accumulation_rule_witness:
  "\<forall>fe img pose sample.
     accumulateImu (constructed_Pipeline fe) (test_packet img pose sample 2) =
       Returns ((constructed_Pipeline fe)
                  \<lparr>imu_stamps_lkf_to_curr_f := [30, 40, 50, 60],
                   imu_accgyr_lkf_to_curr_f := [sample, sample, sample, sample]\<rparr>) \<and>
     accumulateImu
       ((constructed_Pipeline fe)
          \<lparr>imu_stamps_lkf_to_curr_f := [30, 40, 50, 60],
           imu_accgyr_lkf_to_curr_f := [sample, sample, sample, sample]\<rparr>)
       (test_packet img pose sample 3) =
       Returns ((constructed_Pipeline fe)
                  \<lparr>imu_stamps_lkf_to_curr_f := [30, 40, 50, 60, 70, 80, 90],
                   imu_accgyr_lkf_to_curr_f :=
                     [sample, sample, sample, sample, sample, sample, sample]\<rparr>) \<and>
     (\<exists>st'. accumulate_frames (constructed_Pipeline fe)
              [test_packet img pose sample 2, test_packet img pose sample 3,
               test_packet img pose sample 4] = Returns st' \<and>
            imu_stamps_lkf_to_curr_f st' = [30, 40, 50, 60, 70, 80, 90, 100, 110, 120] \<and>
            length (imu_accgyr_lkf_to_curr_f st') = 4 + 4 + 4 - (3 - 1) \<and>
            length (imu_stamps_lkf_to_curr_f st') = length (imu_accgyr_lkf_to_curr_f st') \<and>
            sorted_wrt (<) (imu_stamps_lkf_to_curr_f st'))"
proof (intro allI)
  fix fe img pose sample
  let ?s0 = "constructed_Pipeline fe"
  let ?s1 = "?s0\<lparr>imu_stamps_lkf_to_curr_f := [30, 40, 50, 60],
                 imu_accgyr_lkf_to_curr_f := [sample, sample, sample, sample]\<rparr>"
  let ?pkts = "[test_packet img pose sample 2, test_packet img pose sample 3,
               test_packet img pose sample 4]"
  show "accumulateImu ?s0 (test_packet img pose sample 2) = Returns ?s1 \<and>
     accumulateImu ?s1 (test_packet img pose sample 3) =
       Returns (?s0\<lparr>imu_stamps_lkf_to_curr_f := [30, 40, 50, 60, 70, 80, 90],
                   imu_accgyr_lkf_to_curr_f :=
                     [sample, sample, sample, sample, sample, sample, sample]\<rparr>) \<and>
     (\<exists>st'. accumulate_frames ?s0 ?pkts = Returns st' \<and>
            imu_stamps_lkf_to_curr_f st' = [30, 40, 50, 60, 70, 80, 90, 100, 110, 120] \<and>
            length (imu_accgyr_lkf_to_curr_f st') = 4 + 4 + 4 - (3 - 1) \<and>
            length (imu_stamps_lkf_to_curr_f st') = length (imu_accgyr_lkf_to_curr_f st') \<and>
            sorted_wrt (<) (imu_stamps_lkf_to_curr_f st'))"
    using imu_accumulation_rule [of ?s0 "test_packet img pose sample 2" ?s0 ?pkts]
      imu_accumulation_rule [of ?s1 "test_packet img pose sample 3" ?s0 ?pkts]
    by (auto simp add: constructed_Pipeline_def test_packet_def joined_windows_def
        simp del: accumulate_frames.simps)
qed


subsection \<open>Feature selection\<close>

text \<open>
  C5. If feature selection is enabled, keyframe dispatch terminates the process at
  \<^verbatim>\<open>LOG(FATAL) << "Do not use feature selection in parallel mode."\<close>, after the call of
  \<^verbatim>\<open>featureSelect\<close> and before anything is pushed; the code does not ask whether the
  worker threads are running. With feature selection disabled, keyframe dispatch never ends
  at that fatal line.
\<close>

theorem feature_selection_fatal:
  "(use_feature_selection fl \<longrightarrow>
      snd (processKeyframe fl ex env st k ssm lf tk tlkf stamps accgyr) =
        Aborts (LogFatal ''Do not use feature selection in parallel mode.'')
          (emit (FeatureSelect ssm) st) \<and>
      new_events st (snd (processKeyframe fl ex env st k ssm lf tk tlkf stamps accgyr)) =
        [FeatureSelect ssm]) \<and>
   (\<not> use_feature_selection fl \<longrightarrow>
      (\<forall>s. snd (processKeyframe fl ex env st k ssm lf tk tlkf stamps accgyr) \<noteq>
           Aborts (LogFatal ''Do not use feature selection in parallel mode.'') s))"
proof (intro conjI impI allI)
  assume on: "use_feature_selection fl"
  show "snd (processKeyframe fl ex env st k ssm lf tk tlkf stamps accgyr) =
        Aborts (LogFatal ''Do not use feature selection in parallel mode.'')
          (emit (FeatureSelect ssm) st)"
    using on by (simp add: processKeyframe_def)
  show "new_events st (snd (processKeyframe fl ex env st k ssm lf tk tlkf stamps accgyr)) =
        [FeatureSelect ssm]"
    using on by (simp add: processKeyframe_on)
next
  fix s
  assume off: "\<not> use_feature_selection fl"
  show "snd (processKeyframe fl ex env st k ssm lf tk tlkf stamps accgyr) \<noteq>
           Aborts (LogFatal ''Do not use feature selection in parallel mode.'') s"
  proof
    assume "snd (processKeyframe fl ex env st k ssm lf tk tlkf stamps accgyr) =
           Aborts (LogFatal ''Do not use feature selection in parallel mode.'') s"
    then have "LogFatal ''Do not use feature selection in parallel mode.'' =
        CheckFailed ''mesher_input_queue_.push(...)''"
      using off by (rule processKeyframe_aborts [rotated])
    then show False by simp
  qed
qed

theorem feature_selection_fatal_witness:
  "\<forall>ex env st k ssm lf tk tlkf stamps accgyr.
     snd (processKeyframe (default_Flags\<lparr>use_feature_selection := True\<rparr>) ex env st k ssm lf
            tk tlkf stamps accgyr) =
       Aborts (LogFatal ''Do not use feature selection in parallel mode.'')
         (emit (FeatureSelect ssm) st) \<and>
     (\<forall>s. snd (processKeyframe default_Flags ex env st k ssm lf tk tlkf stamps accgyr) \<noteq>
          Aborts (LogFatal ''Do not use feature selection in parallel mode.'') s)"
proof (intro allI)
  fix ex env st k ssm lf tk tlkf stamps accgyr
  show "snd (processKeyframe (default_Flags\<lparr>use_feature_selection := True\<rparr>) ex env st k ssm lf
            tk tlkf stamps accgyr) =
       Aborts (LogFatal ''Do not use feature selection in parallel mode.'')
         (emit (FeatureSelect ssm) st) \<and>
     (\<forall>s. snd (processKeyframe default_Flags ex env st k ssm lf tk tlkf stamps accgyr) \<noteq>
          Aborts (LogFatal ''Do not use feature selection in parallel mode.'') s)"
    using feature_selection_fatal
            [of "default_Flags\<lparr>use_feature_selection := True\<rparr>" ex env st k ssm lf tk tlkf
               stamps accgyr]
          feature_selection_fatal [of default_Flags ex env st k ssm lf tk tlkf stamps accgyr]
    by (simp add: default_Flags_def)
qed

text \<open>
  C10. When feature selection is disabled, keyframe dispatch never writes through its
  \<^verbatim>\<open>statusSmartStereoMeasurements\<close> pointer: the value behind it at the end of the call is
  the value passed in, and it is the one that the single \<^verbatim>\<open>VioBackEndInputPayload\<close>
  carries. The value is replaced only on the feature-selection branch, which keeps its
  status component, pushes nothing and ends at the fatal line.
\<close>

theorem tracking_result_forwarded:
  "(\<not> use_feature_selection fl \<longrightarrow>
      fst (processKeyframe fl ex env st k ssm lf tk tlkf stamps accgyr) = ssm \<and>
      map bi_status_smart_stereo_measurements
        (backend_pushes
           (new_events st (snd (processKeyframe fl ex env st k ssm lf tk tlkf stamps accgyr)))) =
        [ssm]) \<and>
   (fst (processKeyframe fl ex env st k ssm lf tk tlkf stamps accgyr) \<noteq> ssm \<longrightarrow>
      use_feature_selection fl \<and>
      fst (fst (processKeyframe fl ex env st k ssm lf tk tlkf stamps accgyr)) = fst ssm \<and>
      backend_pushes
        (new_events st (snd (processKeyframe fl ex env st k ssm lf tk tlkf stamps accgyr))) = [] \<and>
      snd (processKeyframe fl ex env st k ssm lf tk tlkf stamps accgyr) =
        Aborts (LogFatal ''Do not use feature selection in parallel mode.'')
          (emit (FeatureSelect ssm) st))"
proof (intro conjI impI)
  assume off: "\<not> use_feature_selection fl"
  show "fst (processKeyframe fl ex env st k ssm lf tk tlkf stamps accgyr) = ssm"
    using off by (simp add: processKeyframe_off)
  show "map bi_status_smart_stereo_measurements
        (backend_pushes
           (new_events st (snd (processKeyframe fl ex env st k ssm lf tk tlkf stamps accgyr)))) =
        [ssm]"
    using processKeyframe_backend_queue(2) [OF off, of st ex env k ssm lf tk tlkf stamps accgyr]
    by (simp add: backend_input_payload_def)
next
  assume changed: "fst (processKeyframe fl ex env st k ssm lf tk tlkf stamps accgyr) \<noteq> ssm"
  show on: "use_feature_selection fl"
    using changed by (cases "use_feature_selection fl") (simp_all add: processKeyframe_off)
  show "fst (fst (processKeyframe fl ex env st k ssm lf tk tlkf stamps accgyr)) = fst ssm"
    using on by (simp add: processKeyframe_on featureSelect_def)
  show "backend_pushes
        (new_events st (snd (processKeyframe fl ex env st k ssm lf tk tlkf stamps accgyr))) = []"
    using on by (simp add: processKeyframe_on)
  show "snd (processKeyframe fl ex env st k ssm lf tk tlkf stamps accgyr) =
        Aborts (LogFatal ''Do not use feature selection in parallel mode.'')
          (emit (FeatureSelect ssm) st)"
    using on by (simp add: processKeyframe_def)
qed

theorem tracking_result_forwarded_witness:
  "\<forall>ex env st k summary pt lf tk tlkf stamps accgyr.
     fst (processKeyframe default_Flags ex env st k (summary, [(1, pt)]) lf tk tlkf stamps
            accgyr) = (summary, [(1, pt)]) \<and>
     map bi_status_smart_stereo_measurements
       (backend_pushes
          (new_events st
             (snd (processKeyframe default_Flags ex env st k (summary, [(1, pt)]) lf tk tlkf
                     stamps accgyr)))) = [(summary, [(1, pt)])] \<and>
     fst (processKeyframe (default_Flags\<lparr>use_feature_selection := True\<rparr>)
            (ex\<lparr>splitTrackedAndNewFeatures_Select_Display := (\<lambda>a b c d e f g h i. [])\<rparr>)
            env st k (summary, [(1, pt)]) lf tk tlkf stamps accgyr) = (summary, []) \<and>
     snd (processKeyframe (default_Flags\<lparr>use_feature_selection := True\<rparr>)
            (ex\<lparr>splitTrackedAndNewFeatures_Select_Display := (\<lambda>a b c d e f g h i. [])\<rparr>)
            env st k (summary, [(1, pt)]) lf tk tlkf stamps accgyr) =
       Aborts (LogFatal ''Do not use feature selection in parallel mode.'')
         (emit (FeatureSelect (summary, [(1, pt)])) st)"
proof (intro allI)
  fix ex env st k summary pt lf tk tlkf stamps accgyr
  let ?ssm = "(summary, [(1, pt)]) :: StatusSmartStereoMeasurements"
  let ?ex = "(ex :: Ext)\<lparr>splitTrackedAndNewFeatures_Select_Display := (\<lambda>a b c d e f g h i. [])\<rparr>"
  let ?on = "default_Flags\<lparr>use_feature_selection := True\<rparr>"
  have changed: "fst (processKeyframe ?on ?ex env st k ?ssm lf tk tlkf stamps accgyr) =
      (summary, [])"
    by (simp add: processKeyframe_def featureSelect_def)
  show "fst (processKeyframe default_Flags ex env st k ?ssm lf tk tlkf stamps accgyr) = ?ssm \<and>
     map bi_status_smart_stereo_measurements
       (backend_pushes
          (new_events st
             (snd (processKeyframe default_Flags ex env st k ?ssm lf tk tlkf stamps accgyr)))) =
       [?ssm] \<and>
     fst (processKeyframe ?on ?ex env st k ?ssm lf tk tlkf stamps accgyr) = (summary, []) \<and>
     snd (processKeyframe ?on ?ex env st k ?ssm lf tk tlkf stamps accgyr) =
       Aborts (LogFatal ''Do not use feature selection in parallel mode.'')
         (emit (FeatureSelect ?ssm) st)"
    using tracking_result_forwarded [of default_Flags ex env st k ?ssm lf tk tlkf stamps accgyr]
      tracking_result_forwarded [of ?on ?ex env st k ?ssm lf tk tlkf stamps accgyr] changed
    by (simp add: default_Flags_def)
qed

subsection \<open>spinOnce\<close>

lemma only_appends_events:
  "only_appends st (state_of r) \<Longrightarrow> events (state_of r) = events st @ new_events st r"
  by (drule only_appendsE) (auto simp: new_events_def)

lemma accumulateImu_keeps:
  "events (state_of (accumulateImu st pkt)) = events st"
  "stereo_vision_frontend (state_of (accumulateImu st pkt)) = stereo_vision_frontend st"
  "is_initialized (state_of (accumulateImu st pkt)) = is_initialized st"
  by (simp_all add: accumulateImu_def Let_def)

lemma accumulateImu_keeps_Returns:
  assumes "accumulateImu st pkt = Returns st1"
  shows "events st1 = events st" and "stereo_vision_frontend st1 = stereo_vision_frontend st"
    and "is_initialized st1 = is_initialized st"
  using accumulateImu_keeps [of st pkt] assms by simp_all

lemma accumulateImu_never_suspends: "accumulateImu st pkt \<noteq> Suspends s"
  by (simp add: accumulateImu_def Let_def)

lemma spinOnce_track_eq:
  "spinOnce_track ex st1 pkt =
     (fst (processStereoFrame ex (stereo_vision_frontend st1) (stereo_frame pkt)
             (preintegrateGyroMeasurements ex (imu_stamps_lkf_to_curr_f st1)
                (imu_accgyr_lkf_to_curr_f st1))),
      st1\<lparr>timestamp_lkf := Some (timestamp_lkf_value ex st1),
          stereo_vision_frontend :=
            snd (processStereoFrame ex (stereo_vision_frontend st1) (stereo_frame pkt)
                   (preintegrateGyroMeasurements ex (imu_stamps_lkf_to_curr_f st1)
                      (imu_accgyr_lkf_to_curr_f st1))),
          events := events st1 @
            [PreintegrateGyroMeasurements (imu_stamps_lkf_to_curr_f st1)
               (imu_accgyr_lkf_to_curr_f st1),
             ProcessStereoFrame (stereo_frame pkt)
               (preintegrateGyroMeasurements ex (imu_stamps_lkf_to_curr_f st1)
                  (imu_accgyr_lkf_to_curr_f st1))]\<rparr>)"
  by (simp add: spinOnce_track_def emit_def Let_def)

text \<open>Resetting the accumulation after a dispatch adds no event.\<close>

lemma reset_events:
  "events (state_of (case r of
       Returns s \<Rightarrow> Returns (s\<lparr>imu_stamps_lkf_to_curr_f := a, imu_accgyr_lkf_to_curr_f := b,
                               timestamp_lkf := c\<rparr>)
     | Aborts f s \<Rightarrow> Aborts f s
     | Suspends s \<Rightarrow> Suspends s)) = events (state_of r)"
  by (cases r) simp_all

lemma reset_returns:
  "returns (case r of
       Returns s \<Rightarrow> Returns (s\<lparr>imu_stamps_lkf_to_curr_f := a, imu_accgyr_lkf_to_curr_f := b,
                               timestamp_lkf := c\<rparr>)
     | Aborts f s \<Rightarrow> Aborts f s
     | Suspends s \<Rightarrow> Suspends s) = returns r"
  by (cases r) simp_all


text \<open>
  The events of one call of \<^verbatim>\<open>spinOnce\<close> whose accumulation passes its checks: the
  preintegration, the tracking of the current frame, and, exactly when the front-end then
  flags \<^verbatim>\<open>stereoFrame_km1_\<close> as a keyframe, the keyframe log line followed by the events
  of \<^verbatim>\<open>processKeyframe\<close> on the tracking result of the current frame.
\<close>

lemma spinOnce_new_events:
  assumes acc: "accumulateImu st pkt = Returns st1"
  shows "new_events st (spinOnce fl ex env st pkt) =
     (let st4 = snd (spinOnce_track ex st1 pkt);
          ssm = fst (spinOnce_track ex st1 pkt);
          st5 = emit (LogInfoKeyframe (frame_id (stereo_frame pkt)) (length (snd ssm))) st4
      in [PreintegrateGyroMeasurements (imu_stamps_lkf_to_curr_f st1)
            (imu_accgyr_lkf_to_curr_f st1),
          ProcessStereoFrame (stereo_frame pkt)
            (preintegrateGyroMeasurements ex (imu_stamps_lkf_to_curr_f st1)
               (imu_accgyr_lkf_to_curr_f st1))] @
         (if isKeyframe (stereoFrame_km1 (stereo_vision_frontend st4)) then
            LogInfoKeyframe (frame_id (stereo_frame pkt)) (length (snd ssm)) #
            new_events st5
              (snd (processKeyframe fl ex env st5 (frame_id (stereo_frame pkt)) ssm
                      (left_frame (stereo_frame pkt)) (frame_timestamp (stereo_frame pkt))
                      (timestamp_lkf_value ex st1)
                      (imu_stamps_lkf_to_curr_f st1) (imu_accgyr_lkf_to_curr_f st1)))
          else []))"
proof -
  let ?st4 = "snd (spinOnce_track ex st1 pkt)"
  let ?ssm = "fst (spinOnce_track ex st1 pkt)"
  let ?st5 = "emit (LogInfoKeyframe (frame_id (stereo_frame pkt)) (length (snd ?ssm))) ?st4"
  let ?pk = "snd (processKeyframe fl ex env ?st5 (frame_id (stereo_frame pkt)) ?ssm
                      (left_frame (stereo_frame pkt)) (frame_timestamp (stereo_frame pkt))
                      (timestamp_lkf_value ex st1)
                      (imu_stamps_lkf_to_curr_f st1) (imu_accgyr_lkf_to_curr_f st1))"
  let ?two = "[PreintegrateGyroMeasurements (imu_stamps_lkf_to_curr_f st1)
            (imu_accgyr_lkf_to_curr_f st1),
          ProcessStereoFrame (stereo_frame pkt)
            (preintegrateGyroMeasurements ex (imu_stamps_lkf_to_curr_f st1)
               (imu_accgyr_lkf_to_curr_f st1))]"
  have e1: "events st1 = events st" using acc by (rule accumulateImu_keeps_Returns)
  have e4: "events ?st4 = events st @ ?two"
    by (simp add: spinOnce_track_eq e1)
  have b4: "imu_stamps_lkf_to_curr_f ?st4 = imu_stamps_lkf_to_curr_f st1"
    "imu_accgyr_lkf_to_curr_f ?st4 = imu_accgyr_lkf_to_curr_f st1"
    by (simp_all add: spinOnce_track_eq)
  have e5: "events ?st5 = events st @ (?two @
      [LogInfoKeyframe (frame_id (stereo_frame pkt)) (length (snd ?ssm))])"
    by (simp add: emit_def e4)
  have b5: "imu_stamps_lkf_to_curr_f ?st5 = imu_stamps_lkf_to_curr_f st1"
    "imu_accgyr_lkf_to_curr_f ?st5 = imu_accgyr_lkf_to_curr_f st1"
    by (simp_all add: emit_def b4)
  show ?thesis
  proof (cases "isKeyframe (stereoFrame_km1 (stereo_vision_frontend ?st4))")
    case False
    then show ?thesis
      using acc e4 by (simp add: spinOnce_def Let_def new_events_def)
  next
    case True
    have "only_appends ?st5 (state_of ?pk)" by (rule processKeyframe_appends)
    then have "events (state_of ?pk) = events ?st5 @ new_events ?st5 ?pk"
      by (rule only_appends_events)
    then have "new_events st ?pk =
      (?two @ [LogInfoKeyframe (frame_id (stereo_frame pkt)) (length (snd ?ssm))]) @
      new_events ?st5 ?pk"
      using e5 by (rule new_events_grow [rotated])
    then show ?thesis
      using acc True b5
      by (simp add: spinOnce_def Let_def new_events_def reset_events)
  qed
qed

lemma processKeyframe_no_frame_events:
  "filter is_LogInfoKeyframe
     (new_events st (snd (processKeyframe fl ex env st k ssm lf tk tlkf stamps accgyr))) = []"
  "filter is_ProcessStereoFrame
     (new_events st (snd (processKeyframe fl ex env st k ssm lf tk tlkf stamps accgyr))) = []"
proof -
  show "filter is_LogInfoKeyframe
     (new_events st (snd (processKeyframe fl ex env st k ssm lf tk tlkf stamps accgyr))) = []"
  proof (cases "use_feature_selection fl")
    case True
    then show ?thesis by (simp add: processKeyframe_on)
  next
    case False
    then obtain eM eV where
      ev: "new_events st (snd (processKeyframe fl ex env st k ssm lf tk tlkf stamps accgyr)) =
             new_events st (processKeyframe_backend fl ex env st ssm tk stamps accgyr) @ eM @ eV"
      and kM: "list_all is_mesh_stage_event eM" and kV: "list_all is_visualize_stage_event eV"
      using processKeyframe_events [of fl st ex env k ssm lf tk tlkf stamps accgyr] by blast
    show ?thesis
      by (simp add: ev backend_stage_new_events mesh_events_filter(3) [OF kM]
          visualize_events_filter(5) [OF kV] split: PopResult.splits)
  qed
  show "filter is_ProcessStereoFrame
     (new_events st (snd (processKeyframe fl ex env st k ssm lf tk tlkf stamps accgyr))) = []"
  proof (cases "use_feature_selection fl")
    case True
    then show ?thesis by (simp add: processKeyframe_on)
  next
    case False
    then obtain eM eV where
      ev: "new_events st (snd (processKeyframe fl ex env st k ssm lf tk tlkf stamps accgyr)) =
             new_events st (processKeyframe_backend fl ex env st ssm tk stamps accgyr) @ eM @ eV"
      and kM: "list_all is_mesh_stage_event eM" and kV: "list_all is_visualize_stage_event eV"
      using processKeyframe_events [of fl st ex env k ssm lf tk tlkf stamps accgyr] by blast
    show ?thesis
      by (simp add: ev backend_stage_new_events mesh_events_filter(4) [OF kM]
          visualize_events_filter(6) [OF kV] split: PopResult.splits)
  qed
qed

text \<open>
  C1 (amended). For every frame after the bootstrap frame whose accumulation passes its
  checks, \<^verbatim>\<open>processKeyframe\<close> is invoked (the keyframe line is logged, once) exactly when
  the front-end, after its tracking call on the current frame, flags \<^verbatim>\<open>stereoFrame_km1_\<close>
  as a keyframe; and it is invoked with the TrackingResult that this same tracking call
  returned for the current frame, which is the one the back-end payload carries. With a
  front-end that keeps the frame of its previous call in \<^verbatim>\<open>stereoFrame_km1_\<close>, a frame k
  marked as keyframe triggers dispatch only while frame k+1 is processed, on the
  TrackingResult of frame k+1.
\<close>

theorem keyframe_dispatch_trigger:
  "accumulateImu st pkt = Returns st1 \<longrightarrow>
     (let tracked = processStereoFrame ex (stereo_vision_frontend st) (stereo_frame pkt)
                      (preintegrateGyroMeasurements ex (imu_stamps_lkf_to_curr_f st1)
                         (imu_accgyr_lkf_to_curr_f st1))
      in filter is_LogInfoKeyframe (new_events st (spinOnce fl ex env st pkt)) =
           (if isKeyframe (stereoFrame_km1 (snd tracked))
            then [LogInfoKeyframe (frame_id (stereo_frame pkt)) (length (snd (fst tracked)))]
            else []) \<and>
         (\<not> use_feature_selection fl \<longrightarrow>
            map bi_status_smart_stereo_measurements
              (backend_pushes (new_events st (spinOnce fl ex env st pkt))) =
              (if isKeyframe (stereoFrame_km1 (snd tracked)) then [fst tracked] else [])))"
proof (intro impI)
  assume acc: "accumulateImu st pkt = Returns st1"
  have fe: "stereo_vision_frontend st1 = stereo_vision_frontend st"
    using acc by (rule accumulateImu_keeps_Returns)
  let ?tracked = "processStereoFrame ex (stereo_vision_frontend st) (stereo_frame pkt)
                      (preintegrateGyroMeasurements ex (imu_stamps_lkf_to_curr_f st1)
                         (imu_accgyr_lkf_to_curr_f st1))"
  have t1: "fst (spinOnce_track ex st1 pkt) = fst ?tracked"
    and t2: "stereo_vision_frontend (snd (spinOnce_track ex st1 pkt)) = snd ?tracked"
    by (simp_all add: spinOnce_track_eq fe)
  have logs: "filter is_LogInfoKeyframe (new_events st (spinOnce fl ex env st pkt)) =
           (if isKeyframe (stereoFrame_km1 (snd ?tracked))
            then [LogInfoKeyframe (frame_id (stereo_frame pkt)) (length (snd (fst ?tracked)))]
            else [])"
    by (simp add: spinOnce_new_events [OF acc] Let_def t1 t2 processKeyframe_no_frame_events)
  have pushes: "map bi_status_smart_stereo_measurements
              (backend_pushes (new_events st (spinOnce fl ex env st pkt))) =
              (if isKeyframe (stereoFrame_km1 (snd ?tracked)) then [fst ?tracked] else [])"
    if off: "\<not> use_feature_selection fl"
    by (simp add: spinOnce_new_events [OF acc] Let_def t1 t2
        processKeyframe_backend_queue(2) [OF off] backend_input_payload_def)
  show "let tracked = ?tracked
      in filter is_LogInfoKeyframe (new_events st (spinOnce fl ex env st pkt)) =
           (if isKeyframe (stereoFrame_km1 (snd tracked))
            then [LogInfoKeyframe (frame_id (stereo_frame pkt)) (length (snd (fst tracked)))]
            else []) \<and>
         (\<not> use_feature_selection fl \<longrightarrow>
            map bi_status_smart_stereo_measurements
              (backend_pushes (new_events st (spinOnce fl ex env st pkt))) =
              (if isKeyframe (stereoFrame_km1 (snd tracked)) then [fst tracked] else []))"
    using logs pushes by (simp add: Let_def)
qed


subsection \<open>Runs with the stub front-end\<close>

lemmas run_defs =
  test_run_def test_Ext_def test_frame_def test_Env_def spin_def initialize_def initBackend_def
  launchThreads_def emit_def constructed_Pipeline_def stub_Ext_def
  stub_processFirstStereoFrame_def stub_processStereoFrame_def test_packet_def ready_Env_def
  initialStateGT_def spinOnce_def accumulateImu_def spinOnce_track_def timestamp_lkf_value_def
  Let_def default_Flags_def processKeyframe_def processKeyframe_backend_def
  processKeyframe_mesh_def processKeyframe_visualize_def popBlocking_def push_succeeds_def
  spinDisplayOnce_eq static_cast_VisualizationType_def initial_MeshLocals_def
  backend_input_payload_def visualizer_input_payload_def

theorem keyframe_dispatch_trigger_witness:
  "\<forall>tv.
     accumulateImu (state_of (test_run tv default_Flags (\<lambda>i. i = 1) [1])) (test_frame tv 2) =
       Returns ((state_of (test_run tv default_Flags (\<lambda>i. i = 1) [1]))
                  \<lparr>imu_stamps_lkf_to_curr_f := [30, 40, 50, 60],
                   imu_accgyr_lkf_to_curr_f :=
                     [tv_sample tv, tv_sample tv, tv_sample tv, tv_sample tv]\<rparr>) \<and>
     filter is_LogInfoKeyframe
       (new_events (state_of (test_run tv default_Flags (\<lambda>i. i = 1) [1]))
          (spinOnce default_Flags (test_Ext tv (\<lambda>i. i = 1)) (test_Env tv)
             (state_of (test_run tv default_Flags (\<lambda>i. i = 1) [1])) (test_frame tv 2))) =
       [LogInfoKeyframe 2 1] \<and>
     map bi_status_smart_stereo_measurements
       (backend_pushes
          (new_events (state_of (test_run tv default_Flags (\<lambda>i. i = 1) [1]))
             (spinOnce default_Flags (test_Ext tv (\<lambda>i. i = 1)) (test_Env tv)
                (state_of (test_run tv default_Flags (\<lambda>i. i = 1) [1])) (test_frame tv 2)))) =
       [(tv_summary tv, [(2, tv_point tv)])]"
proof (intro allI)
  fix tv
  let ?st = "state_of (test_run tv default_Flags (\<lambda>i. i = 1) [1])"
  let ?st1 = "?st\<lparr>imu_stamps_lkf_to_curr_f := [30, 40, 50, 60],
                   imu_accgyr_lkf_to_curr_f :=
                     [tv_sample tv, tv_sample tv, tv_sample tv, tv_sample tv]\<rparr>"
  let ?ex = "test_Ext tv (\<lambda>i. i = 1)"
  have buf: "imu_stamps_lkf_to_curr_f ?st = []"
    by (simp add: test_run_def spin_def initialize_def initBackend_def launchThreads_def
        emit_def constructed_Pipeline_def test_Ext_def stub_Ext_def Let_def default_Flags_def)
  have acc: "accumulateImu ?st (test_frame tv 2) = Returns ?st1"
    using buf by (simp add: accumulateImu_empty test_frame_def test_packet_def)
  have fe: "stereoFrame_k (stereo_vision_frontend ?st) =
      (stereo_frame (test_frame tv 1))\<lparr>isKeyframe := True\<rparr>"
    by (simp add: test_run_def spin_def initialize_def initBackend_def launchThreads_def
        emit_def constructed_Pipeline_def test_Ext_def stub_Ext_def Let_def default_Flags_def
        stub_processFirstStereoFrame_def test_frame_def test_packet_def)
  have tr: "processStereoFrame ?ex = stub_processStereoFrame (\<lambda>i. i = 1) (tv_summary tv) (tv_point tv)"
    by (simp add: test_Ext_def stub_Ext_def)
  have off: "\<not> use_feature_selection default_Flags"
    by (simp add: default_Flags_def)
  show "accumulateImu ?st (test_frame tv 2) = Returns ?st1 \<and>
     filter is_LogInfoKeyframe
       (new_events ?st (spinOnce default_Flags ?ex (test_Env tv) ?st (test_frame tv 2))) =
       [LogInfoKeyframe 2 1] \<and>
     map bi_status_smart_stereo_measurements
       (backend_pushes
          (new_events ?st (spinOnce default_Flags ?ex (test_Env tv) ?st (test_frame tv 2)))) =
       [(tv_summary tv, [(2, tv_point tv)])]"
    using keyframe_dispatch_trigger
            [of ?st "test_frame tv 2" ?st1 ?ex default_Flags "test_Env tv"] acc tr fe off
    by (simp add: Let_def stub_processStereoFrame_def test_frame_def test_packet_def)
qed

text \<open>
  Counterexample to C1 as stated. The stub front-end marks frame 3 only. Nothing is pushed
  while frames 1 to 3 are processed; the push happens while frame 4 is processed, with the
  timestamp of frame 4, and the TrackingResult it carries is the one computed for frame 4,
  not the one computed when frame 3 was processed.
\<close>

theorem keyframe_dispatch_result_counterexample:
  "\<forall>tv.
     backend_pushes (events (state_of (test_run tv default_Flags (\<lambda>i. i = 3) [1, 2, 3]))) = [] \<and>
     map (\<lambda>p. (bi_timestamp_k p, bi_status_smart_stereo_measurements p))
       (backend_pushes
          (events (state_of (test_run tv default_Flags (\<lambda>i. i = 3) [1, 2, 3, 4])))) =
       [(120, (tv_summary tv, [(4, tv_point tv)]))] \<and>
     \<not> (\<exists>fe rot.
          map bi_status_smart_stereo_measurements
            (backend_pushes
               (events (state_of (test_run tv default_Flags (\<lambda>i. i = 3) [1, 2, 3, 4])))) =
          [fst (processStereoFrame (test_Ext tv (\<lambda>i. i = 3)) fe
                  (stereo_frame (test_frame tv 3)) rot)])"
  by (simp add: run_defs split: option.splits)

text \<open>
  Counterexample to C2 as stated. The stub front-end marks frames 2 and 5, every window has
  four samples. Frames 3 and 4 are the consecutive non-keyframe frames that keyframe 5
  follows (N = 2), or frame 4 alone if frame 3, on which the first dispatch happens, is not
  counted (N = 1). The window pushed by the second dispatch is assembled from the windows of
  frames 4, 5 and 6 and has 10 samples: two samples were dropped, not N - 1.
\<close>

theorem imu_window_count_counterexample:
  "\<forall>tv.
     map (\<lambda>p. (bi_imu_stamps p, length (bi_imu_accgyr p)))
       (backend_pushes
          (events (state_of
             (test_run tv default_Flags (\<lambda>i. i = 2 \<or> i = 5) [1, 2, 3, 4, 5, 6])))) =
       [([30, 40, 50, 60, 70, 80, 90], 7),
        ([90, 100, 110, 120, 130, 140, 150, 160, 170, 180], 10)] \<and>
     \<not> (length (bi_imu_accgyr (last (backend_pushes
             (events (state_of
                (test_run tv default_Flags (\<lambda>i. i = 2 \<or> i = 5) [1, 2, 3, 4, 5, 6])))))) =
          sum_list (map (\<lambda>i. length (imu_accgyr (test_frame tv i))) [4, 5, 6]) - (2 - 1)) \<and>
     \<not> (length (bi_imu_accgyr (last (backend_pushes
             (events (state_of
                (test_run tv default_Flags (\<lambda>i. i = 2 \<or> i = 5) [1, 2, 3, 4, 5, 6])))))) =
          sum_list (map (\<lambda>i. length (imu_accgyr (test_frame tv i))) [4, 5, 6]) - (1 - 1))"
  by (simp add: run_defs split: option.splits)

subsection \<open>Back-end traffic\<close>

lemma backend_stage_suspends:
  "processKeyframe_backend fl ex env st ssm tk stamps accgyr = Suspends s \<Longrightarrow>
     last (events s) = BackendOutputPopBlocking"
  by (simp add: backend_stage Let_def split: PopResult.splits) auto

lemma visualize_stage_suspends:
  "processKeyframe_visualize fl ex env st l lf tk = Suspends s \<Longrightarrow>
     last (events s) = VisualizerOutputPopBlocking"
  by (simp add: visualize_stage Let_def split: PopResult.splits if_splits) auto

lemma mesh_stage_suspends_case:
  "(case snd (processKeyframe_mesh fl ex env st) of
      Suspends s \<Rightarrow> last (events s) = MesherOutputPopBlocking
    | _ \<Rightarrow> True)"
  by (simp add: mesh_stage_defs split: VisualizationType.splits PopResult.splits)

lemma mesh_stage_suspends:
  "snd (processKeyframe_mesh fl ex env st) = Suspends s \<Longrightarrow>
     last (events s) = MesherOutputPopBlocking"
  using mesh_stage_suspends_case [of fl ex env st] by simp

text \<open>The orchestrator is suspended by a pop only: no push holds it back.\<close>

lemma processKeyframe_suspends:
  assumes off: "\<not> use_feature_selection fl"
    and su: "snd (processKeyframe fl ex env st k ssm lf tk tlkf stamps accgyr) = Suspends s"
  shows "last (events s) \<in>
           {BackendOutputPopBlocking, MesherOutputPopBlocking, VisualizerOutputPopBlocking}"
proof (cases "processKeyframe_backend fl ex env st ssm tk stamps accgyr")
  case (Returns st1)
  obtain l r where M: "processKeyframe_mesh fl ex env st1 = (l, r)"
    by (cases "processKeyframe_mesh fl ex env st1")
  show ?thesis
  proof (cases r)
    case r: (Returns st2)
    then have "processKeyframe_visualize fl ex env st2 l lf tk = Suspends s"
      using off su Returns M by (simp add: processKeyframe_off)
    then show ?thesis by (simp add: visualize_stage_suspends)
  next
    case r: (Aborts f' st2)
    then show ?thesis using off su Returns M by (simp add: processKeyframe_off)
  next
    case r: (Suspends st2)
    then have "snd (processKeyframe_mesh fl ex env st1) = Suspends s"
      using off su Returns M by (simp add: processKeyframe_off)
    then show ?thesis by (simp add: mesh_stage_suspends)
  qed
next
  case (Aborts f' st1)
  then show ?thesis using off su by (simp add: processKeyframe_off)
next
  case (Suspends st1)
  then have "processKeyframe_backend fl ex env st ssm tk stamps accgyr = Suspends s"
    using off su by (simp add: processKeyframe_off)
  then show ?thesis by (simp add: backend_stage_suspends)
qed

text \<open>
  C8 (amended). A keyframe dispatch with feature selection disabled (one that is not ended
  by the feature-selection misconfiguration) pushes exactly one \<^verbatim>\<open>VioBackEndInputPayload\<close>
  and then pops the back-end output queue exactly once, with \<^verbatim>\<open>popBlocking\<close>; the push
  never suspends the orchestrator (only a pop can).
  A frame on which the front-end flags no keyframe causes no back-end push and no pop.
  Feeding frames 1 to 5 to \<^verbatim>\<open>spin\<close>, with a stub front-end that marks frames 2 and 4 and
  the default flags (visualization enabled), yields exactly two back-end pushes, exactly two
  visualizer pushes and exactly two renders; with visualization disabled it yields two
  back-end pushes and no visualizer push.
\<close>

theorem backend_push_pop_per_keyframe:
  "(\<not> use_feature_selection fl \<longrightarrow>
      filter is_backend_queue_event
        (new_events st (snd (processKeyframe fl ex env st k ssm lf tk tlkf stamps accgyr))) =
        [BackendInputPush (backend_input_payload st ssm tk stamps accgyr),
         BackendOutputPopBlocking] \<and>
      (\<forall>s. snd (processKeyframe fl ex env st k ssm lf tk tlkf stamps accgyr) = Suspends s \<longrightarrow>
           last (events s) \<in>
             {BackendOutputPopBlocking, MesherOutputPopBlocking, VisualizerOutputPopBlocking})) \<and>
   (accumulateImu st pkt = Returns st1 \<and>
    \<not> isKeyframe (stereoFrame_km1
          (snd (processStereoFrame ex (stereo_vision_frontend st) (stereo_frame pkt)
                  (preintegrateGyroMeasurements ex (imu_stamps_lkf_to_curr_f st1)
                     (imu_accgyr_lkf_to_curr_f st1))))) \<longrightarrow>
      filter is_backend_queue_event (new_events st (spinOnce fl ex env st pkt)) = [] \<and>
      returns (spinOnce fl ex env st pkt)) \<and>
   (\<forall>tv. returns (test_run tv default_Flags (\<lambda>i. i = 2 \<or> i = 4) [1, 2, 3, 4, 5]) \<and>
         map bi_timestamp_k
           (backend_pushes (events (state_of
              (test_run tv default_Flags (\<lambda>i. i = 2 \<or> i = 4) [1, 2, 3, 4, 5])))) = [90, 150] \<and>
         map vi_timestamp_k
           (visualizer_pushes (events (state_of
              (test_run tv default_Flags (\<lambda>i. i = 2 \<or> i = 4) [1, 2, 3, 4, 5])))) = [90, 150] \<and>
         count_list (events (state_of
              (test_run tv default_Flags (\<lambda>i. i = 2 \<or> i = 4) [1, 2, 3, 4, 5]))) WaitKey = 2 \<and>
         map bi_timestamp_k
           (backend_pushes (events (state_of
              (test_run tv (default_Flags\<lparr>visualize := False\<rparr>) (\<lambda>i. i = 2 \<or> i = 4)
                 [1, 2, 3, 4, 5])))) = [90, 150] \<and>
         visualizer_pushes (events (state_of
              (test_run tv (default_Flags\<lparr>visualize := False\<rparr>) (\<lambda>i. i = 2 \<or> i = 4)
                 [1, 2, 3, 4, 5]))) = [])"
proof (intro conjI impI allI)
  assume off: "\<not> use_feature_selection fl"
  show "filter is_backend_queue_event
        (new_events st (snd (processKeyframe fl ex env st k ssm lf tk tlkf stamps accgyr))) =
        [BackendInputPush (backend_input_payload st ssm tk stamps accgyr),
         BackendOutputPopBlocking]"
    using off by (rule processKeyframe_backend_queue(1))
  fix s
  assume "snd (processKeyframe fl ex env st k ssm lf tk tlkf stamps accgyr) = Suspends s"
  with off show "last (events s) \<in>
             {BackendOutputPopBlocking, MesherOutputPopBlocking, VisualizerOutputPopBlocking}"
    by (rule processKeyframe_suspends)
next
  assume h: "accumulateImu st pkt = Returns st1 \<and>
    \<not> isKeyframe (stereoFrame_km1
          (snd (processStereoFrame ex (stereo_vision_frontend st) (stereo_frame pkt)
                  (preintegrateGyroMeasurements ex (imu_stamps_lkf_to_curr_f st1)
                     (imu_accgyr_lkf_to_curr_f st1)))))"
  then have acc: "accumulateImu st pkt = Returns st1" by simp
  have fe: "stereo_vision_frontend st1 = stereo_vision_frontend st"
    using acc by (rule accumulateImu_keeps_Returns)
  have nk: "\<not> isKeyframe (stereoFrame_km1
               (stereo_vision_frontend (snd (spinOnce_track ex st1 pkt))))"
    using h by (simp add: spinOnce_track_eq fe)
  show "filter is_backend_queue_event (new_events st (spinOnce fl ex env st pkt)) = []"
    using nk by (simp add: spinOnce_new_events [OF acc] Let_def)
  show "returns (spinOnce fl ex env st pkt)"
    using nk acc by (simp add: spinOnce_def Let_def)
next
  fix tv
  show "returns (test_run tv default_Flags (\<lambda>i. i = 2 \<or> i = 4) [1, 2, 3, 4, 5])"
    by (simp add: run_defs split: option.splits)
  show "map bi_timestamp_k
           (backend_pushes (events (state_of
              (test_run tv default_Flags (\<lambda>i. i = 2 \<or> i = 4) [1, 2, 3, 4, 5])))) = [90, 150]"
    by (simp add: run_defs split: option.splits)
  show "map vi_timestamp_k
           (visualizer_pushes (events (state_of
              (test_run tv default_Flags (\<lambda>i. i = 2 \<or> i = 4) [1, 2, 3, 4, 5])))) = [90, 150]"
    by (simp add: run_defs split: option.splits)
  show "count_list (events (state_of
              (test_run tv default_Flags (\<lambda>i. i = 2 \<or> i = 4) [1, 2, 3, 4, 5]))) WaitKey = 2"
    by (simp add: run_defs split: option.splits)
  show "map bi_timestamp_k
           (backend_pushes (events (state_of
              (test_run tv (default_Flags\<lparr>visualize := False\<rparr>) (\<lambda>i. i = 2 \<or> i = 4)
                 [1, 2, 3, 4, 5])))) = [90, 150]"
    by (simp add: run_defs split: option.splits)
  show "visualizer_pushes (events (state_of
              (test_run tv (default_Flags\<lparr>visualize := False\<rparr>) (\<lambda>i. i = 2 \<or> i = 4)
                 [1, 2, 3, 4, 5]))) = []"
    by (simp add: run_defs split: option.splits)
qed

theorem backend_push_pop_per_keyframe_witness:
  "\<forall>tv st k ssm lf tk tlkf stamps accgyr.
     filter is_backend_queue_event
       (new_events st
          (snd (processKeyframe default_Flags (tv_ext tv) (tv_env tv) st k ssm lf tk tlkf
                  stamps accgyr))) =
       [BackendInputPush (backend_input_payload st ssm tk stamps accgyr),
        BackendOutputPopBlocking] \<and>
     (\<exists>s. snd (processKeyframe default_Flags (tv_ext tv) ((tv_env tv)\<lparr>backend_output := Silent\<rparr>)
                 (constructed_Pipeline (tv_frontend tv)) k ssm lf tk tlkf stamps accgyr) =
            Suspends s \<and>
          last (events s) \<in>
            {BackendOutputPopBlocking, MesherOutputPopBlocking, VisualizerOutputPopBlocking}) \<and>
     filter is_backend_queue_event
       (new_events (state_of (test_run tv default_Flags (\<lambda>i. False) [1]))
          (spinOnce default_Flags (test_Ext tv (\<lambda>i. False)) (test_Env tv)
             (state_of (test_run tv default_Flags (\<lambda>i. False) [1])) (test_frame tv 2))) = [] \<and>
     returns
       (spinOnce default_Flags (test_Ext tv (\<lambda>i. False)) (test_Env tv)
          (state_of (test_run tv default_Flags (\<lambda>i. False) [1])) (test_frame tv 2))"
proof (intro allI)
  fix tv st k ssm lf tk tlkf stamps accgyr
  let ?st = "state_of (test_run tv default_Flags (\<lambda>i. False) [1])"
  let ?st1 = "?st\<lparr>imu_stamps_lkf_to_curr_f := [30, 40, 50, 60],
                   imu_accgyr_lkf_to_curr_f :=
                     [tv_sample tv, tv_sample tv, tv_sample tv, tv_sample tv]\<rparr>"
  let ?ex = "test_Ext tv (\<lambda>i. False)"
  let ?silent = "(tv_env tv)\<lparr>backend_output := Silent\<rparr>"
  let ?s0 = "constructed_Pipeline (tv_frontend tv)"
  have off: "\<not> use_feature_selection default_Flags"
    by (simp add: default_Flags_def)
  have buf: "imu_stamps_lkf_to_curr_f ?st = []"
    by (simp add: test_run_def spin_def initialize_def initBackend_def launchThreads_def
        emit_def constructed_Pipeline_def test_Ext_def stub_Ext_def Let_def default_Flags_def
        initialStateGT_def)
  have acc: "accumulateImu ?st (test_frame tv 2) = Returns ?st1"
    using buf by (simp add: accumulateImu_empty test_frame_def test_packet_def)
  have fe: "isKeyframe (stereoFrame_k (stereo_vision_frontend ?st)) = False"
    by (simp add: test_run_def spin_def initialize_def initBackend_def launchThreads_def
        emit_def constructed_Pipeline_def test_Ext_def stub_Ext_def Let_def default_Flags_def
        stub_processFirstStereoFrame_def test_frame_def test_packet_def initialStateGT_def)
  have tr: "processStereoFrame ?ex = stub_processStereoFrame (\<lambda>i. False) (tv_summary tv) (tv_point tv)"
    by (simp add: test_Ext_def stub_Ext_def)
  have sus: "snd (processKeyframe default_Flags (tv_ext tv) ?silent ?s0 k ssm lf tk tlkf stamps
                    accgyr) =
      Suspends (?s0\<lparr>events := events ?s0 @
         [BackendInputPush (backend_input_payload ?s0 ssm tk stamps accgyr),
          BackendOutputPopBlocking]\<rparr>)"
    using off
    by (simp add: processKeyframe_off backend_stage popBlocking_def constructed_Pipeline_def
        default_Flags_def)
  show "filter is_backend_queue_event
       (new_events st
          (snd (processKeyframe default_Flags (tv_ext tv) (tv_env tv) st k ssm lf tk tlkf
                  stamps accgyr))) =
       [BackendInputPush (backend_input_payload st ssm tk stamps accgyr),
        BackendOutputPopBlocking] \<and>
     (\<exists>s. snd (processKeyframe default_Flags (tv_ext tv) ?silent ?s0 k ssm lf tk tlkf stamps
                 accgyr) = Suspends s \<and>
          last (events s) \<in>
            {BackendOutputPopBlocking, MesherOutputPopBlocking, VisualizerOutputPopBlocking}) \<and>
     filter is_backend_queue_event
       (new_events ?st (spinOnce default_Flags ?ex (test_Env tv) ?st (test_frame tv 2))) = [] \<and>
     returns (spinOnce default_Flags ?ex (test_Env tv) ?st (test_frame tv 2))"
    using backend_push_pop_per_keyframe
            [of default_Flags st "tv_ext tv" "tv_env tv" k ssm lf tk tlkf stamps accgyr
               "test_frame tv 2" st1]
          backend_push_pop_per_keyframe
            [of default_Flags ?s0 "tv_ext tv" ?silent k ssm lf tk tlkf stamps accgyr
               "test_frame tv 2" st1]
          backend_push_pop_per_keyframe
            [of default_Flags ?st ?ex "test_Env tv" k ssm lf tk tlkf stamps accgyr
               "test_frame tv 2" ?st1]
          off acc tr fe sus
    by (simp add: stub_processStereoFrame_def)
qed

subsection \<open>The first call of spin\<close>

text \<open>
  Counterexample to C8 as stated. With feature selection enabled and a stub front-end that
  marks frame 2, the dispatch while frame 3 is processed is a keyframe dispatch (its log
  line is written) that ends at the fatal error after \<^verbatim>\<open>featureSelect\<close>: nothing is pushed
  to the back-end and its output queue is not popped.
\<close>

theorem feature_selection_no_push_counterexample:
  "\<forall>tv.
     test_run tv (default_Flags\<lparr>use_feature_selection := True\<rparr>) (\<lambda>i. i = 2) [1, 2, 3] =
       Aborts (LogFatal ''Do not use feature selection in parallel mode.'')
         (state_of (test_run tv (default_Flags\<lparr>use_feature_selection := True\<rparr>) (\<lambda>i. i = 2)
                      [1, 2, 3])) \<and>
     filter is_LogInfoKeyframe
       (events (state_of (test_run tv (default_Flags\<lparr>use_feature_selection := True\<rparr>)
                            (\<lambda>i. i = 2) [1, 2, 3]))) = [LogInfoKeyframe 3 1] \<and>
     filter is_backend_queue_event
       (events (state_of (test_run tv (default_Flags\<lparr>use_feature_selection := True\<rparr>)
                            (\<lambda>i. i = 2) [1, 2, 3]))) = [] \<and>
     last (events (state_of (test_run tv (default_Flags\<lparr>use_feature_selection := True\<rparr>)
                               (\<lambda>i. i = 2) [1, 2, 3]))) =
       FeatureSelect (tv_summary tv, [(3, tv_point tv)])"
  by (simp add: run_defs split: option.splits)



lemmas first_spin_defs =
  spin_def initialize_def initBackend_def launchThreads_def emit_def Let_def





subsection \<open>Shutdown\<close>

lemma stopThreads_eq:
  "stopThreads st =
     (if vio_backend st = None
      then Aborts (NullDereference ''vio_backend_'')
             (st\<lparr>backend_input_queue_shutdown := True, backend_output_queue_shutdown := True,
                 events := events st @
                   [QueueShutdown BackendInputQueue, QueueShutdown BackendOutputQueue]\<rparr>)
      else Returns
             (st\<lparr>backend_input_queue_shutdown := True, backend_output_queue_shutdown := True,
                 mesher_input_queue_shutdown := True, mesher_output_queue_shutdown := True,
                 visualizer_input_queue_shutdown := True,
                 visualizer_output_queue_shutdown := True,
                 events := events st @
                   [QueueShutdown BackendInputQueue, QueueShutdown BackendOutputQueue,
                    WorkerShutdown BackendWorker,
                    QueueShutdown MesherInputQueue, QueueShutdown MesherOutputQueue,
                    WorkerShutdown MesherWorker,
                    QueueShutdown VisualizerInputQueue, QueueShutdown VisualizerOutputQueue,
                    WorkerShutdown VisualizerWorker]\<rparr>))"
  by (simp add: stopThreads_def emit_def Let_def)

lemmas shutdown_defs = shutdown_def joinThreads_def stopThreads_eq emit_def Let_def new_events_def

text \<open>
  Before the back-end exists, \<^verbatim>\<open>shutdown()\<close> sets the flag, shuts down the two back-end
  queues and ends at the call through the null \<^verbatim>\<open>vio_backend_\<close>: no other queue is shut
  down and no thread is joined.
\<close>

lemma shutdown_without_backend:
  "vio_backend st = None \<Longrightarrow>
   shutdown fl st =
     Aborts (NullDereference ''vio_backend_'')
       (st\<lparr>shutdown_flag := True, backend_input_queue_shutdown := True,
           backend_output_queue_shutdown := True,
           events := events st @
             [QueueShutdown BackendInputQueue, QueueShutdown BackendOutputQueue]\<rparr>)"
  by (simp add: shutdown_defs)

text \<open>
  C7 (amended). On a pipeline whose back-end has been constructed (any state after the first
  call of \<^verbatim>\<open>spin\<close>), \<^verbatim>\<open>shutdown()\<close> sets the shutdown flag and shuts down all six channels
  (and the three workers) before it joins any thread. Called once while the three worker
  threads are running, it then joins the three threads, each exactly once, and returns with
  none of them joinable. It has no guard for a repeated call: it is safe for one call only.
\<close>

theorem shutdown_sequence:
  assumes backend: "vio_backend st \<noteq> None"
  shows "shutdown_flag (state_of (shutdown fl st)) \<and>
   backend_input_queue_shutdown (state_of (shutdown fl st)) \<and>
   backend_output_queue_shutdown (state_of (shutdown fl st)) \<and>
   mesher_input_queue_shutdown (state_of (shutdown fl st)) \<and>
   mesher_output_queue_shutdown (state_of (shutdown fl st)) \<and>
   visualizer_input_queue_shutdown (state_of (shutdown fl st)) \<and>
   visualizer_output_queue_shutdown (state_of (shutdown fl st)) \<and>
   take 10 (new_events st (shutdown fl st)) =
     [QueueShutdown BackendInputQueue, QueueShutdown BackendOutputQueue,
      WorkerShutdown BackendWorker,
      QueueShutdown MesherInputQueue, QueueShutdown MesherOutputQueue,
      WorkerShutdown MesherWorker,
      QueueShutdown VisualizerInputQueue, QueueShutdown VisualizerOutputQueue,
      WorkerShutdown VisualizerWorker, ThreadJoin BackendWorker] \<and>
   (backend_thread st = Joinable \<and> mesher_thread st = Joinable \<and>
    visualizer_thread st = Joinable \<longrightarrow>
      returns (shutdown fl st) \<and>
      drop 9 (new_events st (shutdown fl st)) =
        [ThreadJoin BackendWorker, ThreadJoin MesherWorker, ThreadJoin VisualizerWorker] @
        (if log_output fl then [CloseLogFiles] else []) \<and>
      backend_thread (state_of (shutdown fl st)) = NotJoinable \<and>
      mesher_thread (state_of (shutdown fl st)) = NotJoinable \<and>
      visualizer_thread (state_of (shutdown fl st)) = NotJoinable)"
  using backend by (simp add: shutdown_defs)

theorem shutdown_sequence_witness:
  "\<forall>tv env.
     vio_backend
       (state_of (spin default_Flags (test_Ext tv (\<lambda>i. False)) env
                    (constructed_Pipeline (tv_frontend tv)) (test_frame tv 1))) \<noteq> None \<and>
     backend_thread
       (state_of (spin default_Flags (test_Ext tv (\<lambda>i. False)) env
                    (constructed_Pipeline (tv_frontend tv)) (test_frame tv 1))) = Joinable \<and>
     mesher_thread
       (state_of (spin default_Flags (test_Ext tv (\<lambda>i. False)) env
                    (constructed_Pipeline (tv_frontend tv)) (test_frame tv 1))) = Joinable \<and>
     visualizer_thread
       (state_of (spin default_Flags (test_Ext tv (\<lambda>i. False)) env
                    (constructed_Pipeline (tv_frontend tv)) (test_frame tv 1))) = Joinable \<and>
     returns (shutdown default_Flags
                (state_of (spin default_Flags (test_Ext tv (\<lambda>i. False)) env
                             (constructed_Pipeline (tv_frontend tv)) (test_frame tv 1)))) \<and>
     new_events
       (state_of (spin default_Flags (test_Ext tv (\<lambda>i. False)) env
                    (constructed_Pipeline (tv_frontend tv)) (test_frame tv 1)))
       (shutdown default_Flags
          (state_of (spin default_Flags (test_Ext tv (\<lambda>i. False)) env
                       (constructed_Pipeline (tv_frontend tv)) (test_frame tv 1)))) =
       [QueueShutdown BackendInputQueue, QueueShutdown BackendOutputQueue,
        WorkerShutdown BackendWorker,
        QueueShutdown MesherInputQueue, QueueShutdown MesherOutputQueue,
        WorkerShutdown MesherWorker,
        QueueShutdown VisualizerInputQueue, QueueShutdown VisualizerOutputQueue,
        WorkerShutdown VisualizerWorker,
        ThreadJoin BackendWorker, ThreadJoin MesherWorker, ThreadJoin VisualizerWorker] \<and>
     shutdown_flag
       (state_of (shutdown default_Flags
          (state_of (spin default_Flags (test_Ext tv (\<lambda>i. False)) env
                       (constructed_Pipeline (tv_frontend tv)) (test_frame tv 1)))))"
proof (intro allI)
  fix tv env
  let ?s1 = "state_of (spin default_Flags (test_Ext tv (\<lambda>i. False)) env
                    (constructed_Pipeline (tv_frontend tv)) (test_frame tv 1))"
  have backend: "vio_backend ?s1 \<noteq> None"
    by (simp add: first_spin_defs constructed_Pipeline_def test_Ext_def stub_Ext_def
        default_Flags_def)
  have launched: "backend_thread ?s1 = Joinable" "mesher_thread ?s1 = Joinable"
    "visualizer_thread ?s1 = Joinable"
    by (simp_all add: first_spin_defs constructed_Pipeline_def test_Ext_def stub_Ext_def
        default_Flags_def)
  have fl: "\<not> log_output default_Flags" by (simp add: default_Flags_def)
  have split: "new_events ?s1 (shutdown default_Flags ?s1) =
      take 9 (take 10 (new_events ?s1 (shutdown default_Flags ?s1))) @
      drop 9 (new_events ?s1 (shutdown default_Flags ?s1))"
    by simp
  have seq: "returns (shutdown default_Flags ?s1) \<and>
     new_events ?s1 (shutdown default_Flags ?s1) =
       [QueueShutdown BackendInputQueue, QueueShutdown BackendOutputQueue,
        WorkerShutdown BackendWorker,
        QueueShutdown MesherInputQueue, QueueShutdown MesherOutputQueue,
        WorkerShutdown MesherWorker,
        QueueShutdown VisualizerInputQueue, QueueShutdown VisualizerOutputQueue,
        WorkerShutdown VisualizerWorker,
        ThreadJoin BackendWorker, ThreadJoin MesherWorker, ThreadJoin VisualizerWorker] \<and>
     shutdown_flag (state_of (shutdown default_Flags ?s1))"
    using shutdown_sequence [OF backend, of default_Flags] launched fl
    by (subst split) (simp del: take_take)
  show "vio_backend ?s1 \<noteq> None \<and> backend_thread ?s1 = Joinable \<and>
     mesher_thread ?s1 = Joinable \<and> visualizer_thread ?s1 = Joinable \<and>
     returns (shutdown default_Flags ?s1) \<and>
     new_events ?s1 (shutdown default_Flags ?s1) =
       [QueueShutdown BackendInputQueue, QueueShutdown BackendOutputQueue,
        WorkerShutdown BackendWorker,
        QueueShutdown MesherInputQueue, QueueShutdown MesherOutputQueue,
        WorkerShutdown MesherWorker,
        QueueShutdown VisualizerInputQueue, QueueShutdown VisualizerOutputQueue,
        WorkerShutdown VisualizerWorker,
        ThreadJoin BackendWorker, ThreadJoin MesherWorker, ThreadJoin VisualizerWorker] \<and>
     shutdown_flag (state_of (shutdown default_Flags ?s1))"
    using backend launched seq by (intro conjI) simp_all
qed

text \<open>
  Counterexample to C7 as stated. After the bootstrap call of \<^verbatim>\<open>spin\<close> the back-end exists
  and the three threads run. The first \<^verbatim>\<open>shutdown()\<close> returns; the second one calls
  \<^verbatim>\<open>join()\<close> on the back-end thread, which was joined already, and ends with the
  \<^verbatim>\<open>std::system_error\<close> of that call.
\<close>

theorem shutdown_twice_counterexample:
  "\<forall>tv env fl.
     returns (shutdown fl
                (state_of (spin default_Flags (test_Ext tv (\<lambda>i. False)) env
                             (constructed_Pipeline (tv_frontend tv)) (test_frame tv 1)))) \<and>
     \<not> returns (shutdown fl (state_of (shutdown fl
                (state_of (spin default_Flags (test_Ext tv (\<lambda>i. False)) env
                             (constructed_Pipeline (tv_frontend tv)) (test_frame tv 1)))))) \<and>
     (\<exists>s. shutdown fl (state_of (shutdown fl
                (state_of (spin default_Flags (test_Ext tv (\<lambda>i. False)) env
                             (constructed_Pipeline (tv_frontend tv)) (test_frame tv 1))))) =
            Aborts (StdSystemError BackendWorker) s \<and>
          count_list (events s) (ThreadJoin BackendWorker) = 2)"
  by (simp add: shutdown_defs first_spin_defs constructed_Pipeline_def test_Ext_def stub_Ext_def
      default_Flags_def)

subsection \<open>The structure of one dispatch\<close>

lemma only_appends_fields:
  assumes "only_appends st st'"
  shows "backend_output_queue_shutdown st' = backend_output_queue_shutdown st"
    and "mesher_input_queue_shutdown st' = mesher_input_queue_shutdown st"
    and "mesher_output_queue_shutdown st' = mesher_output_queue_shutdown st"
    and "visualizer_output_queue_shutdown st' = visualizer_output_queue_shutdown st"
    and "stereo_vision_frontend st' = stereo_vision_frontend st"
    and "planes st' = planes st"
proof -
  obtain es where "st' = st\<lparr>events := events st @ es\<rparr>"
    using assms by (blast dest: only_appendsE)
  then show "backend_output_queue_shutdown st' = backend_output_queue_shutdown st"
    and "mesher_input_queue_shutdown st' = mesher_input_queue_shutdown st"
    and "mesher_output_queue_shutdown st' = mesher_output_queue_shutdown st"
    and "visualizer_output_queue_shutdown st' = visualizer_output_queue_shutdown st"
    and "stereo_vision_frontend st' = stereo_vision_frontend st"
    and "planes st' = planes st"
    by simp_all
qed

text \<open>
  Without feature selection, a dispatch is the back-end section, then the switch if the
  back-end pop came back, then the visualizer section if the switch returned; each section
  starts in the state the one before has left and only adds events.
\<close>

lemma processKeyframe_structure:
  fixes fl ex env st k ssm lf tk tlkf stamps accgyr
  defines "B \<equiv> processKeyframe_backend fl ex env st ssm tk stamps accgyr"
  defines "M \<equiv> processKeyframe_mesh fl ex env (state_of B)"
  defines "V \<equiv> processKeyframe_visualize fl ex env (state_of (snd M)) (fst M) lf tk"
  assumes off: "\<not> use_feature_selection fl"
  shows "snd (processKeyframe fl ex env st k ssm lf tk tlkf stamps accgyr) =
           (if returns B then (if returns (snd M) then V else snd M) else B)"
    and "new_events st (snd (processKeyframe fl ex env st k ssm lf tk tlkf stamps accgyr)) =
           new_events st B @
           (if returns B
            then new_events (state_of B) (snd M) @
                 (if returns (snd M) then new_events (state_of (snd M)) V else [])
            else [])"
    and "only_appends st (state_of B)"
    and "only_appends st (state_of (snd M))"
proof -
  have a1: "only_appends st (state_of B)" unfolding B_def by (rule backend_stage_appends)
  have a2: "only_appends (state_of B) (state_of (snd M))"
    unfolding M_def by (rule mesh_stage_appends)
  have a3: "only_appends (state_of (snd M)) (state_of V)"
    unfolding V_def by (rule visualize_stage_appends)
  have a12: "only_appends st (state_of (snd M))" using a1 a2 by (rule only_appends_trans)
  have n2: "new_events st (snd M) = new_events st (Returns (state_of B)) @
      new_events (state_of B) (snd M)"
    using a1 a2 by (rule new_events_trans)
  have n3: "new_events st V = new_events st (Returns (state_of (snd M))) @
      new_events (state_of (snd M)) V"
    using a12 a3 by (rule new_events_trans)
  have nB: "new_events st (Returns (state_of B)) = new_events st B"
    and nM: "new_events st (Returns (state_of (snd M))) = new_events st (snd M)"
    by (simp_all add: new_events_def)
  show out: "snd (processKeyframe fl ex env st k ssm lf tk tlkf stamps accgyr) =
      (if returns B then (if returns (snd M) then V else snd M) else B)"
  proof (cases B)
    case R: (Returns st1)
    obtain l r where Mr: "processKeyframe_mesh fl ex env st1 = (l, r)"
      by (cases "processKeyframe_mesh fl ex env st1")
    have "M = (l, r)" using R Mr by (simp add: M_def)
    then show ?thesis
      using off R Mr unfolding V_def
      by (cases r) (simp_all add: processKeyframe_off B_def [symmetric])
  next
    case (Aborts f st1)
    then show ?thesis using off by (simp add: processKeyframe_off B_def [symmetric])
  next
    case (Suspends st1)
    then show ?thesis using off by (simp add: processKeyframe_off B_def [symmetric])
  qed
  show "new_events st (snd (processKeyframe fl ex env st k ssm lf tk tlkf stamps accgyr)) =
      new_events st B @
      (if returns B
       then new_events (state_of B) (snd M) @
            (if returns (snd M) then new_events (state_of (snd M)) V else [])
       else [])"
    using n2 n3 nB nM by (simp add: out)
  show "only_appends st (state_of B)" by (rule a1)
  show "only_appends st (state_of (snd M))" by (rule a12)
qed

lemma mesh_stage_LandmarkMapQuery:
  "filter is_LandmarkMapQuery (new_events st (snd (processKeyframe_mesh fl ex env st))) =
     (case static_cast_VisualizationType (viz_type fl) of
        POINTCLOUD \<Rightarrow> [GetMapLmkIdsTo3dPointsInTimeHorizon False None]
      | MESH2DTo3Dsparse \<Rightarrow>
          [GetMapLmkIdsTo3dPointsInTimeHorizon (visualize_lmk_type fl)
             (Some (min_num_obs_for_mesher_points fl))]
      | _ \<Rightarrow> [])"
  by (simp add: mesh_stage_defs split: VisualizationType.splits PopResult.splits)

lemma processKeyframe_LandmarkMapQuery:
  "filter is_LandmarkMapQuery
     (new_events st (snd (processKeyframe fl ex env st k ssm lf tk tlkf stamps accgyr))) =
   (if \<not> use_feature_selection fl \<and>
       popBlocking (backend_output_queue_shutdown st) (backend_output env) \<noteq> PopHangs
    then (case static_cast_VisualizationType (viz_type fl) of
            POINTCLOUD \<Rightarrow> [GetMapLmkIdsTo3dPointsInTimeHorizon False None]
          | MESH2DTo3Dsparse \<Rightarrow>
              [GetMapLmkIdsTo3dPointsInTimeHorizon (visualize_lmk_type fl)
                 (Some (min_num_obs_for_mesher_points fl))]
          | _ \<Rightarrow> [])
    else [])"
proof (cases "use_feature_selection fl")
  case True
  then show ?thesis by (simp add: processKeyframe_on)
next
  case off: False
  let ?B = "processKeyframe_backend fl ex env st ssm tk stamps accgyr"
  let ?M = "processKeyframe_mesh fl ex env (state_of ?B)"
  let ?V = "processKeyframe_visualize fl ex env (state_of (snd ?M)) (fst ?M) lf tk"
  have ev: "new_events st (snd (processKeyframe fl ex env st k ssm lf tk tlkf stamps accgyr)) =
      new_events st ?B @
      (if returns ?B
       then new_events (state_of ?B) (snd ?M) @
            (if returns (snd ?M) then new_events (state_of (snd ?M)) ?V else [])
       else [])"
    by (rule processKeyframe_structure(2) [OF off])
  have fB: "filter is_LandmarkMapQuery (new_events st ?B) = []"
    by (simp add: backend_stage_new_events split: PopResult.splits)
  have fV: "filter is_LandmarkMapQuery (new_events (state_of (snd ?M)) ?V) = []"
    by (rule visualize_events_filter(4) [OF visualize_stage_kind])
  show ?thesis
    using off
    by (simp add: ev fB fV mesh_stage_LandmarkMapQuery backend_stage_returns)
qed

text \<open>What the switch computes during one dispatch, by visualization type.\<close>

lemma processKeyframe_mesh_computation:
  assumes off: "\<not> use_feature_selection fl"
    and popped: "popBlocking (backend_output_queue_shutdown st) (backend_output env) \<noteq> PopHangs"
  shows "filter is_mesh_computation
     (new_events st (snd (processKeyframe fl ex env st k ssm lf tk tlkf stamps accgyr))) =
     (case static_cast_VisualizationType (viz_type fl) of
        POINTCLOUD \<Rightarrow> [GetMapLmkIdsTo3dPointsInTimeHorizon False None]
      | POINTCLOUD_REPEATEDPOINTS \<Rightarrow> [Get3DPoints]
      | MESH2D \<Rightarrow> [CreateMesh2D (stereoFrame_lkf (stereo_vision_frontend st))]
      | MESH2Dsparse \<Rightarrow> [CreateMesh2dStereo (stereoFrame_lkf (stereo_vision_frontend st))]
      | MESH2DTo3Dsparse \<Rightarrow>
          [GetMapLmkIdsTo3dPointsInTimeHorizon (visualize_lmk_type fl)
             (Some (min_num_obs_for_mesher_points fl))]
      | _ \<Rightarrow> [])"
proof -
  let ?B = "processKeyframe_backend fl ex env st ssm tk stamps accgyr"
  let ?M = "processKeyframe_mesh fl ex env (state_of ?B)"
  let ?V = "processKeyframe_visualize fl ex env (state_of (snd ?M)) (fst ?M) lf tk"
  have st: "new_events st (snd (processKeyframe fl ex env st k ssm lf tk tlkf stamps accgyr)) =
      new_events st ?B @
      (if returns ?B
       then new_events (state_of ?B) (snd ?M) @
            (if returns (snd ?M) then new_events (state_of (snd ?M)) ?V else [])
       else [])"
    by (rule processKeyframe_structure(2) [OF off])
  have a1: "only_appends st (state_of ?B)" by (rule backend_stage_appends)
  have fe: "stereo_vision_frontend (state_of ?B) = stereo_vision_frontend st"
    using a1 by (rule only_appends_fields)
  have fB: "filter is_mesh_computation (new_events st ?B) = []"
    by (simp add: backend_stage_new_events split: PopResult.splits)
  have fV: "filter is_mesh_computation (new_events (state_of (snd ?M)) ?V) = []"
    by (rule visualize_events_filter(3) [OF visualize_stage_kind])
  show ?thesis
    using popped
    by (simp add: st fB fV mesh_stage_computation backend_stage_returns fe
        split: VisualizationType.splits)
qed

subsection \<open>Landmark-map queries over a run\<close>

text \<open>
  A call of \<^verbatim>\<open>spinOnce\<close> under a visualization type whose switch case asks for no landmark
  map leaves the landmark-map queries of the history as they were.
\<close>

lemma spinOnce_LandmarkMapQuery:
  assumes quiet: "static_cast_VisualizationType (viz_type fl) \<noteq> POINTCLOUD"
    "static_cast_VisualizationType (viz_type fl) \<noteq> MESH2DTo3Dsparse"
  shows "filter is_LandmarkMapQuery (events (state_of (spinOnce fl ex env st pkt))) =
         filter is_LandmarkMapQuery (events st)"
proof (cases "accumulateImu st pkt")
  case acc: (Returns st1)
  have e1: "events st1 = events st"
    using acc by (rule accumulateImu_keeps_Returns)
  let ?st4 = "snd (spinOnce_track ex st1 pkt)"
  let ?ssm = "fst (spinOnce_track ex st1 pkt)"
  let ?st5 = "emit (LogInfoKeyframe (frame_id (stereo_frame pkt)) (length (snd ?ssm))) ?st4"
  let ?pk = "snd (processKeyframe fl ex env ?st5 (frame_id (stereo_frame pkt)) ?ssm
                      (left_frame (stereo_frame pkt)) (frame_timestamp (stereo_frame pkt))
                      (timestamp_lkf_value ex st1)
                      (imu_stamps_lkf_to_curr_f ?st5) (imu_accgyr_lkf_to_curr_f ?st5))"
  have f4: "filter is_LandmarkMapQuery (events ?st4) = filter is_LandmarkMapQuery (events st)"
    by (simp add: spinOnce_track_eq e1)
  show ?thesis
  proof (cases "isKeyframe (stereoFrame_km1 (stereo_vision_frontend ?st4))")
    case False
    then show ?thesis using acc f4 by (simp add: spinOnce_def Let_def)
  next
    case True
    have f5: "filter is_LandmarkMapQuery (events ?st5) = filter is_LandmarkMapQuery (events st)"
      using f4 by (simp add: emit_def)
    have none: "filter is_LandmarkMapQuery (new_events ?st5 ?pk) = []"
      using quiet
      by (simp add: processKeyframe_LandmarkMapQuery split: VisualizationType.splits)
    have "only_appends ?st5 (state_of ?pk)"
      by (rule processKeyframe_appends)
    then have "events (state_of ?pk) = events ?st5 @ new_events ?st5 ?pk"
      by (rule only_appends_events)
    then have "filter is_LandmarkMapQuery (events (state_of ?pk)) =
        filter is_LandmarkMapQuery (events st)"
      using f5 none by simp
    then show ?thesis
      using acc True by (simp add: spinOnce_def Let_def reset_events)
  qed
next
  case (Aborts f st1)
  then show ?thesis
    using accumulateImu_keeps(1) [of st pkt] by (simp add: spinOnce_def)
next
  case (Suspends st1)
  then show ?thesis by (simp add: accumulateImu_never_suspends)
qed

lemma bootstrap_LandmarkMapQuery:
  "filter is_LandmarkMapQuery
     (events (state_of (case initialize fl ex st pkt of
           Returns st1 \<Rightarrow>
             (case launchThreads st1 of
                Returns st2 \<Rightarrow> Returns (st2\<lparr>is_initialized := True\<rparr>)
              | Aborts f st2 \<Rightarrow> Aborts f st2
              | Suspends st2 \<Rightarrow> Suspends st2)
         | Aborts f st1 \<Rightarrow> Aborts f st1
         | Suspends st1 \<Rightarrow> Suspends st1))) =
   filter is_LandmarkMapQuery (events st)"
  by (simp add: initialize_def initBackend_def launchThreads_def emit_def Let_def)

lemma spin_LandmarkMapQuery:
  assumes quiet: "static_cast_VisualizationType (viz_type fl) \<noteq> POINTCLOUD"
    "static_cast_VisualizationType (viz_type fl) \<noteq> MESH2DTo3Dsparse"
  shows "filter is_LandmarkMapQuery (events (state_of (spin fl ex env st pkt))) =
         filter is_LandmarkMapQuery (events st)"
proof (cases "is_initialized st")
  case True
  then show ?thesis by (simp add: spin_def spinOnce_LandmarkMapQuery [OF quiet])
next
  case False
  then show ?thesis by (simp only: spin_def if_True not_False_eq_True bootstrap_LandmarkMapQuery)
qed

lemma spin_all_LandmarkMapQuery:
  assumes quiet: "static_cast_VisualizationType (viz_type fl) \<noteq> POINTCLOUD"
    "static_cast_VisualizationType (viz_type fl) \<noteq> MESH2DTo3Dsparse"
  shows "filter is_LandmarkMapQuery (events (state_of (spin_all fl ex st run))) =
         filter is_LandmarkMapQuery (events st)"
proof (induction run arbitrary: st)
  case Nil
  then show ?case by simp
next
  case (Cons p rest)
  have one: "filter is_LandmarkMapQuery (events (state_of (spin fl ex (snd p) st (fst p)))) =
      filter is_LandmarkMapQuery (events st)"
    by (rule spin_LandmarkMapQuery [OF quiet])
  show ?case
  proof (cases "spin fl ex (snd p) st (fst p)")
    case (Returns st')
    then show ?thesis using one Cons.IH [of st'] by simp
  next
    case (Aborts f st')
    then show ?thesis using one by simp
  next
    case (Suspends st')
    then show ?thesis using one by simp
  qed
qed

subsection \<open>Visualization type dispatch\<close>

text \<open>
  C6 (amended). The visualization type read from the flag decides what is computed before
  the visualizer payload is built, and at most one computation runs per dispatch. In a
  dispatch without feature selection whose back-end pop comes back:
  \<^item> \<^verbatim>\<open>POINTCLOUD\<close> asks the back-end for its landmark map in the time horizon, with
    neither the landmark types nor a minimum number of observations;
  \<^item> \<^verbatim>\<open>POINTCLOUD_REPEATEDPOINTS\<close> calls \<^verbatim>\<open>get3DPoints\<close> and asks for no landmark map;
  \<^item> \<^verbatim>\<open>MESH2D\<close> and \<^verbatim>\<open>MESH2Dsparse\<close> build a 2D mesh from the front-end's
    \<^verbatim>\<open>stereoFrame_lkf_\<close> and ask for no landmark map;
  \<^item> \<^verbatim>\<open>MESH2DTo3Dsparse\<close> is the type that asks for the landmark map filtered by
    \<^verbatim>\<open>FLAGS_min_num_obs_for_mesher_points\<close>, with the landmark types exactly when
    \<^verbatim>\<open>FLAGS_visualize_lmk_type\<close> is set;
  \<^item> \<^verbatim>\<open>NONE\<close>, and the values without a case (\<^verbatim>\<open>MESH2DTo3D\<close>, \<^verbatim>\<open>MESH3D\<close>, any other
    integer), compute nothing.

  With type \<^verbatim>\<open>NONE\<close> the landmark map is asked for at no point of a run of \<^verbatim>\<open>spin\<close> calls
  from the constructed pipeline, whatever the front-end, the workers and the packets do.
\<close>

theorem visualization_mode_dispatch:
  "(\<not> use_feature_selection fl \<and>
    popBlocking (backend_output_queue_shutdown st) (backend_output env) \<noteq> PopHangs \<longrightarrow>
      filter is_mesh_computation
        (new_events st (snd (processKeyframe fl ex env st k ssm lf tk tlkf stamps accgyr))) =
        (case static_cast_VisualizationType (viz_type fl) of
           POINTCLOUD \<Rightarrow> [GetMapLmkIdsTo3dPointsInTimeHorizon False None]
         | POINTCLOUD_REPEATEDPOINTS \<Rightarrow> [Get3DPoints]
         | MESH2D \<Rightarrow> [CreateMesh2D (stereoFrame_lkf (stereo_vision_frontend st))]
         | MESH2Dsparse \<Rightarrow> [CreateMesh2dStereo (stereoFrame_lkf (stereo_vision_frontend st))]
         | MESH2DTo3Dsparse \<Rightarrow>
             [GetMapLmkIdsTo3dPointsInTimeHorizon (visualize_lmk_type fl)
                (Some (min_num_obs_for_mesher_points fl))]
         | _ \<Rightarrow> [])) \<and>
   length (filter is_mesh_computation
     (new_events st (snd (processKeyframe fl ex env st k ssm lf tk tlkf stamps accgyr)))) \<le> 1 \<and>
   (static_cast_VisualizationType (viz_type fl) = NONE \<longrightarrow>
      filter is_LandmarkMapQuery
        (events (state_of (spin_all fl ex (constructed_Pipeline fe) run))) = [])"
proof (intro conjI impI)
  assume "\<not> use_feature_selection fl \<and>
    popBlocking (backend_output_queue_shutdown st) (backend_output env) \<noteq> PopHangs"
  then show "filter is_mesh_computation
        (new_events st (snd (processKeyframe fl ex env st k ssm lf tk tlkf stamps accgyr))) =
        (case static_cast_VisualizationType (viz_type fl) of
           POINTCLOUD \<Rightarrow> [GetMapLmkIdsTo3dPointsInTimeHorizon False None]
         | POINTCLOUD_REPEATEDPOINTS \<Rightarrow> [Get3DPoints]
         | MESH2D \<Rightarrow> [CreateMesh2D (stereoFrame_lkf (stereo_vision_frontend st))]
         | MESH2Dsparse \<Rightarrow> [CreateMesh2dStereo (stereoFrame_lkf (stereo_vision_frontend st))]
         | MESH2DTo3Dsparse \<Rightarrow>
             [GetMapLmkIdsTo3dPointsInTimeHorizon (visualize_lmk_type fl)
                (Some (min_num_obs_for_mesher_points fl))]
         | _ \<Rightarrow> [])"
    by (simp add: processKeyframe_mesh_computation)
next
  show "length (filter is_mesh_computation
     (new_events st (snd (processKeyframe fl ex env st k ssm lf tk tlkf stamps accgyr)))) \<le> 1"
  proof (cases "use_feature_selection fl")
    case True
    then show ?thesis by (simp add: processKeyframe_on)
  next
    case off: False
    show ?thesis
    proof (cases "popBlocking (backend_output_queue_shutdown st) (backend_output env) = PopHangs")
      case True
      let ?B = "processKeyframe_backend fl ex env st ssm tk stamps accgyr"
      have "\<not> returns ?B" using True by (simp add: backend_stage_returns)
      then have "new_events st
          (snd (processKeyframe fl ex env st k ssm lf tk tlkf stamps accgyr)) = new_events st ?B"
        by (simp add: processKeyframe_structure(2) [OF off])
      then show ?thesis
        by (simp add: backend_stage_new_events split: PopResult.splits)
    next
      case False
      then show ?thesis
        using off
        by (simp add: processKeyframe_mesh_computation split: VisualizationType.splits)
    qed
  qed
next
  assume "static_cast_VisualizationType (viz_type fl) = NONE"
  then have "filter is_LandmarkMapQuery
      (events (state_of (spin_all fl ex (constructed_Pipeline fe) run))) =
      filter is_LandmarkMapQuery (events (constructed_Pipeline fe))"
    by (intro spin_all_LandmarkMapQuery) simp_all
  then show "filter is_LandmarkMapQuery
      (events (state_of (spin_all fl ex (constructed_Pipeline fe) run))) = []"
    by (simp add: constructed_Pipeline_def)
qed

theorem visualization_mode_dispatch_witness:
  "\<forall>tv k ssm lf tk tlkf stamps accgyr.
     \<not> use_feature_selection (default_Flags\<lparr>viz_type := 5\<rparr>) \<and>
     popBlocking
       (backend_output_queue_shutdown
          (state_of (test_run tv (default_Flags\<lparr>viz_type := 5\<rparr>) (\<lambda>i. False) [1])))
       (backend_output (test_Env tv)) \<noteq> PopHangs \<and>
     filter is_mesh_computation
       (new_events (state_of (test_run tv (default_Flags\<lparr>viz_type := 5\<rparr>) (\<lambda>i. False) [1]))
          (snd (processKeyframe (default_Flags\<lparr>viz_type := 5\<rparr>) (test_Ext tv (\<lambda>i. False))
                  (test_Env tv)
                  (state_of (test_run tv (default_Flags\<lparr>viz_type := 5\<rparr>) (\<lambda>i. False) [1]))
                  k ssm lf tk tlkf stamps accgyr))) =
       [GetMapLmkIdsTo3dPointsInTimeHorizon False (Some 4)] \<and>
     static_cast_VisualizationType (viz_type (default_Flags\<lparr>viz_type := 7\<rparr>)) = NONE \<and>
     filter is_mesh_computation
       (new_events (state_of (test_run tv (default_Flags\<lparr>viz_type := 7\<rparr>) (\<lambda>i. False) [1]))
          (snd (processKeyframe (default_Flags\<lparr>viz_type := 7\<rparr>) (test_Ext tv (\<lambda>i. False))
                  (test_Env tv)
                  (state_of (test_run tv (default_Flags\<lparr>viz_type := 7\<rparr>) (\<lambda>i. False) [1]))
                  k ssm lf tk tlkf stamps accgyr))) = [] \<and>
     filter is_LandmarkMapQuery
       (events (state_of (test_run tv (default_Flags\<lparr>viz_type := 7\<rparr>) (\<lambda>i. i = 2)
                            [1, 2, 3, 4]))) = []"
proof (intro allI)
  fix tv k ssm lf tk tlkf stamps accgyr
  let ?five = "default_Flags\<lparr>viz_type := 5\<rparr>"
  let ?seven = "default_Flags\<lparr>viz_type := 7\<rparr>"
  let ?st5 = "state_of (test_run (tv :: TestValues) ?five (\<lambda>i. False) [1])"
  let ?st7 = "state_of (test_run (tv :: TestValues) ?seven (\<lambda>i. False) [1])"
  let ?ex = "test_Ext tv (\<lambda>i. False)"
  have popped:
    "popBlocking (backend_output_queue_shutdown ?st5) (backend_output (test_Env tv)) \<noteq> PopHangs"
    "popBlocking (backend_output_queue_shutdown ?st7) (backend_output (test_Env tv)) \<noteq> PopHangs"
    by (simp_all add: test_run_def first_spin_defs constructed_Pipeline_def test_Ext_def
        stub_Ext_def default_Flags_def test_Env_def ready_Env_def popBlocking_def)
  have off: "\<not> use_feature_selection ?five" "\<not> use_feature_selection ?seven"
    by (simp_all add: default_Flags_def)
  have ty: "static_cast_VisualizationType (viz_type ?five) = MESH2DTo3Dsparse"
    "static_cast_VisualizationType (viz_type ?seven) = NONE"
    by (simp_all add: static_cast_VisualizationType_def)
  have fl: "visualize_lmk_type ?five = False" "min_num_obs_for_mesher_points ?five = 4"
    by (simp_all add: default_Flags_def)
  have five: "filter is_mesh_computation
       (new_events ?st5
          (snd (processKeyframe ?five ?ex (test_Env tv) ?st5 k ssm lf tk tlkf stamps accgyr))) =
       [GetMapLmkIdsTo3dPointsInTimeHorizon False (Some 4)]"
    using visualization_mode_dispatch [of ?five ?st5 "test_Env tv" ?ex k ssm lf tk tlkf
        stamps accgyr "tv_frontend tv" "[]"]
      popped(1) off(1) ty(1) fl
    by simp
  have seven: "filter is_mesh_computation
       (new_events ?st7
          (snd (processKeyframe ?seven ?ex (test_Env tv) ?st7 k ssm lf tk tlkf stamps accgyr))) =
       [] \<and>
     filter is_LandmarkMapQuery
       (events (state_of (test_run tv ?seven (\<lambda>i. i = 2) [1, 2, 3, 4]))) = []"
    using visualization_mode_dispatch [of ?seven ?st7 "test_Env tv" ?ex k ssm lf tk tlkf
        stamps accgyr "tv_frontend tv" "[]"]
      visualization_mode_dispatch [of ?seven ?st7 "test_Env tv" "test_Ext tv (\<lambda>i. i = 2)" k
        ssm lf tk tlkf stamps accgyr "tv_frontend tv"
        "map (\<lambda>i. (test_frame tv i, test_Env tv)) [1, 2, 3, 4]"]
      popped(2) off(2) ty(2)
    by (simp add: test_run_def del: spin_all.simps)
  show "\<not> use_feature_selection ?five \<and>
     popBlocking (backend_output_queue_shutdown ?st5) (backend_output (test_Env tv)) \<noteq> PopHangs \<and>
     filter is_mesh_computation
       (new_events ?st5
          (snd (processKeyframe ?five ?ex (test_Env tv) ?st5 k ssm lf tk tlkf stamps accgyr))) =
       [GetMapLmkIdsTo3dPointsInTimeHorizon False (Some 4)] \<and>
     static_cast_VisualizationType (viz_type ?seven) = NONE \<and>
     filter is_mesh_computation
       (new_events ?st7
          (snd (processKeyframe ?seven ?ex (test_Env tv) ?st7 k ssm lf tk tlkf stamps accgyr))) =
       [] \<and>
     filter is_LandmarkMapQuery
       (events (state_of (test_run tv ?seven (\<lambda>i. i = 2) [1, 2, 3, 4]))) = []"
    using off(1) popped(1) five ty(2) seven by (intro conjI) simp_all
qed

text \<open>
  Counterexample to C6 as stated: what it says of the point-cloud types fails at both. The
  runs feed frames 1 to 3, the stub front-end marks frame 2, every worker output is ready,
  landmark types are requested and four observations required. Each run returns after one
  dispatch (while frame 3 is processed). Under \<^verbatim>\<open>POINTCLOUD_REPEATEDPOINTS\<close> (flag value 1)
  the run calls \<^verbatim>\<open>get3DPoints\<close> and never asks for the landmark map; under \<^verbatim>\<open>POINTCLOUD\<close>
  (flag value 0) the landmark map is asked for with neither the types nor the number of
  observations.
\<close>

theorem point_cloud_query_counterexample:
  "\<forall>tv.
     returns (test_run tv (default_Flags\<lparr>viz_type := 1, visualize_lmk_type := True\<rparr>)
                (\<lambda>i. i = 2) [1, 2, 3]) \<and>
     filter is_LogInfoKeyframe
       (events (state_of (test_run tv (default_Flags\<lparr>viz_type := 1, visualize_lmk_type := True\<rparr>)
                            (\<lambda>i. i = 2) [1, 2, 3]))) = [LogInfoKeyframe 3 1] \<and>
     filter is_LandmarkMapQuery
       (events (state_of (test_run tv (default_Flags\<lparr>viz_type := 1, visualize_lmk_type := True\<rparr>)
                            (\<lambda>i. i = 2) [1, 2, 3]))) = [] \<and>
     filter is_mesh_computation
       (events (state_of (test_run tv (default_Flags\<lparr>viz_type := 1, visualize_lmk_type := True\<rparr>)
                            (\<lambda>i. i = 2) [1, 2, 3]))) = [Get3DPoints] \<and>
     returns (test_run tv (default_Flags\<lparr>viz_type := 0, visualize_lmk_type := True\<rparr>)
                (\<lambda>i. i = 2) [1, 2, 3]) \<and>
     filter is_mesh_computation
       (events (state_of (test_run tv (default_Flags\<lparr>viz_type := 0, visualize_lmk_type := True\<rparr>)
                            (\<lambda>i. i = 2) [1, 2, 3]))) =
       [GetMapLmkIdsTo3dPointsInTimeHorizon False None]"
  by (simp add: run_defs split: option.splits)

subsection \<open>Worker outputs that do not arrive\<close>

lemma mesh_stage_sparse_failed:
  assumes ty: "static_cast_VisualizationType (viz_type fl) = MESH2DTo3Dsparse"
    and pushed: "push_succeeds (mesher_input_queue_shutdown st)"
    and failed: "popBlocking (mesher_output_queue_shutdown st) (mesher_output env) = PopFailed"
  shows "returns (snd (processKeyframe_mesh fl ex env st))"
    and "mesher_output_payload (fst (processKeyframe_mesh fl ex env st)) =
           default_MesherOutputPayload"
    and "\<exists>p. new_events st (snd (processKeyframe_mesh fl ex env st)) =
           [GetMapLmkIdsTo3dPointsInTimeHorizon (visualize_lmk_type fl)
              (Some (min_num_obs_for_mesher_points fl)),
            MesherInputPush p, MesherOutputPopBlocking,
            LogWarning ''Mesher output queue did not pop a payload.'']"
  using ty pushed failed by (simp_all add: mesh_stage_defs)

lemma mesh_stage_returns:
  "returns (snd (processKeyframe_mesh fl ex env st)) =
     (static_cast_VisualizationType (viz_type fl) = MESH2DTo3Dsparse \<longrightarrow>
        push_succeeds (mesher_input_queue_shutdown st) \<and>
        popBlocking (mesher_output_queue_shutdown st) (mesher_output env) \<noteq> PopHangs)"
  by (simp add: mesh_stage_defs split: VisualizationType.splits PopResult.splits)

lemma visualize_stage_returns:
  "returns (processKeyframe_visualize fl ex env st l lf tk) =
     (visualize fl \<longrightarrow>
        popBlocking (visualizer_output_queue_shutdown st) (visualizer_output env) \<noteq> PopHangs)"
  by (simp add: visualize_stage Let_def split: PopResult.splits)

lemma visualize_stage_pushes:
  "visualizer_pushes (new_events st (processKeyframe_visualize fl ex env st l lf tk)) =
     (if visualize fl then [visualizer_input_payload fl ex env st l lf tk] else [])"
  by (simp add: visualize_stage Let_def split: PopResult.splits option.splits)

lemma visualize_stage_no_mesher_warning:
  "count_list (new_events st (processKeyframe_visualize fl ex env st l lf tk))
     (LogWarning ''Mesher output queue did not pop a payload.'') = 0"
  by (simp add: visualize_stage Let_def count_list_0_iff image_iff
      split: PopResult.splits option.splits)

lemma visualize_stage_failed:
  assumes on: "visualize fl"
    and failed: "popBlocking (visualizer_output_queue_shutdown st) (visualizer_output env) =
                   PopFailed"
  shows "returns (processKeyframe_visualize fl ex env st l lf tk)"
    and "last (new_events st (processKeyframe_visualize fl ex env st l lf tk)) =
           LogWarning ''Visualizer is lagging behind pipeline processing.''"
    and "new_events st (processKeyframe_visualize fl ex env st l lf tk) \<noteq> []"
    and "filter is_display (new_events st (processKeyframe_visualize fl ex env st l lf tk)) = []"
  using on failed by (simp_all add: visualize_stage Let_def split: option.splits)

lemma backend_stage_quiet:
  "visualizer_pushes
     (new_events st (processKeyframe_backend fl ex env st ssm tk stamps accgyr)) = []"
  "filter is_display
     (new_events st (processKeyframe_backend fl ex env st ssm tk stamps accgyr)) = []"
  "count_list (new_events st (processKeyframe_backend fl ex env st ssm tk stamps accgyr))
     (LogWarning msg) = 0"
  "\<forall>e \<in> set (new_events st (processKeyframe_backend fl ex env st ssm tk stamps accgyr)).
     e \<noteq> LogWarning msg"
  by (auto simp add: backend_stage_new_events split: PopResult.splits)

lemma mesh_stage_quiet:
  "visualizer_pushes (new_events st (snd (processKeyframe_mesh fl ex env st))) = []"
  "filter is_display (new_events st (snd (processKeyframe_mesh fl ex env st))) = []"
proof -
  have k: "list_all is_mesh_stage_event (new_events st (snd (processKeyframe_mesh fl ex env st)))"
    by (rule mesh_stage_kind)
  then have "list_all (\<lambda>e. \<not> is_display e)
      (new_events st (snd (processKeyframe_mesh fl ex env st)))"
    by (auto simp: list_all_iff dest: mesh_event_kinds)
  then show "filter is_display (new_events st (snd (processKeyframe_mesh fl ex env st))) = []"
    by (rule filter_none)
  show "visualizer_pushes (new_events st (snd (processKeyframe_mesh fl ex env st))) = []"
    by (simp add: mesh_stage_defs split: VisualizationType.splits PopResult.splits)
qed

text \<open>
  C9. In a dispatch that reaches the mesher (no feature selection, the back-end pop comes
  back, visualization type \<^verbatim>\<open>MESH2DTo3Dsparse\<close>, the push to the mesher accepted), a
  \<^verbatim>\<open>popBlocking\<close> of the mesher output that fails is not fatal: the warning is logged once,
  no fatal error ends the dispatch, and control goes on to the visualizer section. With
  visualization enabled the one visualizer payload of the dispatch is pushed after the
  warning and carries the default-constructed mesher output; the dispatch returns unless
  the pop of the visualizer output never comes back.
\<close>

theorem mesher_pop_failure_tolerated:
  assumes off: "\<not> use_feature_selection fl"
    and ty: "static_cast_VisualizationType (viz_type fl) = MESH2DTo3Dsparse"
    and popped: "popBlocking (backend_output_queue_shutdown st) (backend_output env) \<noteq> PopHangs"
    and pushed: "push_succeeds (mesher_input_queue_shutdown st)"
    and failed: "popBlocking (mesher_output_queue_shutdown st) (mesher_output env) = PopFailed"
  shows "(\<forall>f s. snd (processKeyframe fl ex env st k ssm lf tk tlkf stamps accgyr) \<noteq> Aborts f s) \<and>
     returns (snd (processKeyframe fl ex env st k ssm lf tk tlkf stamps accgyr)) =
       (visualize fl \<longrightarrow>
          popBlocking (visualizer_output_queue_shutdown st) (visualizer_output env) \<noteq> PopHangs) \<and>
     count_list (new_events st (snd (processKeyframe fl ex env st k ssm lf tk tlkf stamps accgyr)))
       (LogWarning ''Mesher output queue did not pop a payload.'') = 1 \<and>
     map vi_mesher_output_payload
       (visualizer_pushes
          (new_events st (snd (processKeyframe fl ex env st k ssm lf tk tlkf stamps accgyr)))) =
       (if visualize fl then [default_MesherOutputPayload] else []) \<and>
     visualizer_pushes
       (dropWhile (\<lambda>e. e \<noteq> LogWarning ''Mesher output queue did not pop a payload.'')
          (new_events st (snd (processKeyframe fl ex env st k ssm lf tk tlkf stamps accgyr)))) =
       visualizer_pushes
         (new_events st (snd (processKeyframe fl ex env st k ssm lf tk tlkf stamps accgyr)))"
proof -
  let ?w = "LogWarning ''Mesher output queue did not pop a payload.''"
  let ?B = "processKeyframe_backend fl ex env st ssm tk stamps accgyr"
  let ?M = "processKeyframe_mesh fl ex env (state_of ?B)"
  let ?V = "processKeyframe_visualize fl ex env (state_of (snd ?M)) (fst ?M) lf tk"
  let ?pk = "snd (processKeyframe fl ex env st k ssm lf tk tlkf stamps accgyr)"
  let ?EB = "new_events st ?B"
  let ?EM = "new_events (state_of ?B) (snd ?M)"
  let ?EV = "new_events (state_of (snd ?M)) ?V"
  have a1: "only_appends st (state_of ?B)"
    and a12: "only_appends st (state_of (snd ?M))"
    by (rule processKeyframe_structure(3) [OF off], rule processKeyframe_structure(4) [OF off])
  have rB: "returns ?B" using popped by (simp add: backend_stage_returns)
  have pushed': "push_succeeds (mesher_input_queue_shutdown (state_of ?B))"
    using pushed only_appends_fields(2) [OF a1] by simp
  have failed': "popBlocking (mesher_output_queue_shutdown (state_of ?B)) (mesher_output env) =
      PopFailed"
    using failed only_appends_fields(3) [OF a1] by simp
  have rM: "returns (snd ?M)"
    and dM: "mesher_output_payload (fst ?M) = default_MesherOutputPayload"
    by (rule mesh_stage_sparse_failed [OF ty pushed' failed'])+
  obtain p where EM: "?EM =
      [GetMapLmkIdsTo3dPointsInTimeHorizon (visualize_lmk_type fl)
         (Some (min_num_obs_for_mesher_points fl)),
       MesherInputPush p, MesherOutputPopBlocking, ?w]"
    using mesh_stage_sparse_failed(3) [OF ty pushed' failed'] by blast
  have out: "?pk = ?V"
    using processKeyframe_structure(1) [OF off]
      rB rM by simp
  have ev: "new_events st ?pk = ?EB @ ?EM @ ?EV"
    using processKeyframe_structure(2) [OF off]
      rB rM by simp
  have vq: "visualizer_output_queue_shutdown (state_of (snd ?M)) =
      visualizer_output_queue_shutdown st"
    using a12 by (rule only_appends_fields)
  have no_abort: "\<forall>f s. ?pk \<noteq> Aborts f s"
    unfolding out by (simp add: visualize_stage_never_aborts)
  have ret: "returns ?pk =
      (visualize fl \<longrightarrow>
         popBlocking (visualizer_output_queue_shutdown st) (visualizer_output env) \<noteq> PopHangs)"
    unfolding out by (simp add: visualize_stage_returns vq)
  have once: "count_list (new_events st ?pk) ?w = 1"
    by (simp add: ev EM backend_stage_quiet(3) visualize_stage_no_mesher_warning)
  have pushes: "visualizer_pushes (new_events st ?pk) = visualizer_pushes ?EV"
    by (simp add: ev EM backend_stage_quiet(1))
  have payload: "map vi_mesher_output_payload (visualizer_pushes (new_events st ?pk)) =
      (if visualize fl then [default_MesherOutputPayload] else [])"
    by (simp add: pushes visualize_stage_pushes visualizer_input_payload_def dM)
  have "dropWhile (\<lambda>e. e \<noteq> ?w) (?EB @ ?EM @ ?EV) = dropWhile (\<lambda>e. e \<noteq> ?w) (?EM @ ?EV)"
    using backend_stage_quiet(4) [of st fl ex env ssm tk stamps accgyr]
    by (intro dropWhile_append2) blast
  then have "dropWhile (\<lambda>e. e \<noteq> ?w) (new_events st ?pk) = ?w # ?EV"
    by (simp add: ev EM)
  then have after: "visualizer_pushes (dropWhile (\<lambda>e. e \<noteq> ?w) (new_events st ?pk)) =
      visualizer_pushes (new_events st ?pk)"
    by (simp add: pushes)
  show ?thesis
    using no_abort ret once payload after by (intro conjI)
qed

theorem mesher_pop_failure_tolerated_witness:
  "\<forall>tv k ssm lf tk tlkf stamps accgyr.
     \<not> use_feature_selection (default_Flags\<lparr>viz_type := 5\<rparr>) \<and>
     static_cast_VisualizationType (viz_type (default_Flags\<lparr>viz_type := 5\<rparr>)) =
       MESH2DTo3Dsparse \<and>
     popBlocking (backend_output_queue_shutdown (constructed_Pipeline (tv_frontend tv)))
       (backend_output ((test_Env tv)\<lparr>mesher_output := ShutDown\<rparr>)) \<noteq> PopHangs \<and>
     push_succeeds (mesher_input_queue_shutdown (constructed_Pipeline (tv_frontend tv))) \<and>
     popBlocking (mesher_output_queue_shutdown (constructed_Pipeline (tv_frontend tv)))
       (mesher_output ((test_Env tv)\<lparr>mesher_output := ShutDown\<rparr>)) = PopFailed \<and>
     returns (snd (processKeyframe (default_Flags\<lparr>viz_type := 5\<rparr>) (tv_ext tv)
                     ((test_Env tv)\<lparr>mesher_output := ShutDown\<rparr>)
                     (constructed_Pipeline (tv_frontend tv)) k ssm lf tk tlkf stamps accgyr)) \<and>
     count_list
       (new_events (constructed_Pipeline (tv_frontend tv))
          (snd (processKeyframe (default_Flags\<lparr>viz_type := 5\<rparr>) (tv_ext tv)
                  ((test_Env tv)\<lparr>mesher_output := ShutDown\<rparr>)
                  (constructed_Pipeline (tv_frontend tv)) k ssm lf tk tlkf stamps accgyr)))
       (LogWarning ''Mesher output queue did not pop a payload.'') = 1 \<and>
     map vi_mesher_output_payload
       (visualizer_pushes
          (new_events (constructed_Pipeline (tv_frontend tv))
             (snd (processKeyframe (default_Flags\<lparr>viz_type := 5\<rparr>) (tv_ext tv)
                     ((test_Env tv)\<lparr>mesher_output := ShutDown\<rparr>)
                     (constructed_Pipeline (tv_frontend tv)) k ssm lf tk tlkf stamps accgyr)))) =
       [\<lparr>mo_mesh_2d = [], mo_mesh_3d = []\<rparr>]"
proof (intro allI)
  fix tv k ssm lf tk tlkf stamps accgyr
  let ?st = "constructed_Pipeline (tv_frontend (tv :: TestValues))"
  let ?fl = "default_Flags\<lparr>viz_type := 5\<rparr>"
  let ?env = "(test_Env tv)\<lparr>mesher_output := ShutDown\<rparr>"
  have off: "\<not> use_feature_selection ?fl" and on: "visualize ?fl"
    by (simp_all add: default_Flags_def)
  have ty: "static_cast_VisualizationType (viz_type ?fl) = MESH2DTo3Dsparse"
    by (simp add: static_cast_VisualizationType_def)
  have popped: "popBlocking (backend_output_queue_shutdown ?st) (backend_output ?env) \<noteq> PopHangs"
    and vpopped: "popBlocking (visualizer_output_queue_shutdown ?st) (visualizer_output ?env) \<noteq>
      PopHangs"
    by (simp_all add: constructed_Pipeline_def test_Env_def ready_Env_def popBlocking_def)
  have pushed: "push_succeeds (mesher_input_queue_shutdown ?st)"
    by (simp add: constructed_Pipeline_def push_succeeds_def)
  have failed: "popBlocking (mesher_output_queue_shutdown ?st) (mesher_output ?env) = PopFailed"
    by (simp add: constructed_Pipeline_def popBlocking_def)
  show "\<not> use_feature_selection ?fl \<and>
     static_cast_VisualizationType (viz_type ?fl) = MESH2DTo3Dsparse \<and>
     popBlocking (backend_output_queue_shutdown ?st) (backend_output ?env) \<noteq> PopHangs \<and>
     push_succeeds (mesher_input_queue_shutdown ?st) \<and>
     popBlocking (mesher_output_queue_shutdown ?st) (mesher_output ?env) = PopFailed \<and>
     returns (snd (processKeyframe ?fl (tv_ext tv) ?env ?st k ssm lf tk tlkf stamps accgyr)) \<and>
     count_list
       (new_events ?st
          (snd (processKeyframe ?fl (tv_ext tv) ?env ?st k ssm lf tk tlkf stamps accgyr)))
       (LogWarning ''Mesher output queue did not pop a payload.'') = 1 \<and>
     map vi_mesher_output_payload
       (visualizer_pushes
          (new_events ?st
             (snd (processKeyframe ?fl (tv_ext tv) ?env ?st k ssm lf tk tlkf stamps accgyr)))) =
       [\<lparr>mo_mesh_2d = [], mo_mesh_3d = []\<rparr>]"
    using mesher_pop_failure_tolerated [OF off ty popped pushed failed,
        of "tv_ext tv" k ssm lf tk tlkf stamps accgyr]
      off ty popped pushed failed on vpopped
    by (simp add: default_MesherOutputPayload_def)
qed

subsection \<open>The pop of the visualizer output\<close>

text \<open>
  C3. The runs feed frames 1 to 3 with the default flags (visualization enabled); the stub
  front-end marks frame 2, so the dispatch happens while frame 3 is processed, on a pipeline
  that the first call of \<^verbatim>\<open>spin\<close> has initialised. Line 413 pops the visualizer output
  with \<^verbatim>\<open>popBlocking\<close>:
  \<^item> when the visualizer has not delivered and never does, the dispatch stays in the pop
    after its one push: no warning is logged and the call does not return;
  \<^item> when the output arrives only after the pop has begun, the orchestrator has waited for
    it: it is rendered, and no warning is logged;
  \<^item> the warning of \<^verbatim>\<open>spinDisplayOnce\<close> is logged, and the render skipped, only when the
    pop comes back empty, because the queue is shut down while the orchestrator waits.
\<close>

theorem visualizer_pop_blocks:
  "\<forall>tv.
     spin_all default_Flags (test_Ext tv (\<lambda>i. i = 2)) (constructed_Pipeline (tv_frontend tv))
       [(test_frame tv 1, test_Env tv), (test_frame tv 2, test_Env tv),
        (test_frame tv 3, (test_Env tv)\<lparr>visualizer_output := Silent\<rparr>)] =
     Suspends (state_of
       (spin_all default_Flags (test_Ext tv (\<lambda>i. i = 2)) (constructed_Pipeline (tv_frontend tv))
          [(test_frame tv 1, test_Env tv), (test_frame tv 2, test_Env tv),
           (test_frame tv 3, (test_Env tv)\<lparr>visualizer_output := Silent\<rparr>)])) \<and>
     filter is_visualize_stage_event
       (events (state_of
          (spin_all default_Flags (test_Ext tv (\<lambda>i. i = 2))
             (constructed_Pipeline (tv_frontend tv))
             [(test_frame tv 1, test_Env tv), (test_frame tv 2, test_Env tv),
              (test_frame tv 3, (test_Env tv)\<lparr>visualizer_output := Silent\<rparr>)]))) =
       map VisualizerInputPush
         (visualizer_pushes (events (state_of
            (spin_all default_Flags (test_Ext tv (\<lambda>i. i = 2))
               (constructed_Pipeline (tv_frontend tv))
               [(test_frame tv 1, test_Env tv), (test_frame tv 2, test_Env tv),
                (test_frame tv 3, (test_Env tv)\<lparr>visualizer_output := Silent\<rparr>)])))) @
       [VisualizerOutputPopBlocking] \<and>
     length (visualizer_pushes (events (state_of
       (spin_all default_Flags (test_Ext tv (\<lambda>i. i = 2)) (constructed_Pipeline (tv_frontend tv))
          [(test_frame tv 1, test_Env tv), (test_frame tv 2, test_Env tv),
           (test_frame tv 3, (test_Env tv)\<lparr>visualizer_output := Silent\<rparr>)])))) = 1 \<and>
     returns
       (spin_all default_Flags (test_Ext tv (\<lambda>i. i = 2)) (constructed_Pipeline (tv_frontend tv))
          [(test_frame tv 1, test_Env tv), (test_frame tv 2, test_Env tv),
           (test_frame tv 3,
            (test_Env tv)\<lparr>visualizer_output :=
               Later ((tv_visualizer_output tv)\<lparr>vo_visualization_type := POINTCLOUD\<rparr>)\<rparr>)]) \<and>
     filter is_visualize_stage_event
       (events (state_of
          (spin_all default_Flags (test_Ext tv (\<lambda>i. i = 2))
             (constructed_Pipeline (tv_frontend tv))
             [(test_frame tv 1, test_Env tv), (test_frame tv 2, test_Env tv),
              (test_frame tv 3,
               (test_Env tv)\<lparr>visualizer_output :=
                  Later ((tv_visualizer_output tv)\<lparr>vo_visualization_type := POINTCLOUD\<rparr>)\<rparr>)]))) =
       map VisualizerInputPush
         (visualizer_pushes (events (state_of
            (spin_all default_Flags (test_Ext tv (\<lambda>i. i = 2))
               (constructed_Pipeline (tv_frontend tv))
               [(test_frame tv 1, test_Env tv), (test_frame tv 2, test_Env tv),
                (test_frame tv 3,
                 (test_Env tv)\<lparr>visualizer_output :=
                    Later ((tv_visualizer_output tv)
                             \<lparr>vo_visualization_type := POINTCLOUD\<rparr>)\<rparr>)])))) @
       [VisualizerOutputPopBlocking, WindowSpinOnce] @
       map ImShow (vo_images_to_display (tv_visualizer_output tv)) @ [WaitKey] \<and>
     returns
       (spin_all default_Flags (test_Ext tv (\<lambda>i. i = 2)) (constructed_Pipeline (tv_frontend tv))
          [(test_frame tv 1, test_Env tv), (test_frame tv 2, test_Env tv),
           (test_frame tv 3, (test_Env tv)\<lparr>visualizer_output := ShutDown\<rparr>)]) \<and>
     filter is_visualize_stage_event
       (events (state_of
          (spin_all default_Flags (test_Ext tv (\<lambda>i. i = 2))
             (constructed_Pipeline (tv_frontend tv))
             [(test_frame tv 1, test_Env tv), (test_frame tv 2, test_Env tv),
              (test_frame tv 3, (test_Env tv)\<lparr>visualizer_output := ShutDown\<rparr>)]))) =
       map VisualizerInputPush
         (visualizer_pushes (events (state_of
            (spin_all default_Flags (test_Ext tv (\<lambda>i. i = 2))
               (constructed_Pipeline (tv_frontend tv))
               [(test_frame tv 1, test_Env tv), (test_frame tv 2, test_Env tv),
                (test_frame tv 3, (test_Env tv)\<lparr>visualizer_output := ShutDown\<rparr>)])))) @
       [VisualizerOutputPopBlocking,
        LogWarning ''Visualizer is lagging behind pipeline processing.'']"
  by (simp add: run_defs split: option.splits)


end
